theory Spec2Isabelle
  imports Complex_Main "HOL-Library.Word" "HOL-Library.AList"
begin

unbundle bit_operations_syntax

chapter \<open>Material color utilities: embedding and verified properties\<close>

text \<open>
  The TypeScript library computes with IEEE doubles and with 32-bit integers. In this
  development a JavaScript number that carries a measurement (a tone, a hue, a
  luminance) is a \<^typ>\<open>real\<close>, so rounding error, infinities and NaN are not part of the
  model; a number that carries a packed colour is a \<^typ>\<open>32 word\<close>; a number that
  carries a channel or a count is an \<^typ>\<open>int\<close> or a \<^typ>\<open>nat\<close>.
  \<open>Math.pow\<close> is \<^const>\<open>powr\<close> (the library only raises non-negative bases to
  fractional powers on the paths studied here), \<open>Math.round\<close> rounds half up, and the
  remainder operator \<open>%\<close> truncates towards zero.
\<close>

section \<open>JavaScript arithmetic\<close>

type_synonym argb = "32 word"

definition jsRound :: "real \<Rightarrow> int" where
  "jsRound x = \<lfloor>x + 1 / 2\<rfloor>"

definition jsTrunc :: "real \<Rightarrow> int" where
  "jsTrunc x = (if x < 0 then \<lceil>x\<rceil> else \<lfloor>x\<rfloor>)"

definition jsRem :: "real \<Rightarrow> real \<Rightarrow> real" where
  "jsRem n d = n - d * of_int (jsTrunc (n / d))"

definition jsAtan2 :: "real \<Rightarrow> real \<Rightarrow> real" where
  "jsAtan2 y x =
     (if x > 0 then arctan (y / x)
      else if x < 0 then (if y \<ge> 0 then arctan (y / x) + pi else arctan (y / x) - pi)
      else if y > 0 then pi / 2
      else if y < 0 then - (pi / 2)
      else 0)"

section \<open>utils/math\_utils.ts\<close>

definition signum :: "real \<Rightarrow> real" where
  "signum num = (if num < 0 then - 1 else if num = 0 then 0 else 1)"

definition lerp :: "real \<Rightarrow> real \<Rightarrow> real \<Rightarrow> real" where
  "lerp start stop amount = (1 - amount) * start + amount * stop"

definition clampInt :: "int \<Rightarrow> int \<Rightarrow> int \<Rightarrow> int" where
  "clampInt mn mx input = (if input < mn then mn else if input > mx then mx else input)"

definition clampDouble :: "real \<Rightarrow> real \<Rightarrow> real \<Rightarrow> real" where
  "clampDouble mn mx input = (if input < mn then mn else if input > mx then mx else input)"

definition sanitizeDegreesDouble :: "real \<Rightarrow> real" where
  "sanitizeDegreesDouble degrees =
     (let degrees = jsRem degrees 360
      in if degrees < 0 then degrees + 360 else degrees)"

definition matrixMultiply :: "real list \<Rightarrow> real list list \<Rightarrow> real list" where
  "matrixMultiply row matrix =
     (let a = row ! 0 * matrix ! 0 ! 0 + row ! 1 * matrix ! 0 ! 1 + row ! 2 * matrix ! 0 ! 2;
          b = row ! 0 * matrix ! 1 ! 0 + row ! 1 * matrix ! 1 ! 1 + row ! 2 * matrix ! 1 ! 2;
          c = row ! 0 * matrix ! 2 ! 0 + row ! 1 * matrix ! 2 ! 1 + row ! 2 * matrix ! 2 ! 2
      in [a, b, c])"

section \<open>utils/color\_utils.ts\<close>

definition SRGB_TO_XYZ :: "real list list" where
  "SRGB_TO_XYZ =
     [[0.41233895, 0.35762064, 0.18051042],
      [0.2126, 0.7152, 0.0722],
      [0.01932141, 0.11916382, 0.95034478]]"

definition XYZ_TO_SRGB :: "real list list" where
  "XYZ_TO_SRGB =
     [[3.2413774792388685, - 1.5376652402851851, - 0.49885366846268053],
      [- 0.9691452513005321, 1.8758853451067872, 0.04156585616912061],
      [0.05562093689691305, - 0.20395524564742123, 1.0571799111220335]]"

definition WHITE_POINT_D65 :: "real list" where
  "WHITE_POINT_D65 = [95.047, 100, 108.883]"

text \<open>\<open>(255 << 24 | (red & 255) << 16 | (green & 255) << 8 | blue & 255) >>> 0\<close>\<close>

definition argbFromRgb :: "int \<Rightarrow> int \<Rightarrow> int \<Rightarrow> argb" where
  "argbFromRgb red green blue =
     push_bit 24 255 OR push_bit 16 (word_of_int red AND 255)
       OR push_bit 8 (word_of_int green AND 255) OR (word_of_int blue AND 255)"

text \<open>The operator \<open>>>\<close> is the arithmetic shift of the 32-bit value.\<close>

definition alphaFromArgb :: "argb \<Rightarrow> int" where
  "alphaFromArgb c = uint (signed_drop_bit 24 c AND 255)"

definition redFromArgb :: "argb \<Rightarrow> int" where
  "redFromArgb c = uint (signed_drop_bit 16 c AND 255)"

definition greenFromArgb :: "argb \<Rightarrow> int" where
  "greenFromArgb c = uint (signed_drop_bit 8 c AND 255)"

definition blueFromArgb :: "argb \<Rightarrow> int" where
  "blueFromArgb c = uint (c AND 255)"

definition isOpaque :: "argb \<Rightarrow> bool" where
  "isOpaque c = (alphaFromArgb c \<ge> 255)"

definition linearized :: "int \<Rightarrow> real" where
  "linearized rgbComponent =
     (let normalized = real_of_int rgbComponent / 255
      in if normalized \<le> 0.040449936 then normalized / 12.92 * 100
         else ((normalized + 0.055) / 1.055) powr 2.4 * 100)"

definition delinearized :: "real \<Rightarrow> int" where
  "delinearized rgbComponent =
     (let normalized = rgbComponent / 100;
          delinearized1 = (if normalized \<le> 0.0031308 then normalized * 12.92
                           else 1.055 * normalized powr (1 / 2.4) - 0.055)
      in clampInt 0 255 (jsRound (delinearized1 * 255)))"

definition labF :: "real \<Rightarrow> real" where
  "labF t =
     (let e = 216 / 24389; kappa = 24389 / 27
      in if t > e then t powr (1 / 3) else (kappa * t + 16) / 116)"

definition labInvf :: "real \<Rightarrow> real" where
  "labInvf ft =
     (let e = 216 / 24389; kappa = 24389 / 27; ft3 = ft * ft * ft
      in if ft3 > e then ft3 else (116 * ft - 16) / kappa)"

definition argbFromLinrgb :: "real list \<Rightarrow> argb" where
  "argbFromLinrgb linrgb =
     (let r = delinearized (linrgb ! 0);
          g = delinearized (linrgb ! 1);
          b = delinearized (linrgb ! 2)
      in argbFromRgb r g b)"

definition argbFromXyz :: "real \<Rightarrow> real \<Rightarrow> real \<Rightarrow> argb" where
  "argbFromXyz x y z =
     (let matrix = XYZ_TO_SRGB;
          linearR = matrix ! 0 ! 0 * x + matrix ! 0 ! 1 * y + matrix ! 0 ! 2 * z;
          linearG = matrix ! 1 ! 0 * x + matrix ! 1 ! 1 * y + matrix ! 1 ! 2 * z;
          linearB = matrix ! 2 ! 0 * x + matrix ! 2 ! 1 * y + matrix ! 2 ! 2 * z;
          r = delinearized linearR;
          g = delinearized linearG;
          b = delinearized linearB
      in argbFromRgb r g b)"

definition xyzFromArgb :: "argb \<Rightarrow> real list" where
  "xyzFromArgb c =
     (let r = linearized (redFromArgb c);
          g = linearized (greenFromArgb c);
          b = linearized (blueFromArgb c)
      in matrixMultiply [r, g, b] SRGB_TO_XYZ)"

definition argbFromLab :: "real \<Rightarrow> real \<Rightarrow> real \<Rightarrow> argb" where
  "argbFromLab l a b =
     (let whitePoint = WHITE_POINT_D65;
          fy = (l + 16) / 116;
          fx = a / 500 + fy;
          fz = fy - b / 200;
          xNormalized = labInvf fx;
          yNormalized = labInvf fy;
          zNormalized = labInvf fz;
          x = xNormalized * whitePoint ! 0;
          y = yNormalized * whitePoint ! 1;
          z = zNormalized * whitePoint ! 2
      in argbFromXyz x y z)"

definition labFromArgb :: "argb \<Rightarrow> real list" where
  "labFromArgb c =
     (let linearR = linearized (redFromArgb c);
          linearG = linearized (greenFromArgb c);
          linearB = linearized (blueFromArgb c);
          matrix = SRGB_TO_XYZ;
          x = matrix ! 0 ! 0 * linearR + matrix ! 0 ! 1 * linearG + matrix ! 0 ! 2 * linearB;
          y = matrix ! 1 ! 0 * linearR + matrix ! 1 ! 1 * linearG + matrix ! 1 ! 2 * linearB;
          z = matrix ! 2 ! 0 * linearR + matrix ! 2 ! 1 * linearG + matrix ! 2 ! 2 * linearB;
          whitePoint = WHITE_POINT_D65;
          xNormalized = x / whitePoint ! 0;
          yNormalized = y / whitePoint ! 1;
          zNormalized = z / whitePoint ! 2;
          fx = labF xNormalized;
          fy = labF yNormalized;
          fz = labF zNormalized;
          l = 116 * fy - 16;
          a = 500 * (fx - fy);
          b = 200 * (fy - fz)
      in [l, a, b])"

definition yFromLstar :: "real \<Rightarrow> real" where
  "yFromLstar lstar = 100 * labInvf ((lstar + 16) / 116)"

definition lstarFromY :: "real \<Rightarrow> real" where
  "lstarFromY y = labF (y / 100) * 116 - 16"

definition argbFromLstar :: "real \<Rightarrow> argb" where
  "argbFromLstar lstar =
     (let y = yFromLstar lstar; component = delinearized y
      in argbFromRgb component component component)"

definition lstarFromArgb :: "argb \<Rightarrow> real" where
  "lstarFromArgb c = (let y = xyzFromArgb c ! 1 in 116 * labF (y / 100) - 16)"

definition whitePointD65 :: "real list" where
  "whitePointD65 = WHITE_POINT_D65"

section \<open>hct/viewing\_conditions.ts\<close>

record ViewingConditions =
  vc_n :: real
  vc_aw :: real
  vc_nbb :: real
  vc_ncb :: real
  vc_c :: real
  vc_nc :: real
  vc_rgbD :: "real list"
  vc_fl :: real
  vc_fLRoot :: real
  vc_z :: real

definition ViewingConditions_make ::
  "real list \<Rightarrow> real \<Rightarrow> real \<Rightarrow> real \<Rightarrow> bool \<Rightarrow> ViewingConditions" where
  "ViewingConditions_make whitePoint adaptingLuminance backgroundLstar surround discountingIlluminant =
     (let xyz = whitePoint;
          rW = xyz ! 0 * 0.401288 + xyz ! 1 * 0.650173 + xyz ! 2 * (- 0.051461);
          gW = xyz ! 0 * (- 0.250268) + xyz ! 1 * 1.204414 + xyz ! 2 * 0.045854;
          bW = xyz ! 0 * (- 0.002079) + xyz ! 1 * 0.048952 + xyz ! 2 * 0.953127;
          f = 0.8 + surround / 10;
          c = (if f \<ge> 0.9 then lerp 0.59 0.69 ((f - 0.9) * 10)
               else lerp 0.525 0.59 ((f - 0.8) * 10));
          d = (if discountingIlluminant then 1
               else f * (1 - 1 / 3.6 * exp ((- adaptingLuminance - 42) / 92)));
          d = (if d > 1 then 1 else if d < 0 then 0 else d);
          nc = f;
          rgbD = [d * (100 / rW) + 1 - d, d * (100 / gW) + 1 - d, d * (100 / bW) + 1 - d];
          k = 1 / (5 * adaptingLuminance + 1);
          k4 = k * k * k * k;
          k4F = 1 - k4;
          fl = k4 * adaptingLuminance + 0.1 * k4F * k4F * root 3 (5 * adaptingLuminance);
          n = yFromLstar backgroundLstar / whitePoint ! 1;
          z = 1.48 + sqrt n;
          nbb = 0.725 / n powr 0.2;
          ncb = nbb;
          rgbAFactors = [(fl * rgbD ! 0 * rW / 100) powr 0.42,
                         (fl * rgbD ! 1 * gW / 100) powr 0.42,
                         (fl * rgbD ! 2 * bW / 100) powr 0.42];
          rgbA = [400 * rgbAFactors ! 0 / (rgbAFactors ! 0 + 27.13),
                  400 * rgbAFactors ! 1 / (rgbAFactors ! 1 + 27.13),
                  400 * rgbAFactors ! 2 / (rgbAFactors ! 2 + 27.13)];
          aw = (2 * rgbA ! 0 + rgbA ! 1 + 0.05 * rgbA ! 2) * nbb
      in \<lparr>vc_n = n, vc_aw = aw, vc_nbb = nbb, vc_ncb = ncb, vc_c = c, vc_nc = nc,
          vc_rgbD = rgbD, vc_fl = fl, vc_fLRoot = fl powr 0.25, vc_z = z\<rparr>)"

text \<open>The default arguments of \<open>ViewingConditions.make\<close>.\<close>

definition ViewingConditions_DEFAULT :: ViewingConditions where
  "ViewingConditions_DEFAULT =
     ViewingConditions_make whitePointD65 (200 / pi * yFromLstar 50 / 100) 50 2 False"

section \<open>hct/cam16.ts\<close>

record Cam16 =
  cam_hue :: real
  cam_chroma :: real
  cam_j :: real
  cam_q :: real
  cam_m :: real
  cam_s :: real
  cam_jstar :: real
  cam_astar :: real
  cam_bstar :: real

definition Cam16_fromIntInViewingConditions :: "argb \<Rightarrow> ViewingConditions \<Rightarrow> Cam16" where
  "Cam16_fromIntInViewingConditions c viewingConditions =
     (let red = uint (signed_drop_bit 16 (c AND 16711680));
          green = uint (signed_drop_bit 8 (c AND 65280));
          blue = uint (c AND 255);
          redL = linearized red;
          greenL = linearized green;
          blueL = linearized blue;
          x = 0.41233895 * redL + 0.35762064 * greenL + 0.18051042 * blueL;
          y = 0.2126 * redL + 0.7152 * greenL + 0.0722 * blueL;
          z = 0.01932141 * redL + 0.11916382 * greenL + 0.95034478 * blueL;
          rC = 0.401288 * x + 0.650173 * y - 0.051461 * z;
          gC = - 0.250268 * x + 1.204414 * y + 0.045854 * z;
          bC = - 0.002079 * x + 0.048952 * y + 0.953127 * z;
          rD = vc_rgbD viewingConditions ! 0 * rC;
          gD = vc_rgbD viewingConditions ! 1 * gC;
          bD = vc_rgbD viewingConditions ! 2 * bC;
          rAF = (vc_fl viewingConditions * \<bar>rD\<bar> / 100) powr 0.42;
          gAF = (vc_fl viewingConditions * \<bar>gD\<bar> / 100) powr 0.42;
          bAF = (vc_fl viewingConditions * \<bar>bD\<bar> / 100) powr 0.42;
          rA = signum rD * 400 * rAF / (rAF + 27.13);
          gA = signum gD * 400 * gAF / (gAF + 27.13);
          bA = signum bD * 400 * bAF / (bAF + 27.13);
          a = (11 * rA + - 12 * gA + bA) / 11;
          b = (rA + gA - 2 * bA) / 9;
          u = (20 * rA + 20 * gA + 21 * bA) / 20;
          p2 = (40 * rA + 20 * gA + bA) / 20;
          atan2 = jsAtan2 b a;
          atanDegrees = atan2 * 180 / pi;
          hue = (if atanDegrees < 0 then atanDegrees + 360
                 else if atanDegrees \<ge> 360 then atanDegrees - 360 else atanDegrees);
          hueRadians = hue * pi / 180;
          ac = p2 * vc_nbb viewingConditions;
          j = 100 * (ac / vc_aw viewingConditions)
                powr (vc_c viewingConditions * vc_z viewingConditions);
          q = 4 / vc_c viewingConditions * sqrt (j / 100)
                * (vc_aw viewingConditions + 4) * vc_fLRoot viewingConditions;
          huePrime = (if hue < 20.14 then hue + 360 else hue);
          eHue = 0.25 * (cos (huePrime * pi / 180 + 2) + 3.8);
          p1 = 50000 / 13 * eHue * vc_nc viewingConditions * vc_ncb viewingConditions;
          t = p1 * sqrt (a * a + b * b) / (u + 0.305);
          alpha = t powr 0.9 * (1.64 - 0.29 powr vc_n viewingConditions) powr 0.73;
          c = alpha * sqrt (j / 100);
          m = c * vc_fLRoot viewingConditions;
          s = 50 * sqrt (alpha * vc_c viewingConditions / (vc_aw viewingConditions + 4));
          jstar = 1.7000000000000002 * j / (1 + 0.007 * j);
          mstar = 1 / 0.0228 * ln (1 + 0.0228 * m);
          astar = mstar * cos hueRadians;
          bstar = mstar * sin hueRadians
      in \<lparr>cam_hue = hue, cam_chroma = c, cam_j = j, cam_q = q, cam_m = m, cam_s = s,
          cam_jstar = jstar, cam_astar = astar, cam_bstar = bstar\<rparr>)"

definition Cam16_fromInt :: "argb \<Rightarrow> Cam16" where
  "Cam16_fromInt c = Cam16_fromIntInViewingConditions c ViewingConditions_DEFAULT"

section \<open>hct/hct\_solver.ts\<close>

definition SCALED_DISCOUNT_FROM_LINRGB :: "real list list" where
  "SCALED_DISCOUNT_FROM_LINRGB =
     [[0.001200833568784504, 0.002389694492170889, 0.0002795742885861124],
      [0.0005891086651375999, 0.0029785502573438758, 0.0003270666104008398],
      [0.00010146692491640572, 0.0005364214359186694, 0.0032979401770712076]]"

definition LINRGB_FROM_SCALED_DISCOUNT :: "real list list" where
  "LINRGB_FROM_SCALED_DISCOUNT =
     [[1373.2198709594231, - 1100.4251190754821, - 7.278681089101213],
      [- 271.815969077903, 559.6580465940733, - 32.46047482791194],
      [1.9622899599665666, - 57.173814538844006, 308.7233197812385]]"

definition Y_FROM_LINRGB :: "real list" where
  "Y_FROM_LINRGB = [0.2126, 0.7152, 0.0722]"

definition CRITICAL_PLANES :: "real list" where
  "CRITICAL_PLANES =
     [
      0.015176349177441876, 0.045529047532325624, 0.07588174588720938, 0.10623444424209313,
      0.13658714259697685, 0.16693984095186062, 0.19729253930674434, 0.2276452376616281,
      0.2579979360165119, 0.28835063437139563, 0.3188300904430532, 0.350925934958123,
      0.3848314933096426, 0.42057480301049466, 0.458183274052838, 0.4976837250274023,
      0.5391024159806381, 0.5824650784040898, 0.6277969426914107, 0.6751227633498623,
      0.7244668422128921, 0.775853049866786, 0.829304845476233, 0.8848452951698498,
      0.942497089126609, 1.0022825574869039, 1.0642236851973577, 1.1283421258858297,
      1.1946592148522128, 1.2631959812511864, 1.3339731595349034, 1.407011200216447,
      1.4823302800086415, 1.5599503113873272, 1.6398909516233677, 1.7221716113234105,
      1.8068114625156377, 1.8938294463134073, 1.9832442801866852, 2.075074464868551,
      2.1693382909216234, 2.2660538449872063, 2.36523901573795, 2.4669114995532007,
      2.5710888059345764, 2.6777882626779785, 2.7870270208169257, 2.898822059350997,
      3.0131901897720907, 3.1301480604002863, 3.2497121605402226, 3.3718988244681087,
      3.4967242352587946, 3.624204428461639, 3.754355295633311, 3.887192587735158,
      4.022731918402185, 4.160988767090289, 4.301978482107941, 4.445716283538092,
      4.592217266055746, 4.741496401646282, 4.893568542229298, 5.048448422192488,
      5.20615066083972, 5.3666897647573375, 5.5300801301023865, 5.696336044816294,
      5.865471690767354, 6.037501145825082, 6.212438385869475, 6.390297286737924,
      6.571091626112461, 6.7548350853498045, 6.941541251256611, 7.131223617812143,
      7.323895587840543, 7.5195704746346665, 7.7182615035334345, 7.919981813454504,
      8.124744458384042, 8.332562408825165, 8.543448553206703, 8.757415699253682,
      8.974476575321063, 9.194643831691977, 9.417930041841839, 9.644347703669503,
      9.873909240696694, 10.106627003236781, 10.342513269534024, 10.58158024687427,
      10.8238400726681, 11.069304815507364, 11.317986476196008, 11.569896988756009,
      11.825048221409341, 12.083451977536606, 12.345119996613247, 12.610063955123938,
      12.878295467455942, 13.149826086772048, 13.42466730586372, 13.702830557985108,
      13.984327217668513, 14.269168601521828, 14.55736596900856, 14.848930523210871,
      15.143873411576273, 15.44220572664832, 15.743938506781891, 16.04908273684337,
      16.35764934889634, 16.66964922287304, 16.985093187232053, 17.30399201960269,
      17.62635644741625, 17.95219714852476, 18.281524751807332, 18.614349837764564,
      18.95068293910138, 19.290534541298456, 19.633915083172692, 19.98083495742689,
      20.331304511189067, 20.685334046541502, 21.042933821039977, 21.404114048223256,
      21.76888489811322, 22.137256497705877, 22.50923893145328, 22.884842241736916,
      23.264076429332462, 23.6469514538663, 24.033477234264016, 24.42366364919083,
      24.817520537484558, 25.21505769858089, 25.61628489293138, 26.021211842414342,
      26.429848230738664, 26.842203703840827, 27.258287870275353, 27.678110301598522,
      28.10168053274597, 28.529008062403893, 28.96010235337422, 29.39497283293396,
      29.83362889318845, 30.276079891419332, 30.722335150426627, 31.172403958865512,
      31.62629557157785, 32.08401920991837, 32.54558406207592, 33.010999283389665,
      33.4802739966603, 33.953417292456834, 34.430438229418264, 34.911345834551085,
      35.39614910352207, 35.88485700094671, 36.37747846067349, 36.87402238606382,
      37.37449765026789, 37.87891309649659, 38.38727753828926, 38.89959975977785,
      39.41588851594697, 39.93615253289054, 40.460400508064545, 40.98864111053629,
      41.520882981230194, 42.05713473317016, 42.597404951718396, 43.141702194811224,
      43.6900349931913, 44.24241185063697, 44.798841244188324, 45.35933162437017,
      45.92389141541209, 46.49252901546552, 47.065252796817916, 47.64207110610409,
      48.22299226451468, 48.808024568002054, 49.3971762874833, 49.9904556690408,
      50.587870934119984, 51.189430279724725, 51.79514187861014, 52.40501387947288,
      53.0190544071392, 53.637271562750364, 54.259673423945976, 54.88626804504493,
      55.517063457223934, 56.15206766869424, 56.79128866487574, 57.43473440856916,
      58.08241284012621, 58.734331877617365, 59.39049941699807, 60.05092333227251,
      60.715611475655585, 61.38457167773311, 62.057811747619894, 62.7353394731159,
      63.417162620860914, 64.10328893648692, 64.79372614476921, 65.48848194977529,
      66.18756403501224, 66.89098006357258, 67.59873767827808, 68.31084450182222,
      69.02730813691093, 69.74813616640164, 70.47333615344107, 71.20291564160104,
      71.93688215501312, 72.67524319850172, 73.41800625771542, 74.16517879925733,
      74.9167682708136, 75.67278210128072, 76.43322770089146, 77.1981124613393,
      77.96744375590167, 78.74122893956174, 79.51947534912904, 80.30219030335869,
      81.08938110306934, 81.88105503125999, 82.67721935322541, 83.4778813166706,
      84.28304815182372, 85.09272707154808, 85.90692527145302, 86.72564993000343,
      87.54890820862819, 88.3767072518277, 89.2090541872801, 90.04595612594655,
      90.88742016217518, 91.73345337380438, 92.58406282226491, 93.43925555268066,
      94.29903859396902, 95.16341895893969, 96.03240364439274, 96.9059996312159,
      97.78421388448044, 98.6670533535366, 99.55452497210776
     ]"

text \<open>
  \<open>(angle + Math.PI * 8) % (Math.PI * 2)\<close>. \<open>Math.PI\<close> is \<^term>\<open>pi\<close> here; in the source it
  is the double nearest to it, so the remainder of the source removes turns of that
  double and the sum is rounded.
\<close>

definition sanitizeRadians :: "real \<Rightarrow> real" where
  "sanitizeRadians angle = jsRem (angle + pi * 8) (pi * 2)"

definition trueDelinearized :: "real \<Rightarrow> real" where
  "trueDelinearized rgbComponent =
     (let normalized = rgbComponent / 100;
          delinearized1 = (if normalized \<le> 0.0031308 then normalized * 12.92
                           else 1.055 * normalized powr (1 / 2.4) - 0.055)
      in delinearized1 * 255)"

definition chromaticAdaptation :: "real \<Rightarrow> real" where
  "chromaticAdaptation component =
     (let af = \<bar>component\<bar> powr 0.42
      in signum component * 400 * af / (af + 27.13))"

definition hueOf :: "real list \<Rightarrow> real" where
  "hueOf linrgb =
     (let scaledDiscount = matrixMultiply linrgb SCALED_DISCOUNT_FROM_LINRGB;
          rA = chromaticAdaptation (scaledDiscount ! 0);
          gA = chromaticAdaptation (scaledDiscount ! 1);
          bA = chromaticAdaptation (scaledDiscount ! 2);
          a = (11 * rA + - 12 * gA + bA) / 11;
          b = (rA + gA - 2 * bA) / 9
      in jsAtan2 b a)"

definition areInCyclicOrder :: "real \<Rightarrow> real \<Rightarrow> real \<Rightarrow> bool" where
  "areInCyclicOrder a b c =
     (let deltaAB = sanitizeRadians (b - a);
          deltaAC = sanitizeRadians (c - a)
      in deltaAB < deltaAC)"

definition intercept :: "real \<Rightarrow> real \<Rightarrow> real \<Rightarrow> real" where
  "intercept source mid target = (mid - source) / (target - source)"

definition lerpPoint :: "real list \<Rightarrow> real \<Rightarrow> real list \<Rightarrow> real list" where
  "lerpPoint source t target =
     [source ! 0 + (target ! 0 - source ! 0) * t,
      source ! 1 + (target ! 1 - source ! 1) * t,
      source ! 2 + (target ! 2 - source ! 2) * t]"

definition setCoordinate :: "real list \<Rightarrow> real \<Rightarrow> real list \<Rightarrow> nat \<Rightarrow> real list" where
  "setCoordinate source coordinate target axis =
     (let t = intercept (source ! axis) coordinate (target ! axis)
      in lerpPoint source t target)"

definition isBounded :: "real \<Rightarrow> bool" where
  "isBounded x = (0 \<le> x \<and> x \<le> 100)"

definition nthVertex :: "real \<Rightarrow> nat \<Rightarrow> real list" where
  "nthVertex y n =
     (let kR = Y_FROM_LINRGB ! 0;
          kG = Y_FROM_LINRGB ! 1;
          kB = Y_FROM_LINRGB ! 2;
          coordA = (if n mod 4 \<le> 1 then 0 else 100);
          coordB = (if n mod 2 = 0 then 0 else 100)
      in if n < 4 then
           (let g = coordA; b = coordB; r = (y - g * kG - b * kB) / kR
            in if isBounded r then [r, g, b] else [- 1, - 1, - 1])
         else if n < 8 then
           (let b = coordA; r = coordB; g = (y - r * kR - b * kB) / kG
            in if isBounded g then [r, g, b] else [- 1, - 1, - 1])
         else
           (let r = coordA; g = coordB; b = (y - r * kR - g * kG) / kB
            in if isBounded b then [r, g, b] else [- 1, - 1, - 1]))"

record segment_state =
  seg_left :: "real list"
  seg_right :: "real list"
  seg_leftHue :: real
  seg_rightHue :: real
  seg_initialized :: bool
  seg_uncut :: bool

text \<open>One round of the loop \<open>for (let n = 0; n < 12; n++)\<close> of \<open>bisectToSegment\<close>.\<close>

definition bisectToSegment_step :: "real \<Rightarrow> real \<Rightarrow> nat \<Rightarrow> segment_state \<Rightarrow> segment_state" where
  "bisectToSegment_step y targetHue n st =
     (let mid = nthVertex y n
      in if mid ! 0 < 0 then st
         else
           (let midHue = hueOf mid
            in if \<not> seg_initialized st then
                 st\<lparr>seg_left := mid, seg_right := mid, seg_leftHue := midHue,
                    seg_rightHue := midHue, seg_initialized := True\<rparr>
               else if seg_uncut st \<or> areInCyclicOrder (seg_leftHue st) midHue (seg_rightHue st) then
                 (if areInCyclicOrder (seg_leftHue st) targetHue midHue
                  then st\<lparr>seg_uncut := False, seg_right := mid, seg_rightHue := midHue\<rparr>
                  else st\<lparr>seg_uncut := False, seg_left := mid, seg_leftHue := midHue\<rparr>)
               else st))"

definition bisectToSegment :: "real \<Rightarrow> real \<Rightarrow> real list \<times> real list" where
  "bisectToSegment y targetHue =
     (let st0 = \<lparr>seg_left = [- 1, - 1, - 1], seg_right = [- 1, - 1, - 1], seg_leftHue = 0,
                  seg_rightHue = 0, seg_initialized = False, seg_uncut = True\<rparr>;
          st = fold (bisectToSegment_step y targetHue) [0..<12] st0
      in (seg_left st, seg_right st))"

definition midpoint :: "real list \<Rightarrow> real list \<Rightarrow> real list" where
  "midpoint a b = [(a ! 0 + b ! 0) / 2, (a ! 1 + b ! 1) / 2, (a ! 2 + b ! 2) / 2]"

definition criticalPlaneBelow :: "real \<Rightarrow> int" where
  "criticalPlaneBelow x = \<lfloor>x - 0.5\<rfloor>"

definition criticalPlaneAbove :: "real \<Rightarrow> int" where
  "criticalPlaneAbove x = \<lceil>x - 0.5\<rceil>"

record limit_state =
  lim_left :: "real list"
  lim_leftHue :: real
  lim_right :: "real list"
  lim_lPlane :: int
  lim_rPlane :: int

text \<open>
  The loop \<open>for (let i = 0; i < 8; i++)\<close> of \<open>bisectToLimit\<close>; the first argument counts the
  rounds that are left.
\<close>

fun bisectToLimit_planes :: "nat \<Rightarrow> real \<Rightarrow> nat \<Rightarrow> limit_state \<Rightarrow> limit_state" where
  "bisectToLimit_planes 0 targetHue axis st = st"
| "bisectToLimit_planes (Suc k) targetHue axis st =
     (if \<bar>lim_rPlane st - lim_lPlane st\<bar> \<le> 1 then st
      else
        (let mPlane = \<lfloor>real_of_int (lim_lPlane st + lim_rPlane st) / 2\<rfloor>;
             midPlaneCoordinate = CRITICAL_PLANES ! nat mPlane;
             mid = setCoordinate (lim_left st) midPlaneCoordinate (lim_right st) axis;
             midHue = hueOf mid
         in if areInCyclicOrder (lim_leftHue st) targetHue midHue
            then bisectToLimit_planes k targetHue axis (st\<lparr>lim_right := mid, lim_rPlane := mPlane\<rparr>)
            else bisectToLimit_planes k targetHue axis
                   (st\<lparr>lim_left := mid, lim_leftHue := midHue, lim_lPlane := mPlane\<rparr>)))"

text \<open>One round of the loop \<open>for (let axis = 0; axis < 3; axis++)\<close>.\<close>

definition bisectToLimit_axis :: "real \<Rightarrow> nat \<Rightarrow> limit_state \<Rightarrow> limit_state" where
  "bisectToLimit_axis targetHue axis st =
     (if lim_left st ! axis \<noteq> lim_right st ! axis then
        (let st1 =
               (if lim_left st ! axis < lim_right st ! axis
                then st\<lparr>lim_lPlane := criticalPlaneBelow (trueDelinearized (lim_left st ! axis)),
                        lim_rPlane := criticalPlaneAbove (trueDelinearized (lim_right st ! axis))\<rparr>
                else st\<lparr>lim_lPlane := criticalPlaneAbove (trueDelinearized (lim_left st ! axis)),
                        lim_rPlane := criticalPlaneBelow (trueDelinearized (lim_right st ! axis))\<rparr>)
         in bisectToLimit_planes 8 targetHue axis st1)
      else st)"

definition bisectToLimit :: "real \<Rightarrow> real \<Rightarrow> real list" where
  "bisectToLimit y targetHue =
     (let segment = bisectToSegment y targetHue;
          left = fst segment;
          leftHue = hueOf left;
          right = snd segment;
          st0 = \<lparr>lim_left = left, lim_leftHue = leftHue, lim_right = right,
                  lim_lPlane = - 1, lim_rPlane = 255\<rparr>;
          st = fold (bisectToLimit_axis targetHue) [0..<3] st0
      in midpoint (lim_left st) (lim_right st))"

definition inverseChromaticAdaptation :: "real \<Rightarrow> real" where
  "inverseChromaticAdaptation adapted =
     (let adaptedAbs = \<bar>adapted\<bar>;
          base = max 0 (27.13 * adaptedAbs / (400 - adaptedAbs))
      in signum adapted * base powr (1 / 0.42))"

text \<open>
  The loop \<open>for (let iterationRound = 0; iterationRound < 5; iterationRound++)\<close> of
  \<open>findResultByJ\<close>, with the values computed before the loop passed in. The result 0 is
  the failure sentinel of the source.
\<close>

function findResultByJ_loop ::
  "real \<Rightarrow> real \<Rightarrow> real \<Rightarrow> real \<Rightarrow> real \<Rightarrow> real \<Rightarrow> nat \<Rightarrow> real \<Rightarrow> argb" where
  "findResultByJ_loop chroma y tInnerCoeff p1 hSin hCos iterationRound j =
     (if iterationRound < 5 then
        (let viewingConditions = ViewingConditions_DEFAULT;
             jNormalized = j / 100;
             alpha = (if chroma = 0 \<or> j = 0 then 0 else chroma / sqrt jNormalized);
             t = (alpha * tInnerCoeff) powr (1 / 0.9);
             ac = vc_aw viewingConditions
                    * jNormalized powr (1 / vc_c viewingConditions / vc_z viewingConditions);
             p2 = ac / vc_nbb viewingConditions;
             gamma = 23 * (p2 + 0.305) * t / (23 * p1 + 11 * t * hCos + 108 * t * hSin);
             a = gamma * hCos;
             b = gamma * hSin;
             rA = (460 * p2 + 451 * a + 288 * b) / 1403;
             gA = (460 * p2 - 891 * a - 261 * b) / 1403;
             bA = (460 * p2 - 220 * a - 6300 * b) / 1403;
             rCScaled = inverseChromaticAdaptation rA;
             gCScaled = inverseChromaticAdaptation gA;
             bCScaled = inverseChromaticAdaptation bA;
             linrgb = matrixMultiply [rCScaled, gCScaled, bCScaled] LINRGB_FROM_SCALED_DISCOUNT
         in if linrgb ! 0 < 0 \<or> linrgb ! 1 < 0 \<or> linrgb ! 2 < 0 then 0
            else
              (let kR = Y_FROM_LINRGB ! 0;
                   kG = Y_FROM_LINRGB ! 1;
                   kB = Y_FROM_LINRGB ! 2;
                   fnj = kR * linrgb ! 0 + kG * linrgb ! 1 + kB * linrgb ! 2
               in if fnj \<le> 0 then 0
                  else if iterationRound = 4 \<or> \<bar>fnj - y\<bar> < 0.002 then
                    (if linrgb ! 0 > 100.01 \<or> linrgb ! 1 > 100.01 \<or> linrgb ! 2 > 100.01 then 0
                     else argbFromLinrgb linrgb)
                  else findResultByJ_loop chroma y tInnerCoeff p1 hSin hCos
                         (iterationRound + 1) (j - (fnj - y) * j / (2 * fnj))))
      else 0)"
  by pat_completeness auto
termination
  by (relation "measure (\<lambda>(chroma, y, tInnerCoeff, p1, hSin, hCos, iterationRound, j). 5 - iterationRound)")
     auto

definition findResultByJ :: "real \<Rightarrow> real \<Rightarrow> real \<Rightarrow> argb" where
  "findResultByJ hueRadians chroma y =
     (let j = sqrt y * 11;
          viewingConditions = ViewingConditions_DEFAULT;
          tInnerCoeff = 1 / (1.64 - 0.29 powr vc_n viewingConditions) powr 0.73;
          eHue = 0.25 * (cos (hueRadians + 2) + 3.8);
          p1 = eHue * (50000 / 13) * vc_nc viewingConditions * vc_ncb viewingConditions;
          hSin = sin hueRadians;
          hCos = cos hueRadians
      in findResultByJ_loop chroma y tInnerCoeff p1 hSin hCos 0 j)"

definition solveToInt :: "real \<Rightarrow> real \<Rightarrow> real \<Rightarrow> argb" where
  "solveToInt hueDegrees chroma lstar =
     (if chroma < 0.0001 \<or> lstar < 0.0001 \<or> lstar > 99.9999 then argbFromLstar lstar
      else
        (let hueDegrees = sanitizeDegreesDouble hueDegrees;
             hueRadians = hueDegrees / 180 * pi;
             y = yFromLstar lstar;
             exactAnswer = findResultByJ hueRadians chroma y
         in if exactAnswer \<noteq> 0 then exactAnswer
            else (let linrgb = bisectToLimit y hueRadians in argbFromLinrgb linrgb)))"

definition solveToCam :: "real \<Rightarrow> real \<Rightarrow> real \<Rightarrow> Cam16" where
  "solveToCam hueDegrees chroma lstar = Cam16_fromInt (solveToInt hueDegrees chroma lstar)"

section \<open>hct/hct.ts\<close>

record Hct =
  hct_argb :: argb
  internalHue :: real
  internalChroma :: real
  internalTone :: real

text \<open>The constructor \<open>new Hct(argb)\<close>.\<close>

definition Hct_new :: "argb \<Rightarrow> Hct" where
  "Hct_new c =
     (let cam = Cam16_fromInt c
      in \<lparr>hct_argb = c, internalHue = cam_hue cam, internalChroma = cam_chroma cam,
          internalTone = lstarFromArgb c\<rparr>)"

definition Hct_from :: "real \<Rightarrow> real \<Rightarrow> real \<Rightarrow> Hct" where
  "Hct_from hue chroma tone = Hct_new (solveToInt hue chroma tone)"

definition Hct_fromInt :: "argb \<Rightarrow> Hct" where
  "Hct_fromInt c = Hct_new c"

definition Hct_toInt :: "Hct \<Rightarrow> argb" where
  "Hct_toInt h = hct_argb h"

definition Hct_setInternalState :: "Hct \<Rightarrow> argb \<Rightarrow> Hct" where
  "Hct_setInternalState h c =
     (let cam = Cam16_fromInt c
      in h\<lparr>internalHue := cam_hue cam, internalChroma := cam_chroma cam,
           internalTone := lstarFromArgb c, hct_argb := c\<rparr>)"

definition Hct_set_hue :: "Hct \<Rightarrow> real \<Rightarrow> Hct" where
  "Hct_set_hue h newHue =
     Hct_setInternalState h (solveToInt newHue (internalChroma h) (internalTone h))"

definition Hct_set_chroma :: "Hct \<Rightarrow> real \<Rightarrow> Hct" where
  "Hct_set_chroma h newChroma =
     Hct_setInternalState h (solveToInt (internalHue h) newChroma (internalTone h))"

definition Hct_set_tone :: "Hct \<Rightarrow> real \<Rightarrow> Hct" where
  "Hct_set_tone h newTone =
     Hct_setInternalState h (solveToInt (internalHue h) (internalChroma h) newTone)"

definition Hct_isBlue :: "real \<Rightarrow> bool" where
  "Hct_isBlue hue = (hue \<ge> 250 \<and> hue < 270)"

definition Hct_isYellow :: "real \<Rightarrow> bool" where
  "Hct_isYellow hue = (hue \<ge> 105 \<and> hue < 125)"

definition Hct_isCyan :: "real \<Rightarrow> bool" where
  "Hct_isCyan hue = (hue \<ge> 170 \<and> hue < 207)"

section \<open>palettes/tonal\_palette.ts\<close>

text \<open>
  The field \<open>cache\<close> is a \<open>Map\<close> from tone to ARGB; it is an association list here, in
  insertion order, and \<open>Map.set\<close> is \<^const>\<open>AList.update\<close>.
\<close>

record TonalPalette =
  tp_hue :: real
  tp_chroma :: real
  tp_keyColor :: Hct
  tp_cache :: "(real \<times> argb) list"

text \<open>The constructor \<open>new TonalPalette(hue, chroma, keyColor)\<close>: the cache starts empty.\<close>

definition TonalPalette_new :: "real \<Rightarrow> real \<Rightarrow> Hct \<Rightarrow> TonalPalette" where
  "TonalPalette_new hue chroma keyColor =
     \<lparr>tp_hue = hue, tp_chroma = chroma, tp_keyColor = keyColor, tp_cache = []\<rparr>"

definition TonalPalette_fromHct :: "Hct \<Rightarrow> TonalPalette" where
  "TonalPalette_fromHct hct = TonalPalette_new (internalHue hct) (internalChroma hct) hct"

definition TonalPalette_fromInt :: "argb \<Rightarrow> TonalPalette" where
  "TonalPalette_fromInt c = TonalPalette_fromHct (Hct_fromInt c)"

definition averageArgb :: "argb \<Rightarrow> argb \<Rightarrow> argb" where
  "averageArgb argb1 argb2 =
     (let red1 = uint (drop_bit 16 argb1 AND 255);
          green1 = uint (drop_bit 8 argb1 AND 255);
          blue1 = uint (argb1 AND 255);
          red2 = uint (drop_bit 16 argb2 AND 255);
          green2 = uint (drop_bit 8 argb2 AND 255);
          blue2 = uint (argb2 AND 255);
          red = jsRound (real_of_int (red1 + red2) / 2);
          green = jsRound (real_of_int (green1 + green2) / 2);
          blue = jsRound (real_of_int (blue1 + blue2) / 2)
      in push_bit 24 255 OR push_bit 16 (word_of_int red AND 255)
           OR push_bit 8 (word_of_int green AND 255) OR (word_of_int blue AND 255))"

text \<open>
  \<open>tone(tone)\<close> reads and fills the cache, so it returns the colour together with the
  palette as it is after the call.
\<close>

function TonalPalette_tone :: "TonalPalette \<Rightarrow> real \<Rightarrow> argb \<times> TonalPalette" where
  "TonalPalette_tone p tone =
     (case map_of (tp_cache p) tone of
        Some c \<Rightarrow> (c, p)
      | None \<Rightarrow>
          (if tone = 99 \<and> Hct_isYellow (tp_hue p) then
             (let r98 = TonalPalette_tone p 98;
                  r100 = TonalPalette_tone (snd r98) 100;
                  c = averageArgb (fst r98) (fst r100);
                  p2 = snd r100
              in (c, p2\<lparr>tp_cache := AList.update tone c (tp_cache p2)\<rparr>))
           else
             (let c = Hct_toInt (Hct_from (tp_hue p) (tp_chroma p) tone)
              in (c, p\<lparr>tp_cache := AList.update tone c (tp_cache p)\<rparr>))))"
  by pat_completeness auto
termination
  by (relation "measure (\<lambda>(p, tone). if tone = 99 then 1 else 0)") auto

definition TonalPalette_getHct :: "TonalPalette \<Rightarrow> real \<Rightarrow> Hct \<times> TonalPalette" where
  "TonalPalette_getHct p tone =
     (let r = TonalPalette_tone p tone in (Hct_fromInt (fst r), snd r))"

section \<open>contrast/contrast.ts\<close>

definition ratioOfYs :: "real \<Rightarrow> real \<Rightarrow> real" where
  "ratioOfYs y1 y2 =
     (let lighter = (if y1 > y2 then y1 else y2);
          darker = (if lighter = y2 then y1 else y2)
      in (lighter + 5) / (darker + 5))"

definition ratioOfTones :: "real \<Rightarrow> real \<Rightarrow> real" where
  "ratioOfTones toneA toneB =
     (let toneA = clampDouble 0 100 toneA;
          toneB = clampDouble 0 100 toneB
      in ratioOfYs (yFromLstar toneA) (yFromLstar toneB))"

definition Contrast_lighter :: "real \<Rightarrow> real \<Rightarrow> real" where
  "Contrast_lighter tone ratio =
     (if tone < 0 \<or> tone > 100 then - 1
      else
        (let darkY = yFromLstar tone;
             lightY = ratio * (darkY + 5) - 5;
             realContrast = ratioOfYs lightY darkY;
             delta = \<bar>realContrast - ratio\<bar>
         in if realContrast < ratio \<and> delta > 0.04 then - 1
            else
              (let returnValue = lstarFromY lightY + 0.4
               in if returnValue < 0 \<or> returnValue > 100 then - 1 else returnValue)))"

definition Contrast_darker :: "real \<Rightarrow> real \<Rightarrow> real" where
  "Contrast_darker tone ratio =
     (if tone < 0 \<or> tone > 100 then - 1
      else
        (let lightY = yFromLstar tone;
             darkY = (lightY + 5) / ratio - 5;
             realContrast = ratioOfYs lightY darkY;
             delta = \<bar>realContrast - ratio\<bar>
         in if realContrast < ratio \<and> delta > 0.04 then - 1
            else
              (let returnValue = lstarFromY darkY - 0.4
               in if returnValue < 0 \<or> returnValue > 100 then - 1 else returnValue)))"

definition Contrast_lighterUnsafe :: "real \<Rightarrow> real \<Rightarrow> real" where
  "Contrast_lighterUnsafe tone ratio =
     (let lighterSafe = Contrast_lighter tone ratio
      in if lighterSafe < 0 then 100 else lighterSafe)"

definition Contrast_darkerUnsafe :: "real \<Rightarrow> real \<Rightarrow> real" where
  "Contrast_darkerUnsafe tone ratio =
     (let darkerSafe = Contrast_darker tone ratio
      in if darkerSafe < 0 then 0 else darkerSafe)"

section \<open>palettes/tonal\_palette.ts: key colour\<close>

record KeyColor =
  kc_hue :: real
  kc_requestedChroma :: real
  kc_chromaCache :: "(int \<times> real) list"

definition KeyColor_maxChromaValue :: real where
  "KeyColor_maxChromaValue = 200"

definition KeyColor_new :: "real \<Rightarrow> real \<Rightarrow> KeyColor" where
  "KeyColor_new hue requestedChroma =
     \<lparr>kc_hue = hue, kc_requestedChroma = requestedChroma, kc_chromaCache = []\<rparr>"

definition KeyColor_maxChroma :: "KeyColor \<Rightarrow> int \<Rightarrow> real \<times> KeyColor" where
  "KeyColor_maxChroma k tone =
     (case map_of (kc_chromaCache k) tone of
        Some chroma \<Rightarrow> (chroma, k)
      | None \<Rightarrow>
          (let chroma = internalChroma (Hct_from (kc_hue k) KeyColor_maxChromaValue (real_of_int tone))
           in (chroma, k\<lparr>kc_chromaCache := AList.update tone chroma (kc_chromaCache k)\<rparr>)))"

text \<open>
  The loop \<open>while (lowerTone < upperTone)\<close> of \<open>create\<close>. The tones are integers, so
  \<open>Math.floor((lowerTone + upperTone) / 2)\<close> is the integer quotient.
\<close>

function KeyColor_create_loop :: "KeyColor \<Rightarrow> int \<Rightarrow> int \<Rightarrow> Hct" where
  "KeyColor_create_loop k lowerTone upperTone =
     (let pivotTone = 50; toneStepSize = 1; epsilon = 0.01
      in if lowerTone < upperTone then
           (let midTone = (lowerTone + upperTone) div 2;
                m1 = KeyColor_maxChroma k midTone;
                m2 = KeyColor_maxChroma (snd m1) (midTone + toneStepSize);
                isAscending = fst m1 < fst m2;
                m3 = KeyColor_maxChroma (snd m2) midTone;
                sufficientChroma = fst m3 \<ge> kc_requestedChroma k - epsilon;
                k' = snd m3
            in if sufficientChroma then
                 (if \<bar>lowerTone - pivotTone\<bar> < \<bar>upperTone - pivotTone\<bar>
                  then KeyColor_create_loop k' lowerTone midTone
                  else if lowerTone = midTone
                    then Hct_from (kc_hue k) (kc_requestedChroma k) (real_of_int lowerTone)
                    else KeyColor_create_loop k' midTone upperTone)
               else if isAscending then KeyColor_create_loop k' (midTone + toneStepSize) upperTone
               else KeyColor_create_loop k' lowerTone midTone)
         else Hct_from (kc_hue k) (kc_requestedChroma k) (real_of_int lowerTone))"
  by pat_completeness auto
termination
  by (relation "measure (\<lambda>(k, lowerTone, upperTone). nat (upperTone - lowerTone))") auto

definition KeyColor_create :: "KeyColor \<Rightarrow> Hct" where
  "KeyColor_create k = KeyColor_create_loop k 0 100"

definition TonalPalette_fromHueAndChroma :: "real \<Rightarrow> real \<Rightarrow> TonalPalette" where
  "TonalPalette_fromHueAndChroma hue chroma =
     (let keyColor = KeyColor_create (KeyColor_new hue chroma)
      in TonalPalette_new hue chroma keyColor)"

section \<open>dynamiccolor: scheme, contrast curve, tone delta pair\<close>

datatype Variant =
  MONOCHROME | NEUTRAL | TONAL_SPOT | VIBRANT | EXPRESSIVE | FIDELITY | CONTENT | RAINBOW
  | FRUIT_SALAD

datatype SpecVersion = SPEC_2021 | SPEC_2025

datatype Platform = PHONE | WATCH

record ContrastCurve =
  cc_low :: real
  cc_normal :: real
  cc_medium :: real
  cc_high :: real

definition ContrastCurve_get :: "ContrastCurve \<Rightarrow> real \<Rightarrow> real" where
  "ContrastCurve_get curve contrastLevel =
     (if contrastLevel \<le> - 1 then cc_low curve
      else if contrastLevel < 0 then lerp (cc_low curve) (cc_normal curve) ((contrastLevel - (- 1)) / 1)
      else if contrastLevel < 0.5 then lerp (cc_normal curve) (cc_medium curve) ((contrastLevel - 0) / 0.5)
      else if contrastLevel < 1 then lerp (cc_medium curve) (cc_high curve) ((contrastLevel - 0.5) / 0.5)
      else cc_high curve)"

record DynamicScheme =
  sourceColorHct :: Hct
  sourceColorArgb :: argb
  variant :: Variant
  contrastLevel :: real
  isDark :: bool
  platform :: Platform
  specVersion :: SpecVersion
  primaryPalette :: TonalPalette
  secondaryPalette :: TonalPalette
  tertiaryPalette :: TonalPalette
  neutralPalette :: TonalPalette
  neutralVariantPalette :: TonalPalette
  errorPalette :: TonalPalette

text \<open>
  The palette delegates \<open>DynamicSchemePalettesDelegateImpl2021\<close> and
  \<open>DynamicSchemePalettesDelegateImpl2025\<close> are tables of formulas per variant; each entry
  is a function of the five arguments below. The constructor of \<open>DynamicScheme\<close> is
  modelled for any such table, which it receives as \<open>getSpec\<close>.
\<close>

record PalettesDelegate =
  getPrimaryPalette :: "Variant \<Rightarrow> Hct \<Rightarrow> bool \<Rightarrow> Platform \<Rightarrow> real \<Rightarrow> TonalPalette"
  getSecondaryPalette :: "Variant \<Rightarrow> Hct \<Rightarrow> bool \<Rightarrow> Platform \<Rightarrow> real \<Rightarrow> TonalPalette"
  getTertiaryPalette :: "Variant \<Rightarrow> Hct \<Rightarrow> bool \<Rightarrow> Platform \<Rightarrow> real \<Rightarrow> TonalPalette"
  getNeutralPalette :: "Variant \<Rightarrow> Hct \<Rightarrow> bool \<Rightarrow> Platform \<Rightarrow> real \<Rightarrow> TonalPalette"
  getNeutralVariantPalette :: "Variant \<Rightarrow> Hct \<Rightarrow> bool \<Rightarrow> Platform \<Rightarrow> real \<Rightarrow> TonalPalette"
  getErrorPalette :: "Variant \<Rightarrow> Hct \<Rightarrow> bool \<Rightarrow> Platform \<Rightarrow> real \<Rightarrow> TonalPalette option"

record DynamicSchemeOptions =
  opt_sourceColorHct :: Hct
  opt_variant :: Variant
  opt_isDark :: bool
  opt_contrastLevel :: "real option"
  opt_specVersion :: "SpecVersion option"
  opt_platform :: "Platform option"
  opt_primaryPalette :: "TonalPalette option"
  opt_secondaryPalette :: "TonalPalette option"
  opt_tertiaryPalette :: "TonalPalette option"
  opt_neutralPalette :: "TonalPalette option"
  opt_neutralVariantPalette :: "TonalPalette option"
  opt_errorPalette :: "TonalPalette option"

definition DEFAULT_SPEC_VERSION :: SpecVersion where
  "DEFAULT_SPEC_VERSION = SPEC_2021"

definition DEFAULT_PLATFORM :: Platform where
  "DEFAULT_PLATFORM = PHONE"

text \<open>\<open>a ?? b\<close>\<close>

definition orElse :: "'a option \<Rightarrow> 'a \<Rightarrow> 'a" where
  "orElse a b = (case a of Some v \<Rightarrow> v | None \<Rightarrow> b)"

text \<open>The constructor \<open>new DynamicScheme(options)\<close>.\<close>

definition DynamicScheme_new ::
  "(SpecVersion \<Rightarrow> PalettesDelegate) \<Rightarrow> DynamicSchemeOptions \<Rightarrow> DynamicScheme" where
  "DynamicScheme_new getSpec args =
     (let sourceColorHct = opt_sourceColorHct args;
          isDark = opt_isDark args;
          contrastLevel = orElse (opt_contrastLevel args) 0;
          variant = opt_variant args;
          specVersion = orElse (opt_specVersion args) DEFAULT_SPEC_VERSION;
          platform = orElse (opt_platform args) DEFAULT_PLATFORM
      in \<lparr>sourceColorHct = sourceColorHct,
          sourceColorArgb = Hct_toInt sourceColorHct,
          variant = variant,
          contrastLevel = contrastLevel,
          isDark = isDark,
          platform = platform,
          specVersion = specVersion,
          primaryPalette = orElse (opt_primaryPalette args)
            (getPrimaryPalette (getSpec specVersion) variant sourceColorHct isDark platform contrastLevel),
          secondaryPalette = orElse (opt_secondaryPalette args)
            (getSecondaryPalette (getSpec specVersion) variant sourceColorHct isDark platform contrastLevel),
          tertiaryPalette = orElse (opt_tertiaryPalette args)
            (getTertiaryPalette (getSpec specVersion) variant sourceColorHct isDark platform contrastLevel),
          neutralPalette = orElse (opt_neutralPalette args)
            (getNeutralPalette (getSpec specVersion) variant sourceColorHct isDark platform contrastLevel),
          neutralVariantPalette = orElse (opt_neutralVariantPalette args)
            (getNeutralVariantPalette (getSpec specVersion) variant sourceColorHct isDark platform
               contrastLevel),
          errorPalette = orElse (opt_errorPalette args)
            (orElse (getErrorPalette (getSpec specVersion) variant sourceColorHct isDark platform
                       contrastLevel)
               (TonalPalette_fromHueAndChroma 25 84))\<rparr>)"

datatype TonePolarity =
  Polarity_darker | Polarity_lighter | Polarity_nearer | Polarity_farther
  | Polarity_relative_darker | Polarity_relative_lighter

datatype DeltaConstraint = Constraint_exact | Constraint_nearer | Constraint_farther

section \<open>dynamiccolor/dynamic\_color.ts\<close>

text \<open>
  A scheme is a JavaScript object: the cache of a dynamic colour is keyed by the object
  itself, not by its fields. An object is named here by a reference, and a heap gives
  the fields of each object, which are read-only.
\<close>

type_synonym ref = nat

type_synonym heap = "ref \<Rightarrow> DynamicScheme"

text \<open>
  The functional fields of a dynamic colour are total functions of the scheme here: a
  closure that does not return is outside the model. An optional field is an
  \<open>option\<close>, and so is the result of a closure that may return \<open>undefined\<close>. The field
  \<open>hctCache\<close> is a \<open>Map\<close> from scheme objects to \<open>Hct\<close> values.
  A role is a finite tree of roles: the roles that its closures return are built before
  it. Where a closure of the source returns a pair that holds the role itself, \<open>getTone\<close>
  reads the name, the declared tone and the contrast curve of that role and does not
  call its \<open>getTone\<close>; the pair then holds a copy of the role without the closure.
\<close>

datatype DynamicColor = DynamicColor
  (dc_name: string)
  (dc_palette: "DynamicScheme \<Rightarrow> TonalPalette")
  (dc_tone: "DynamicScheme \<Rightarrow> real")
  (dc_isBackground: bool)
  (dc_chromaMultiplier: "(DynamicScheme \<Rightarrow> real) option")
  (dc_background: "(DynamicScheme \<Rightarrow> DynamicColor option) option")
  (dc_secondBackground: "(DynamicScheme \<Rightarrow> DynamicColor option) option")
  (dc_contrastCurve: "(DynamicScheme \<Rightarrow> ContrastCurve option) option")
  (dc_toneDeltaPair: "(DynamicScheme \<Rightarrow> ToneDeltaPair option) option")
  (dc_hctCache: "(ref \<times> Hct) list")
and ToneDeltaPair = ToneDeltaPair
  (tdp_roleA: DynamicColor)
  (tdp_roleB: DynamicColor)
  (tdp_delta: real)
  (tdp_polarity: TonePolarity)
  (tdp_stayTogether: bool)
  (tdp_constraint: DeltaConstraint)

text \<open>The constructor of \<open>ToneDeltaPair\<close>: \<open>this.constraint = constraint ?? "exact"\<close>.\<close>

definition ToneDeltaPair_new ::
  "DynamicColor \<Rightarrow> DynamicColor \<Rightarrow> real \<Rightarrow> TonePolarity \<Rightarrow> bool \<Rightarrow> DeltaConstraint option
   \<Rightarrow> ToneDeltaPair" where
  "ToneDeltaPair_new roleA roleB delta polarity stayTogether constraint =
     ToneDeltaPair roleA roleB delta polarity stayTogether (orElse constraint Constraint_exact)"

datatype error = Error string

text \<open>The constructor of \<open>DynamicColor\<close>, with its three checks; the cache starts empty.\<close>

definition DynamicColor_new ::
  "string \<Rightarrow> (DynamicScheme \<Rightarrow> TonalPalette) \<Rightarrow> (DynamicScheme \<Rightarrow> real) \<Rightarrow> bool
   \<Rightarrow> (DynamicScheme \<Rightarrow> real) option
   \<Rightarrow> (DynamicScheme \<Rightarrow> DynamicColor option) option
   \<Rightarrow> (DynamicScheme \<Rightarrow> DynamicColor option) option
   \<Rightarrow> (DynamicScheme \<Rightarrow> ContrastCurve option) option
   \<Rightarrow> (DynamicScheme \<Rightarrow> ToneDeltaPair option) option
   \<Rightarrow> error + DynamicColor" where
  "DynamicColor_new name palette tone isBackground chromaMultiplier background secondBackground
     contrastCurve toneDeltaPair =
     (if background = None \<and> secondBackground \<noteq> None
        then Inl (Error (''Color '' @ name @ '' has secondBackgrounddefined, but background is not defined.''))
      else if background = None \<and> contrastCurve \<noteq> None
        then Inl (Error (''Color '' @ name @ '' has contrastCurvedefined, but background is not defined.''))
      else if background \<noteq> None \<and> contrastCurve = None
        then Inl (Error (''Color '' @ name @ '' has backgrounddefined, but contrastCurve is not defined.''))
      else Inr (DynamicColor name palette tone isBackground chromaMultiplier background
                  secondBackground contrastCurve toneDeltaPair []))"

definition set_hctCache :: "(ref \<times> Hct) list \<Rightarrow> DynamicColor \<Rightarrow> DynamicColor" where
  "set_hctCache cache color =
     DynamicColor (dc_name color) (dc_palette color) (dc_tone color) (dc_isBackground color)
       (dc_chromaMultiplier color) (dc_background color) (dc_secondBackground color)
       (dc_contrastCurve color) (dc_toneDeltaPair color) cache"

definition clearCache :: "DynamicColor \<Rightarrow> DynamicColor" where
  "clearCache color = set_hctCache [] color"

definition tonePrefersLightForeground :: "real \<Rightarrow> bool" where
  "tonePrefersLightForeground tone = (jsRound tone < 60)"

definition toneAllowsLightForeground :: "real \<Rightarrow> bool" where
  "toneAllowsLightForeground tone = (jsRound tone \<le> 49)"

definition enableLightForeground :: "real \<Rightarrow> real" where
  "enableLightForeground tone =
     (if tonePrefersLightForeground tone \<and> \<not> toneAllowsLightForeground tone then 49 else tone)"

definition foregroundTone :: "real \<Rightarrow> real \<Rightarrow> real" where
  "foregroundTone bgTone ratio =
     (let lighterTone = Contrast_lighterUnsafe bgTone ratio;
          darkerTone = Contrast_darkerUnsafe bgTone ratio;
          lighterRatio = ratioOfTones lighterTone bgTone;
          darkerRatio = ratioOfTones darkerTone bgTone;
          preferLighter = tonePrefersLightForeground bgTone
      in if preferLighter then
           (let negligibleDifference =
                  (\<bar>lighterRatio - darkerRatio\<bar> < 0.1 \<and> lighterRatio < ratio \<and> darkerRatio < ratio)
            in if lighterRatio \<ge> ratio \<or> lighterRatio \<ge> darkerRatio \<or> negligibleDifference
               then lighterTone else darkerTone)
         else (if darkerRatio \<ge> ratio \<or> darkerRatio \<ge> lighterRatio then darkerTone else lighterTone))"

text \<open>\<open>name.endsWith(suffix)\<close>\<close>

definition endsWith :: "string \<Rightarrow> string \<Rightarrow> bool" where
  "endsWith s suffix =
     (length suffix \<le> length s \<and> drop (length s - length suffix) s = suffix)"

section \<open>dynamiccolor/dynamic\_color.ts: the colour calculation delegates\<close>

text \<open>
  The two \<open>getTone\<close> methods call \<open>getTone\<close> of other colours (a background, the other
  role of a pair). The argument \<open>rec\<close> stands for that call; it returns \<open>None\<close> when the
  nested call does not return.
\<close>

text \<open>
  The statements after \<open>if (color.secondBackground == undefined || ...) return answer\<close>,
  which are the same in both delegates.
\<close>

definition secondBackgroundTone ::
  "(DynamicColor \<Rightarrow> real option) \<Rightarrow> DynamicScheme \<Rightarrow> DynamicColor \<Rightarrow> DynamicColor \<Rightarrow> real \<Rightarrow> real
   \<Rightarrow> real option" where
  "secondBackgroundTone rec scheme color bg answer desiredRatio =
     (case dc_secondBackground color of
        None \<Rightarrow> Some answer
      | Some secondBackground \<Rightarrow>
          (case secondBackground scheme of
             None \<Rightarrow> Some answer
           | Some bg2 \<Rightarrow>
               (case rec bg of
                  None \<Rightarrow> None
                | Some bgTone1 \<Rightarrow>
                    (case rec bg2 of
                       None \<Rightarrow> None
                     | Some bgTone2 \<Rightarrow>
                         (let upper = max bgTone1 bgTone2;
                              lower = min bgTone1 bgTone2
                          in if ratioOfTones upper answer \<ge> desiredRatio
                                \<and> ratioOfTones lower answer \<ge> desiredRatio
                             then Some answer
                             else
                               (let lightOption = Contrast_lighter upper desiredRatio;
                                    darkOption = Contrast_darker lower desiredRatio;
                                    availables = (if lightOption \<noteq> - 1 then [lightOption] else [])
                                                   @ (if darkOption \<noteq> - 1 then [darkOption] else []);
                                    prefersLight = (tonePrefersLightForeground bgTone1
                                                    \<or> tonePrefersLightForeground bgTone2)
                                in if prefersLight
                                     then Some (if lightOption < 0 then 100 else lightOption)
                                   else if length availables = 1 then Some (availables ! 0)
                                   else Some (if darkOption < 0 then 0 else darkOption)))))))"

text \<open>The 2021 delegate, pair branch: raising both tones to their contrast curves.\<close>

definition pair2021_contrast ::
  "(DynamicColor \<Rightarrow> real option) \<Rightarrow> DynamicScheme \<Rightarrow> DynamicColor \<Rightarrow> DynamicColor \<Rightarrow> DynamicColor
   \<Rightarrow> bool \<Rightarrow> real \<Rightarrow> real \<Rightarrow> (real \<times> real) option" where
  "pair2021_contrast rec scheme color nearer farther decreasingContrast nTone fTone =
     (case dc_background color of
        None \<Rightarrow> Some (nTone, fTone)
      | Some background \<Rightarrow>
     (case dc_contrastCurve nearer of
        None \<Rightarrow> Some (nTone, fTone)
      | Some nearerCurve \<Rightarrow>
     (case dc_contrastCurve farther of
        None \<Rightarrow> Some (nTone, fTone)
      | Some fartherCurve \<Rightarrow>
     (case background scheme of
        None \<Rightarrow> Some (nTone, fTone)
      | Some bg \<Rightarrow>
     (case nearerCurve scheme of
        None \<Rightarrow> Some (nTone, fTone)
      | Some nContrastCurve \<Rightarrow>
     (case fartherCurve scheme of
        None \<Rightarrow> Some (nTone, fTone)
      | Some fContrastCurve \<Rightarrow>
     (case rec bg of
        None \<Rightarrow> None
      | Some bgTone \<Rightarrow>
          (let nContrast = ContrastCurve_get nContrastCurve (contrastLevel scheme);
               fContrast = ContrastCurve_get fContrastCurve (contrastLevel scheme);
               nTone = (if ratioOfTones bgTone nTone < nContrast
                        then foregroundTone bgTone nContrast else nTone);
               fTone = (if ratioOfTones bgTone fTone < fContrast
                        then foregroundTone bgTone fContrast else fTone)
           in if decreasingContrast
              then Some (foregroundTone bgTone nContrast, foregroundTone bgTone fContrast)
              else Some (nTone, fTone)))))))))"

text \<open>The 2021 delegate, pair branch: enforcing the delta.\<close>

definition pair2021_delta :: "real \<Rightarrow> real \<Rightarrow> real \<Rightarrow> real \<Rightarrow> real \<times> real" where
  "pair2021_delta delta expansionDir nTone fTone =
     (if (fTone - nTone) * expansionDir < delta then
        (let fTone = clampDouble 0 100 (nTone + delta * expansionDir)
         in if (fTone - nTone) * expansionDir \<ge> delta then (nTone, fTone)
            else (clampDouble 0 100 (fTone - delta * expansionDir), fTone))
      else (nTone, fTone))"

text \<open>The 2021 delegate, pair branch: leaving the tones from 50 to 60.\<close>

definition pair2021_awkward :: "bool \<Rightarrow> real \<Rightarrow> real \<Rightarrow> real \<Rightarrow> real \<Rightarrow> real \<times> real" where
  "pair2021_awkward stayTogether delta expansionDir nTone fTone =
     (if 50 \<le> nTone \<and> nTone < 60 then
        (if expansionDir > 0 then (60, max fTone (60 + delta * expansionDir))
         else (49, min fTone (49 + delta * expansionDir)))
      else if 50 \<le> fTone \<and> fTone < 60 then
        (if stayTogether then
           (if expansionDir > 0 then (60, max fTone (60 + delta * expansionDir))
            else (49, min fTone (49 + delta * expansionDir)))
         else if expansionDir > 0 then (nTone, 60)
         else (nTone, 49))
      else (nTone, fTone))"

definition ColorCalculationDelegateImpl2021_getTone ::
  "(DynamicColor \<Rightarrow> real option) \<Rightarrow> DynamicScheme \<Rightarrow> DynamicColor \<Rightarrow> real option" where
  "ColorCalculationDelegateImpl2021_getTone rec scheme color =
     (let decreasingContrast = contrastLevel scheme < 0;
          toneDeltaPair = (case dc_toneDeltaPair color of Some f \<Rightarrow> f scheme | None \<Rightarrow> None)
      in case toneDeltaPair of
           Some pair \<Rightarrow>
             (let roleA = tdp_roleA pair;
                  roleB = tdp_roleB pair;
                  delta = tdp_delta pair;
                  polarity = tdp_polarity pair;
                  stayTogether = tdp_stayTogether pair;
                  aIsNearer = (polarity = Polarity_nearer
                               \<or> polarity = Polarity_lighter \<and> \<not> isDark scheme
                               \<or> polarity = Polarity_darker \<and> isDark scheme);
                  nearer = (if aIsNearer then roleA else roleB);
                  farther = (if aIsNearer then roleB else roleA);
                  amNearer = (dc_name color = dc_name nearer);
                  expansionDir = (if isDark scheme then 1 else - 1);
                  nTone = dc_tone nearer scheme;
                  fTone = dc_tone farther scheme
              in case pair2021_contrast rec scheme color nearer farther decreasingContrast nTone fTone of
                   None \<Rightarrow> None
                 | Some t1 \<Rightarrow>
                     (let t2 = pair2021_delta delta expansionDir (fst t1) (snd t1);
                          t3 = pair2021_awkward stayTogether delta expansionDir (fst t2) (snd t2)
                      in Some (if amNearer then fst t3 else snd t3)))
         | None \<Rightarrow>
             (let answer = dc_tone color scheme
              in case dc_background color of
                   None \<Rightarrow> Some answer
                 | Some background \<Rightarrow>
                (case background scheme of
                   None \<Rightarrow> Some answer
                 | Some bg \<Rightarrow>
                (case dc_contrastCurve color of
                   None \<Rightarrow> Some answer
                 | Some contrastCurve \<Rightarrow>
                (case contrastCurve scheme of
                   None \<Rightarrow> Some answer
                 | Some curve \<Rightarrow>
                (case rec bg of
                   None \<Rightarrow> None
                 | Some bgTone \<Rightarrow>
                     (let desiredRatio = ContrastCurve_get curve (contrastLevel scheme);
                          answer = (if ratioOfTones bgTone answer \<ge> desiredRatio then answer
                                    else foregroundTone bgTone desiredRatio);
                          answer = (if decreasingContrast then foregroundTone bgTone desiredRatio
                                    else answer);
                          answer = (if dc_isBackground color \<and> 50 \<le> answer \<and> answer < 60
                                    then (if ratioOfTones 49 bgTone \<ge> desiredRatio then 49 else 60)
                                    else answer)
                      in secondBackgroundTone rec scheme color bg answer desiredRatio)))))))"

text \<open>The 2025 delegate, pair branch: the three constraint modes.\<close>

definition pair2025_constraint :: "DeltaConstraint \<Rightarrow> real \<Rightarrow> real \<Rightarrow> real \<Rightarrow> real" where
  "pair2025_constraint constraint relativeDelta refTone selfTone =
     (if constraint = Constraint_exact then clampDouble 0 100 (refTone + relativeDelta)
      else if constraint = Constraint_nearer then
        (if relativeDelta > 0
         then clampDouble 0 100 (clampDouble refTone (refTone + relativeDelta) selfTone)
         else clampDouble 0 100 (clampDouble (refTone + relativeDelta) refTone selfTone))
      else if constraint = Constraint_farther then
        (if relativeDelta > 0 then clampDouble (refTone + relativeDelta) 100 selfTone
         else clampDouble 0 (refTone + relativeDelta) selfTone)
      else selfTone)"

text \<open>
  The 2025 delegate: \<open>if (color.isBackground && !color.name.endsWith("_fixed_dim"))\<close> and
  the two clamps under it.
\<close>

definition bucket2025 :: "DynamicColor \<Rightarrow> real \<Rightarrow> real" where
  "bucket2025 color tone =
     (if dc_isBackground color \<and> \<not> endsWith (dc_name color) ''_fixed_dim'' then
        (if tone \<ge> 57 then clampDouble 65 100 tone else clampDouble 0 49 tone)
      else tone)"

definition ColorCalculationDelegateImpl2025_getTone ::
  "(DynamicColor \<Rightarrow> real option) \<Rightarrow> DynamicScheme \<Rightarrow> DynamicColor \<Rightarrow> real option" where
  "ColorCalculationDelegateImpl2025_getTone rec scheme color =
     (let toneDeltaPair = (case dc_toneDeltaPair color of Some f \<Rightarrow> f scheme | None \<Rightarrow> None)
      in case toneDeltaPair of
           Some pair \<Rightarrow>
             (let roleA = tdp_roleA pair;
                  roleB = tdp_roleB pair;
                  polarity = tdp_polarity pair;
                  constraint = tdp_constraint pair;
                  absoluteDelta =
                    (if polarity = Polarity_darker
                        \<or> polarity = Polarity_relative_lighter \<and> isDark scheme
                        \<or> polarity = Polarity_relative_darker \<and> \<not> isDark scheme
                     then - tdp_delta pair else tdp_delta pair);
                  amRoleA = (dc_name color = dc_name roleA);
                  selfRole = (if amRoleA then roleA else roleB);
                  refRole = (if amRoleA then roleB else roleA);
                  selfTone = dc_tone selfRole scheme
              in case rec refRole of
                   None \<Rightarrow> None
                 | Some refTone \<Rightarrow>
                     (let relativeDelta = absoluteDelta * (if amRoleA then 1 else - 1);
                          selfTone = pair2025_constraint constraint relativeDelta refTone selfTone
                      in case dc_background color of
                           None \<Rightarrow> Some (bucket2025 color selfTone)
                         | Some background \<Rightarrow>
                        (case dc_contrastCurve color of
                           None \<Rightarrow> Some (bucket2025 color selfTone)
                         | Some contrastCurve \<Rightarrow>
                        (case background scheme of
                           None \<Rightarrow> Some (bucket2025 color selfTone)
                         | Some bg \<Rightarrow>
                        (case contrastCurve scheme of
                           None \<Rightarrow> Some (bucket2025 color selfTone)
                         | Some curve \<Rightarrow>
                        (case rec bg of
                           None \<Rightarrow> None
                         | Some bgTone \<Rightarrow>
                             (let selfContrast = ContrastCurve_get curve (contrastLevel scheme);
                                  selfTone =
                                    (if ratioOfTones bgTone selfTone \<ge> selfContrast
                                        \<and> contrastLevel scheme \<ge> 0
                                     then selfTone else foregroundTone bgTone selfContrast)
                              in Some (bucket2025 color selfTone))))))))
         | None \<Rightarrow>
             (let answer = dc_tone color scheme
              in case dc_background color of
                   None \<Rightarrow> Some answer
                 | Some background \<Rightarrow>
                (case background scheme of
                   None \<Rightarrow> Some answer
                 | Some bg \<Rightarrow>
                (case dc_contrastCurve color of
                   None \<Rightarrow> Some answer
                 | Some contrastCurve \<Rightarrow>
                (case contrastCurve scheme of
                   None \<Rightarrow> Some answer
                 | Some curve \<Rightarrow>
                (case rec bg of
                   None \<Rightarrow> None
                 | Some bgTone \<Rightarrow>
                     (let desiredRatio = ContrastCurve_get curve (contrastLevel scheme);
                          answer = (if ratioOfTones bgTone answer \<ge> desiredRatio
                                       \<and> contrastLevel scheme \<ge> 0
                                    then answer else foregroundTone bgTone desiredRatio);
                          answer = bucket2025 color answer
                      in secondBackgroundTone rec scheme color bg answer desiredRatio)))))))"

text \<open>
  \<open>DynamicColor.getTone\<close> chooses the delegate by the spec version of the scheme. The
  first argument bounds the depth of nested \<open>getTone\<close> calls; \<open>None\<close> is a call that
  exceeds it.
\<close>

fun DynamicColor_getTone :: "nat \<Rightarrow> DynamicScheme \<Rightarrow> DynamicColor \<Rightarrow> real option" where
  "DynamicColor_getTone 0 scheme color = None"
| "DynamicColor_getTone (Suc depth) scheme color =
     (if specVersion scheme = SPEC_2025
      then ColorCalculationDelegateImpl2025_getTone (DynamicColor_getTone depth scheme) scheme color
      else ColorCalculationDelegateImpl2021_getTone (DynamicColor_getTone depth scheme) scheme color)"

text \<open>
  The two \<open>getHct\<close> delegates. \<open>palette.getHct(tone)\<close> also fills the memo table of the
  palette; that table only repeats what \<open>tone\<close> computes, and the updated palette is
  not kept here.
\<close>

definition ColorCalculationDelegateImpl2021_getHct ::
  "nat \<Rightarrow> DynamicScheme \<Rightarrow> DynamicColor \<Rightarrow> Hct option" where
  "ColorCalculationDelegateImpl2021_getHct depth scheme color =
     (case DynamicColor_getTone depth scheme color of
        None \<Rightarrow> None
      | Some tone \<Rightarrow>
          (let palette = dc_palette color scheme
           in Some (fst (TonalPalette_getHct palette tone))))"

definition ColorCalculationDelegateImpl2025_getHct ::
  "nat \<Rightarrow> DynamicScheme \<Rightarrow> DynamicColor \<Rightarrow> Hct option" where
  "ColorCalculationDelegateImpl2025_getHct depth scheme color =
     (let palette = dc_palette color scheme
      in case DynamicColor_getTone depth scheme color of
           None \<Rightarrow> None
         | Some tone \<Rightarrow>
             (let hue = tp_hue palette;
                  chroma = tp_chroma palette
                    * (case dc_chromaMultiplier color of Some f \<Rightarrow> f scheme | None \<Rightarrow> 1)
              in Some (Hct_from hue chroma tone)))"

text \<open>\<open>getSpec(scheme.specVersion).getHct(scheme, this)\<close>\<close>

definition delegate_getHct :: "nat \<Rightarrow> DynamicScheme \<Rightarrow> DynamicColor \<Rightarrow> Hct option" where
  "delegate_getHct depth scheme color =
     (if specVersion scheme = SPEC_2025
      then ColorCalculationDelegateImpl2025_getHct depth scheme color
      else ColorCalculationDelegateImpl2021_getHct depth scheme color)"

text \<open>
  \<open>DynamicColor.getHct(scheme)\<close>: the scheme is given by its reference. The result is the
  colour together with the dynamic colour as it is after the call; a call that does not
  return leaves no result.
\<close>

definition DynamicColor_getHct ::
  "nat \<Rightarrow> heap \<Rightarrow> DynamicColor \<Rightarrow> ref \<Rightarrow> (Hct \<times> DynamicColor) option" where
  "DynamicColor_getHct depth h color scheme =
     (case map_of (dc_hctCache color) scheme of
        Some cachedAnswer \<Rightarrow> Some (cachedAnswer, color)
      | None \<Rightarrow>
          (case delegate_getHct depth (h scheme) color of
             None \<Rightarrow> None
           | Some answer \<Rightarrow>
               (let cache = (if length (dc_hctCache color) > 4 then [] else dc_hctCache color)
                in Some (answer, set_hctCache (AList.update scheme answer cache) color))))"

definition DynamicColor_getArgb ::
  "nat \<Rightarrow> heap \<Rightarrow> DynamicColor \<Rightarrow> ref \<Rightarrow> (argb \<times> DynamicColor) option" where
  "DynamicColor_getArgb depth h color scheme =
     (case DynamicColor_getHct depth h color scheme of
        None \<Rightarrow> None
      | Some r \<Rightarrow> Some (Hct_toInt (fst r), snd r))"

section \<open>quantize/quantizer\_map.ts\<close>

text \<open>
  A \<open>Map\<close> from colours to counts is an association list in insertion order;
  \<open>countByColor.get(pixel) ?? 0\<close> is \<open>orElse\<close>. A pixel is a packed colour, a 32-bit
  word: the two JavaScript numbers with the same 32 bits (one negative, one not) are one
  pixel here, and they are two keys of the \<open>Map\<close> of the source.
\<close>

definition QuantizerMap_step :: "argb \<Rightarrow> (argb \<times> nat) list \<Rightarrow> (argb \<times> nat) list" where
  "QuantizerMap_step pixel countByColor =
     (let alpha = alphaFromArgb pixel
      in if alpha < 255 then countByColor
         else AList.update pixel (orElse (map_of countByColor pixel) 0 + 1) countByColor)"

definition QuantizerMap_quantize :: "argb list \<Rightarrow> (argb \<times> nat) list" where
  "QuantizerMap_quantize pixels = fold QuantizerMap_step pixels []"

section \<open>quantize/quantizer\_wu.ts\<close>

definition INDEX_BITS :: nat where
  "INDEX_BITS = 5"

definition SIDE_LENGTH :: nat where
  "SIDE_LENGTH = 33"

definition TOTAL_SIZE :: nat where
  "TOTAL_SIZE = 35937"

text \<open>
  \<open>(r << INDEX_BITS * 2) + (r << INDEX_BITS + 1) + r + (g << INDEX_BITS) + g + b\<close>, on
  indices that are at most 32.
\<close>

definition getIndex :: "nat \<Rightarrow> nat \<Rightarrow> nat \<Rightarrow> nat" where
  "getIndex r g b =
     push_bit (INDEX_BITS * 2) r + push_bit (INDEX_BITS + 1) r + r + push_bit INDEX_BITS g + g + b"

record WuHistogram =
  wu_weights :: "int list"
  wu_momentsR :: "int list"
  wu_momentsG :: "int list"
  wu_momentsB :: "int list"
  wu_moments :: "int list"

text \<open>One round of the loop over the entries of \<open>countByColor\<close> in \<open>constructHistogram\<close>.\<close>

definition constructHistogram_step :: "argb \<times> nat \<Rightarrow> WuHistogram \<Rightarrow> WuHistogram" where
  "constructHistogram_step entry hist =
     (let pixel = fst entry;
          count = int (snd entry);
          red = redFromArgb pixel;
          green = greenFromArgb pixel;
          blue = blueFromArgb pixel;
          bitsToRemove = 8 - INDEX_BITS;
          iR = nat (drop_bit bitsToRemove red) + 1;
          iG = nat (drop_bit bitsToRemove green) + 1;
          iB = nat (drop_bit bitsToRemove blue) + 1;
          index = getIndex iR iG iB
      in hist\<lparr>wu_weights := (wu_weights hist)[index := wu_weights hist ! index + count],
              wu_momentsR := (wu_momentsR hist)[index := wu_momentsR hist ! index + count * red],
              wu_momentsG := (wu_momentsG hist)[index := wu_momentsG hist ! index + count * green],
              wu_momentsB := (wu_momentsB hist)[index := wu_momentsB hist ! index + count * blue],
              wu_moments := (wu_moments hist)[index := wu_moments hist ! index
                  + count * (red * red + green * green + blue * blue)]\<rparr>)"

definition constructHistogram :: "argb list \<Rightarrow> WuHistogram" where
  "constructHistogram pixels =
     (let zero = \<lparr>wu_weights = replicate TOTAL_SIZE 0, wu_momentsR = replicate TOTAL_SIZE 0,
                   wu_momentsG = replicate TOTAL_SIZE 0, wu_momentsB = replicate TOTAL_SIZE 0,
                   wu_moments = replicate TOTAL_SIZE 0\<rparr>;
          countByColor = QuantizerMap_quantize pixels
      in fold constructHistogram_step countByColor zero)"

text \<open>
  \<open>QuantizerWu.quantize\<close> builds the histogram and then runs \<open>computeMoments\<close>,
  \<open>createBoxes\<close> and \<open>createResult\<close>, which read the five histogram arrays and
  \<open>maxColors\<close> and never the pixels. Those three stages are the argument \<open>boxes\<close>: what
  is proved about \<open>quantize\<close> below holds whatever they compute.
\<close>

definition QuantizerWu_quantize ::
  "(WuHistogram \<Rightarrow> nat \<Rightarrow> argb list) \<Rightarrow> argb list \<Rightarrow> nat \<Rightarrow> argb list" where
  "QuantizerWu_quantize boxes pixels maxColors = boxes (constructHistogram pixels) maxColors"

section \<open>quantize/lab\_point\_provider.ts\<close>

definition LabPointProvider_fromInt :: "argb \<Rightarrow> real list" where
  "LabPointProvider_fromInt c = labFromArgb c"

definition LabPointProvider_toInt :: "real list \<Rightarrow> argb" where
  "LabPointProvider_toInt point = argbFromLab (point ! 0) (point ! 1) (point ! 2)"

definition LabPointProvider_distance :: "real list \<Rightarrow> real list \<Rightarrow> real" where
  "LabPointProvider_distance from to =
     (let dL = from ! 0 - to ! 0;
          dA = from ! 1 - to ! 1;
          dB = from ! 2 - to ! 2
      in dL * dL + dA * dA + dB * dB)"

section \<open>quantize/quantizer\_wsmeans.ts\<close>

definition MAX_ITERATIONS :: nat where
  "MAX_ITERATIONS = 10"

definition MIN_MOVEMENT_DISTANCE :: real where
  "MIN_MOVEMENT_DISTANCE = 3"

text \<open>
  The first loop of \<open>quantize\<close>: every input pixel is counted, and a pixel seen for the
  first time becomes a point. There is no test of the alpha channel.
\<close>

record wsmeans_points =
  wp_pixelToCount :: "(argb \<times> nat) list"
  wp_points :: "real list list"
  wp_pixels :: "argb list"
  wp_pointCount :: nat

definition wsmeans_count_step :: "argb \<Rightarrow> wsmeans_points \<Rightarrow> wsmeans_points" where
  "wsmeans_count_step inputPixel st =
     (case map_of (wp_pixelToCount st) inputPixel of
        None \<Rightarrow>
          st\<lparr>wp_pointCount := wp_pointCount st + 1,
             wp_points := wp_points st @ [LabPointProvider_fromInt inputPixel],
             wp_pixels := wp_pixels st @ [inputPixel],
             wp_pixelToCount := AList.update inputPixel 1 (wp_pixelToCount st)\<rparr>
      | Some pixelCount \<Rightarrow>
          st\<lparr>wp_pixelToCount := AList.update inputPixel (pixelCount + 1) (wp_pixelToCount st)\<rparr>)"

definition wsmeans_count :: "argb list \<Rightarrow> wsmeans_points" where
  "wsmeans_count inputPixels =
     fold wsmeans_count_step inputPixels
       \<lparr>wp_pixelToCount = [], wp_points = [], wp_pixels = [], wp_pointCount = 0\<rparr>"

text \<open>The second loop: the count of each point. Every pixel of \<open>pixels\<close> has a count.\<close>

definition wsmeans_counts :: "wsmeans_points \<Rightarrow> nat list" where
  "wsmeans_counts st =
     map (\<lambda>i. orElse (map_of (wp_pixelToCount st) (wp_pixels st ! i)) 0) [0..<wp_pointCount st]"

text \<open>
  \<open>Math.random()\<close> is a sequence of draws from the interval from 0 (included) to 1
  (excluded); the function below is that sequence, in the order of the calls.
\<close>

type_synonym random = "nat \<Rightarrow> real"

definition wsmeans_random_clusters :: "random \<Rightarrow> nat \<Rightarrow> real list list" where
  "wsmeans_random_clusters rnd additionalClustersNeeded =
     map (\<lambda>i. [rnd (3 * i) * 100, rnd (3 * i + 1) * 201 + - 100, rnd (3 * i + 2) * 201 + - 100])
       [0..<additionalClustersNeeded]"

record wsmeans_state =
  ws_clusters :: "real list list"
  ws_clusterIndices :: "nat list"
  ws_indexMatrix :: "int list list"
  ws_distanceToIndexMatrix :: "(real \<times> int) list list"
  ws_pixelCountSums :: "nat list"

text \<open>
  The first loop of an iteration: the distances between the clusters. The call
  \<open>distanceToIndexMatrix[i].sort()\<close> has no comparison function, so it compares the
  elements as strings; they are objects, every one is \<open>"[object Object]"\<close>, and the
  stable sort leaves the row as it is.
\<close>

definition wsmeans_pair :: "real list list \<Rightarrow> nat \<Rightarrow> nat \<Rightarrow> (real \<times> int) list list
  \<Rightarrow> (real \<times> int) list list" where
  "wsmeans_pair clusters i j m =
     (let distance = LabPointProvider_distance (clusters ! i) (clusters ! j);
          m1 = m[j := (m ! j)[i := (distance, int i)]]
      in m1[i := (m1 ! i)[j := (distance, int j)]])"

definition wsmeans_row :: "nat \<Rightarrow> nat \<Rightarrow> wsmeans_state \<Rightarrow> wsmeans_state" where
  "wsmeans_row clusterCount i st =
     (let m = fold (wsmeans_pair (ws_clusters st) i) [i + 1..<clusterCount]
                (ws_distanceToIndexMatrix st);
          row = map (\<lambda>j. snd (m ! i ! j)) [0..<clusterCount]
      in st\<lparr>ws_distanceToIndexMatrix := m, ws_indexMatrix := (ws_indexMatrix st)[i := row]\<rparr>)"

text \<open>The loop over the clusters for one point: the nearest cluster, if one is nearer.\<close>

definition wsmeans_nearer :: "wsmeans_state \<Rightarrow> real list \<Rightarrow> nat \<Rightarrow> real \<Rightarrow> nat
  \<Rightarrow> real \<times> int \<Rightarrow> real \<times> int" where
  "wsmeans_nearer st point previousClusterIndex previousDistance j best =
     (if fst (ws_distanceToIndexMatrix st ! previousClusterIndex ! j) \<ge> 4 * previousDistance
      then best
      else
        (let distance = LabPointProvider_distance point (ws_clusters st ! j)
         in if distance < fst best then (distance, int j) else best))"

text \<open>
  One round of the loop over the points: the new cluster index of point \<open>i\<close>, and
  whether the point moved.
\<close>

definition wsmeans_move :: "nat \<Rightarrow> real list list \<Rightarrow> wsmeans_state \<Rightarrow> nat \<Rightarrow> nat \<times> bool" where
  "wsmeans_move clusterCount points st i =
     (let point = points ! i;
          previousClusterIndex = ws_clusterIndices st ! i;
          previousCluster = ws_clusters st ! previousClusterIndex;
          previousDistance = LabPointProvider_distance point previousCluster;
          best = fold (wsmeans_nearer st point previousClusterIndex previousDistance)
                   [0..<clusterCount] (previousDistance, - 1);
          minimumDistance = fst best;
          newClusterIndex = snd best
      in if newClusterIndex \<noteq> - 1 then
           (let distanceChange = \<bar>sqrt minimumDistance - sqrt previousDistance\<bar>
            in if distanceChange > MIN_MOVEMENT_DISTANCE then (nat newClusterIndex, True)
               else (previousClusterIndex, False))
         else (previousClusterIndex, False))"

text \<open>The sums of an iteration: one round of the loop over the points.\<close>

record wsmeans_sums =
  sum_pixelCountSums :: "nat list"
  sum_componentASums :: "real list"
  sum_componentBSums :: "real list"
  sum_componentCSums :: "real list"

definition wsmeans_add :: "real list list \<Rightarrow> nat list \<Rightarrow> nat list \<Rightarrow> nat \<Rightarrow> wsmeans_sums
  \<Rightarrow> wsmeans_sums" where
  "wsmeans_add points counts clusterIndices i acc =
     (let clusterIndex = clusterIndices ! i;
          point = points ! i;
          count = counts ! i
      in acc\<lparr>sum_pixelCountSums :=
               (sum_pixelCountSums acc)[clusterIndex := sum_pixelCountSums acc ! clusterIndex + count],
             sum_componentASums :=
               (sum_componentASums acc)[clusterIndex :=
                  sum_componentASums acc ! clusterIndex + point ! 0 * real count],
             sum_componentBSums :=
               (sum_componentBSums acc)[clusterIndex :=
                  sum_componentBSums acc ! clusterIndex + point ! 1 * real count],
             sum_componentCSums :=
               (sum_componentCSums acc)[clusterIndex :=
                  sum_componentCSums acc ! clusterIndex + point ! 2 * real count]\<rparr>)"

text \<open>The new centre of cluster \<open>i\<close>.\<close>

definition wsmeans_centre :: "wsmeans_sums \<Rightarrow> nat \<Rightarrow> real list" where
  "wsmeans_centre acc i =
     (let count = sum_pixelCountSums acc ! i
      in if count = 0 then [0, 0, 0]
         else
           (let a = sum_componentASums acc ! i / real count;
                b = sum_componentBSums acc ! i / real count;
                c = sum_componentCSums acc ! i / real count
            in [a, b, c]))"

text \<open>
  The loop \<open>for (let iteration = 0; iteration < MAX_ITERATIONS; iteration++)\<close>, with its
  \<open>break\<close>.
\<close>

function wsmeans_iterate ::
  "nat \<Rightarrow> nat \<Rightarrow> real list list \<Rightarrow> nat list \<Rightarrow> nat \<Rightarrow> wsmeans_state \<Rightarrow> wsmeans_state" where
  "wsmeans_iterate clusterCount pointCount points counts iteration st =
     (if iteration < MAX_ITERATIONS then
        (let st1 = fold (wsmeans_row clusterCount) [0..<clusterCount] st;
             moves = map (wsmeans_move clusterCount points st1) [0..<pointCount];
             pointsMoved = length (filter snd moves);
             st2 = st1\<lparr>ws_clusterIndices := map fst moves\<rparr>
         in if pointsMoved = 0 \<and> iteration \<noteq> 0 then st2
            else
              (let acc0 = \<lparr>sum_pixelCountSums = replicate clusterCount 0,
                           sum_componentASums = replicate clusterCount 0,
                           sum_componentBSums = replicate clusterCount 0,
                           sum_componentCSums = replicate clusterCount 0\<rparr>;
                   acc = fold (wsmeans_add points counts (ws_clusterIndices st2)) [0..<pointCount]
                           acc0;
                   centres = map (wsmeans_centre acc) [0..<clusterCount];
                   st3 = st2\<lparr>ws_pixelCountSums := sum_pixelCountSums acc,
                             ws_clusters := centres @ drop clusterCount (ws_clusters st2)\<rparr>
               in wsmeans_iterate clusterCount pointCount points counts (iteration + 1) st3))
      else st)"
  by pat_completeness auto
termination
  by (relation "measure (\<lambda>(clusterCount, pointCount, points, counts, iteration, st).
        MAX_ITERATIONS - iteration)") auto

text \<open>The last loop: the colour and the population of each cluster that has points.\<close>

definition wsmeans_result_step :: "wsmeans_state \<Rightarrow> nat \<Rightarrow> (argb \<times> nat) list \<Rightarrow> (argb \<times> nat) list" where
  "wsmeans_result_step st i argbToPopulation =
     (let count = ws_pixelCountSums st ! i
      in if count = 0 then argbToPopulation
         else
           (let possibleNewCluster = LabPointProvider_toInt (ws_clusters st ! i)
            in if map_of argbToPopulation possibleNewCluster \<noteq> None then argbToPopulation
               else AList.update possibleNewCluster count argbToPopulation))"

datatype js_error = TypeError

text \<open>
  \<open>QuantizerWsmeans.quantize\<close>. With points and no cluster (\<open>maxColors\<close> is 0) every
  cluster index is 0: the source then reads \<open>clusters[0]\<close>, which throws when there is no
  starting cluster, and otherwise runs empty loops over the clusters and returns an
  empty map.
\<close>

definition QuantizerWsmeans_quantize ::
  "random \<Rightarrow> argb list \<Rightarrow> argb list \<Rightarrow> nat \<Rightarrow> js_error + (argb \<times> nat) list" where
  "QuantizerWsmeans_quantize rnd inputPixels startingClusters maxColors =
     (let counted = wsmeans_count inputPixels;
          points = wp_points counted;
          pointCount = wp_pointCount counted;
          counts = wsmeans_counts counted;
          clusterCount = min maxColors pointCount;
          clusterCount = (if length startingClusters > 0
                          then min clusterCount (length startingClusters) else clusterCount);
          clusters = map LabPointProvider_fromInt startingClusters;
          additionalClustersNeeded = clusterCount - length clusters;
          randomClusters = (length startingClusters = 0 \<and> additionalClustersNeeded > 0);
          clusters = (if randomClusters
                      then clusters @ wsmeans_random_clusters rnd additionalClustersNeeded
                      else clusters);
          drawn = (if randomClusters then 3 * additionalClustersNeeded else 0);
          clusterIndices = map (\<lambda>i. nat \<lfloor>rnd (drawn + i) * real clusterCount\<rfloor>) [0..<pointCount]
      in if clusterCount = 0 \<and> pointCount > 0 then
           (if startingClusters = [] then Inl TypeError else Inr [])
         else
           (let st0 = \<lparr>ws_clusters = clusters,
                       ws_clusterIndices = clusterIndices,
                       ws_indexMatrix = replicate clusterCount (replicate clusterCount 0),
                       ws_distanceToIndexMatrix =
                         replicate clusterCount (replicate clusterCount (- 1, - 1)),
                       ws_pixelCountSums = replicate clusterCount 0\<rparr>;
                st = wsmeans_iterate clusterCount pointCount points counts 0 st0
            in Inr (fold (wsmeans_result_step st) [0..<clusterCount] [])))"

section \<open>quantize/quantizer\_celebi.ts\<close>

definition QuantizerCelebi_quantize ::
  "(WuHistogram \<Rightarrow> nat \<Rightarrow> argb list) \<Rightarrow> random \<Rightarrow> argb list \<Rightarrow> nat
   \<Rightarrow> js_error + (argb \<times> nat) list" where
  "QuantizerCelebi_quantize boxes rnd pixels maxColors =
     (let wuResult = QuantizerWu_quantize boxes pixels maxColors
      in QuantizerWsmeans_quantize rnd pixels wuResult maxColors)"

chapter \<open>Notions used to state the properties\<close>

section \<open>Tonal palettes\<close>

text \<open>
  The palettes a program can hold: a freshly constructed one, and whatever a palette
  becomes after a call of \<open>tone\<close>.
\<close>

inductive tp_reachable :: "TonalPalette \<Rightarrow> bool" where
  tp_fresh: "tp_reachable (TonalPalette_new hue chroma keyColor)"
| tp_after_tone: "tp_reachable p \<Longrightarrow> tp_reachable (snd (TonalPalette_tone p tone))"

text \<open>
  The channel-wise average of two colours, as the description of \<open>tone\<close> words it: each
  of red, green and blue is the mean of the two channels, a half rounded up, and the
  result is opaque.
\<close>

definition channelwise_average :: "argb \<Rightarrow> argb \<Rightarrow> argb" where
  "channelwise_average a b =
     argbFromRgb ((redFromArgb a + redFromArgb b + 1) div 2)
       ((greenFromArgb a + greenFromArgb b + 1) div 2)
       ((blueFromArgb a + blueFromArgb b + 1) div 2)"

text \<open>The colour that \<open>tone\<close> stores for a tone, as a function of hue and chroma alone.\<close>

definition toneValue :: "real \<Rightarrow> real \<Rightarrow> real \<Rightarrow> argb" where
  "toneValue hue chroma tone =
     (if tone = 99 \<and> Hct_isYellow hue
      then averageArgb (Hct_toInt (Hct_from hue chroma 98)) (Hct_toInt (Hct_from hue chroma 100))
      else Hct_toInt (Hct_from hue chroma tone))"

definition tp_cache_ok :: "TonalPalette \<Rightarrow> bool" where
  "tp_cache_ok p =
     list_all (\<lambda>(tone, c). c = toneValue (tp_hue p) (tp_chroma p) tone) (tp_cache p)"

section \<open>Dynamic colours\<close>

text \<open>
  The value of an optional functional field at a scheme:
  \<open>color.field ? color.field(scheme) : undefined\<close>.
\<close>

definition fieldAt :: "('s \<Rightarrow> 'a option) option \<Rightarrow> 's \<Rightarrow> 'a option" where
  "fieldAt field scheme = (case field of Some f \<Rightarrow> f scheme | None \<Rightarrow> None)"

text \<open>
  The roles whose \<open>getTone\<close> a call of \<open>getTone\<close> on a role can reach directly: its
  background, its second background and the two roles of its tone delta pair.
\<close>

definition nestedRoles :: "DynamicScheme \<Rightarrow> DynamicColor \<Rightarrow> DynamicColor set" where
  "nestedRoles scheme color =
     set_option (fieldAt (dc_background color) scheme)
     \<union> set_option (fieldAt (dc_secondBackground color) scheme)
     \<union> (case fieldAt (dc_toneDeltaPair color) scheme of
          None \<Rightarrow> {}
        | Some pair \<Rightarrow> {tdp_roleA pair, tdp_roleB pair})"

text \<open>
  The dynamic colour after a sequence of \<open>getHct\<close> calls, each with its own bound on the
  call depth and its own scheme object. A call that does not return changes nothing.
\<close>

fun getHct_calls :: "heap \<Rightarrow> DynamicColor \<Rightarrow> (nat \<times> ref) list \<Rightarrow> DynamicColor" where
  "getHct_calls h color [] = color"
| "getHct_calls h color (call # calls) =
     getHct_calls h
       (case DynamicColor_getHct (fst call) h color (snd call) of
          None \<Rightarrow> color
        | Some r \<Rightarrow> snd r)
       calls"

text \<open>Every cached colour is what the delegate computes for that scheme, at some depth.\<close>

definition hctCache_ok :: "heap \<Rightarrow> DynamicColor \<Rightarrow> bool" where
  "hctCache_ok h color =
     list_all (\<lambda>(scheme, answer). \<exists>depth. delegate_getHct depth (h scheme) color = Some answer)
       (dc_hctCache color)"

text \<open>
  One resolver of nested \<open>getTone\<close> calls returns at least what another one returns.
\<close>

definition rec_le :: "(DynamicColor \<Rightarrow> real option) \<Rightarrow> (DynamicColor \<Rightarrow> real option) \<Rightarrow> bool" where
  "rec_le r r' = (\<forall>c t. r c = Some t \<longrightarrow> r' c = Some t)"

section \<open>Concrete inputs\<close>

text \<open>
  A palette table, a scheme for each spec version and a heap in which every reference
  holds the 2021 scheme built from the same constructor arguments; and the roles that
  serve as concrete inputs.
\<close>

definition example_delegate :: PalettesDelegate where
  "example_delegate =
     \<lparr>getPrimaryPalette = (\<lambda>variant source dark plat level. TonalPalette_fromHct source),
      getSecondaryPalette = (\<lambda>variant source dark plat level. TonalPalette_fromHct source),
      getTertiaryPalette = (\<lambda>variant source dark plat level. TonalPalette_fromHct source),
      getNeutralPalette = (\<lambda>variant source dark plat level. TonalPalette_fromHct source),
      getNeutralVariantPalette = (\<lambda>variant source dark plat level. TonalPalette_fromHct source),
      getErrorPalette = (\<lambda>variant source dark plat level. None)\<rparr>"

definition example_options :: "SpecVersion \<Rightarrow> DynamicSchemeOptions" where
  "example_options version =
     \<lparr>opt_sourceColorHct = Hct_fromInt 4284960932, opt_variant = TONAL_SPOT, opt_isDark = False,
      opt_contrastLevel = None, opt_specVersion = Some version, opt_platform = None,
      opt_primaryPalette = None, opt_secondaryPalette = None, opt_tertiaryPalette = None,
      opt_neutralPalette = None, opt_neutralVariantPalette = None, opt_errorPalette = None\<rparr>"

definition example_scheme :: "SpecVersion \<Rightarrow> DynamicScheme" where
  "example_scheme version = DynamicScheme_new (\<lambda>v. example_delegate) (example_options version)"

definition example_heap :: heap where
  "example_heap = (\<lambda>r. example_scheme SPEC_2021)"

text \<open>A background role with tone 55 and no background of its own.\<close>

definition example_surface :: DynamicColor where
  "example_surface =
     DynamicColor ''surface'' primaryPalette (\<lambda>s. 55) True None None None None None []"

text \<open>Two roles tied by a tone delta pair: the first must be exactly 10 darker than the second.\<close>

definition example_fixed :: DynamicColor where
  "example_fixed =
     DynamicColor ''fixed'' primaryPalette (\<lambda>s. 60) True None None None None None []"

definition example_dim :: DynamicColor where
  "example_dim =
     DynamicColor ''dim'' primaryPalette (\<lambda>s. 30) True None None None None
       (Some (\<lambda>s. Some (ToneDeltaPair_new
          (DynamicColor ''dim'' primaryPalette (\<lambda>s. 30) True None None None None None [])
          example_fixed 10 Polarity_darker True None)))
       []"

text \<open>
  A role with tone 10 on a background role with tone 98, under a contrast curve; its
  tone is resolved through the tone of its background.
\<close>

definition example_bright :: DynamicColor where
  "example_bright =
     DynamicColor ''bright'' primaryPalette (\<lambda>s. 98) True None None None None None []"

definition example_onBright :: DynamicColor where
  "example_onBright =
     DynamicColor ''on_bright'' primaryPalette (\<lambda>s. 10) False None
       (Some (\<lambda>s. Some example_bright)) None
       (Some (\<lambda>s. Some \<lparr>cc_low = 3, cc_normal = 4.5, cc_medium = 7, cc_high = 11\<rparr>)) None []"

text \<open>The colour that the 2021 delegate resolves for the role \<open>surface\<close>.\<close>

definition example_hct :: Hct where
  "example_hct = fst (TonalPalette_getHct (primaryPalette (example_scheme SPEC_2021)) 55)"

text \<open>The colour that the 2021 delegate resolves for the role \<open>on_bright\<close>.\<close>

definition example_onBright_hct :: Hct where
  "example_onBright_hct = fst (TonalPalette_getHct (primaryPalette (example_scheme SPEC_2021)) 10)"

chapter \<open>Verified properties\<close>

section \<open>Tone and luminance\<close>

lemma labInvf_bounds:
  assumes "4 / 29 \<le> ft" "ft \<le> 1"
  shows "0 \<le> labInvf ft \<and> labInvf ft \<le> 1"
proof (cases "ft * ft * ft > 216 / 24389")
  case True
  have "ft * ft * ft \<le> 1 * 1 * 1"
    using assms by (intro mult_mono) auto
  with True assms show ?thesis by (simp add: labInvf_def)
next
  case False
  have "ft \<le> 6 / 29"
  proof (rule ccontr)
    assume "\<not> ft \<le> 6 / 29"
    then have "6 / 29 < ft" by simp
    then have "(6 / 29) * (6 / 29) * (6 / 29) < ft * ft * ft"
      by (intro mult_strict_mono) auto
    with False show False by simp
  qed
  with False assms show ?thesis by (simp add: labInvf_def field_simps)
qed

lemma yFromLstar_bounds:
  assumes "0 \<le> t" "t \<le> 100"
  shows "0 \<le> yFromLstar t \<and> yFromLstar t \<le> 100"
proof -
  have "4 / 29 \<le> (t + 16) / 116" "(t + 16) / 116 \<le> 1" using assms by auto
  from labInvf_bounds[OF this] show ?thesis by (simp add: yFromLstar_def)
qed

lemma clampDouble_range:
  "mn \<le> mx \<Longrightarrow> mn \<le> clampDouble mn mx x \<and> clampDouble mn mx x \<le> mx"
  by (simp add: clampDouble_def)

lemma ratioOfYs_bounds:
  assumes "0 \<le> y1" "y1 \<le> 100" "0 \<le> y2" "y2 \<le> 100"
  shows "1 \<le> ratioOfYs y1 y2 \<and> ratioOfYs y1 y2 \<le> 21"
  using assms by (auto simp: ratioOfYs_def Let_def field_simps)

text \<open>
  Claim C10. For every pair of real tones, also outside the interval from 0 to 100,
  \<open>Contrast.ratioOfTones\<close> returns a value between 1 and 21, both included.
\<close>

theorem ratioOfTones_range: "1 \<le> ratioOfTones a b \<and> ratioOfTones a b \<le> 21"
proof -
  have a: "0 \<le> clampDouble 0 100 a \<and> clampDouble 0 100 a \<le> 100"
    by (rule clampDouble_range) simp
  have b: "0 \<le> clampDouble 0 100 b \<and> clampDouble 0 100 b \<le> 100"
    by (rule clampDouble_range) simp
  show ?thesis
    unfolding ratioOfTones_def Let_def
    using yFromLstar_bounds a b by (intro ratioOfYs_bounds) auto
qed

section \<open>HCT\<close>

text \<open>
  Claim C1. For every 32-bit ARGB value, \<open>Hct.fromInt(argb).toInt()\<close> is that same
  value: the constructor stores the integer it is given and \<open>toInt\<close> reads it back.
\<close>

theorem Hct_fromInt_toInt: "Hct_toInt (Hct_fromInt c) = c"
  by (simp add: Hct_toInt_def Hct_fromInt_def Hct_new_def Let_def)

text \<open>
  Claim C2. When the chroma is below 0.0001, or the tone is below 0.0001 or above
  99.9999, \<open>HctSolver.solveToInt\<close> returns \<open>argbFromLstar(tone)\<close> for every hue; neither
  \<open>findResultByJ\<close> nor \<open>bisectToLimit\<close> contributes to the result.
\<close>

theorem solveToInt_degenerate:
  "chroma < 0.0001 \<or> tone < 0.0001 \<or> tone > 99.9999 \<Longrightarrow>
   solveToInt hue chroma tone = argbFromLstar tone"
  by (simp add: solveToInt_def)

theorem solveToInt_degenerate_witness:
  "((0::real) < 0.0001 \<or> (50::real) < 0.0001 \<or> (50::real) > 99.9999)
   \<and> solveToInt 210 0 50 = argbFromLstar 50"
  using solveToInt_degenerate [of 0 50 210] by simp

section \<open>Angles\<close>

lemma ceil_neg_half: "\<lceil>- (1 / 2 :: real)\<rceil> = 0"
  by (simp add: ceiling_eq_iff)

text \<open>
  Claim C8, as stated, fails: \<open>sanitizeRadians\<close> adds \<open>8\<pi>\<close> and takes the truncating
  remainder, so an angle below \<open>-8\<pi>\<close> does not get a positive result. At \<open>-9\<pi>\<close> the
  result is \<open>-\<pi>\<close>, outside the interval from 0 to \<open>2\<pi>\<close>.
\<close>

theorem sanitizeRadians_counterexample:
  "sanitizeRadians (- (9 * pi)) = - pi \<and> \<not> (0 \<le> sanitizeRadians (- (9 * pi)))"
proof -
  have a: "sanitizeRadians (- (9 * pi)) = - pi"
    by (simp add: sanitizeRadians_def jsRem_def jsTrunc_def ceil_neg_half)
  have b: "0 < pi" by (rule pi_gt_zero)
  show ?thesis using b by (simp add: a not_le)
qed

text \<open>
  The two cases of the remainder: a dividend that is not negative is rounded down, a
  negative one is rounded up.
\<close>

lemma sanitizeRadians_nonneg:
  assumes "- (8 * pi) \<le> angle"
  shows "0 \<le> sanitizeRadians angle \<and> sanitizeRadians angle < 2 * pi
         \<and> sanitizeRadians angle = angle + 2 * pi * of_int (4 - \<lfloor>(angle + pi * 8) / (pi * 2)\<rfloor>)"
proof -
  define q where "q = (angle + pi * 8) / (pi * 2)"
  have q0: "0 \<le> q" using assms by (simp add: q_def)
  have r: "sanitizeRadians angle = (angle + pi * 8) - pi * 2 * of_int \<lfloor>q\<rfloor>"
    using q0 by (simp add: sanitizeRadians_def jsRem_def jsTrunc_def q_def)
  have qe: "angle + pi * 8 = pi * 2 * q" by (simp add: q_def)
  have f1: "of_int \<lfloor>q\<rfloor> \<le> q" "q < of_int \<lfloor>q\<rfloor> + 1" by linarith+
  have a: "0 \<le> pi * 2 * (q - of_int \<lfloor>q\<rfloor>)" using f1 by simp
  have "q - of_int \<lfloor>q\<rfloor> < 1" using f1 by linarith
  then have b: "pi * 2 * (q - of_int \<lfloor>q\<rfloor>) < pi * 2 * 1"
    by (intro mult_strict_left_mono) auto
  have c: "sanitizeRadians angle = pi * 2 * (q - of_int \<lfloor>q\<rfloor>)"
    using r qe by (simp add: algebra_simps)
  have d: "sanitizeRadians angle = angle + 2 * pi * of_int (4 - \<lfloor>q\<rfloor>)"
    using r by (simp add: algebra_simps)
  from a b c have "0 \<le> sanitizeRadians angle" "sanitizeRadians angle < 2 * pi" by simp_all
  with d show ?thesis unfolding q_def by (intro conjI)
qed

lemma sanitizeRadians_negative:
  assumes "angle < - (8 * pi)"
  shows "- (2 * pi) < sanitizeRadians angle \<and> sanitizeRadians angle \<le> 0"
proof -
  define q where "q = (angle + pi * 8) / (pi * 2)"
  have "angle + pi * 8 < 0" using assms by simp
  then have q0: "q < 0" unfolding q_def by (simp add: divide_neg_pos)
  have r: "sanitizeRadians angle = (angle + pi * 8) - pi * 2 * of_int \<lceil>q\<rceil>"
    using q0 by (simp add: sanitizeRadians_def jsRem_def jsTrunc_def q_def)
  have qe: "angle + pi * 8 = pi * 2 * q" by (simp add: q_def)
  have f1: "q \<le> of_int \<lceil>q\<rceil>" "of_int \<lceil>q\<rceil> < q + 1" by linarith+
  have c: "sanitizeRadians angle = pi * 2 * (q - of_int \<lceil>q\<rceil>)"
    using r qe by (simp add: algebra_simps)
  have "q - of_int \<lceil>q\<rceil> \<le> 0" using f1 by linarith
  then have a: "pi * 2 * (q - of_int \<lceil>q\<rceil>) \<le> 0"
    by (simp add: mult_le_0_iff)
  have "- 1 < q - of_int \<lceil>q\<rceil>" using f1 by linarith
  then have "pi * 2 * (- 1) < pi * 2 * (q - of_int \<lceil>q\<rceil>)"
    by (intro mult_strict_left_mono) auto
  with a c show ?thesis by simp
qed

text \<open>
  Claim C8, amended. For every angle that is at least \<open>-8\<pi>\<close>, \<open>sanitizeRadians\<close> returns
  an angle that is at least 0 and below \<open>2\<pi>\<close>; for every angle below \<open>-8\<pi>\<close> it returns
  an angle above \<open>-2\<pi>\<close> and at most 0. For an angle between \<open>-8\<pi>\<close> and \<open>8\<pi>\<close> (the
  source asks for an angle that does not deviate too much from 0) the result is
  coterminal with the angle: it differs from it by \<open>2\<pi>k\<close> for an integer \<open>k\<close> between -4
  and 4. Coterminality is stated for this range only: the numbers of this development
  are exact, and the rounding of a double grows with the magnitude of the angle.
\<close>

theorem sanitizeRadians_range:
  "(- (8 * pi) \<le> angle \<longrightarrow> 0 \<le> sanitizeRadians angle \<and> sanitizeRadians angle < 2 * pi)
   \<and> (angle < - (8 * pi) \<longrightarrow> - (2 * pi) < sanitizeRadians angle \<and> sanitizeRadians angle \<le> 0)
   \<and> (- (8 * pi) \<le> angle \<and> angle \<le> 8 * pi \<longrightarrow>
        (\<exists>k::int. - 4 \<le> k \<and> k \<le> 4 \<and> sanitizeRadians angle = angle + 2 * pi * of_int k))"
proof (intro conjI impI)
  assume a: "- (8 * pi) \<le> angle"
  from sanitizeRadians_nonneg [OF a]
  show "0 \<le> sanitizeRadians angle" "sanitizeRadians angle < 2 * pi"
    by blast+
next
  assume a: "angle < - (8 * pi)"
  from sanitizeRadians_negative [OF a]
  show "- (2 * pi) < sanitizeRadians angle" "sanitizeRadians angle \<le> 0"
    by blast+
next
  assume a: "- (8 * pi) \<le> angle \<and> angle \<le> 8 * pi"
  define q where "q = (angle + pi * 8) / (pi * 2)"
  have "0 \<le> angle + pi * 8" "angle + pi * 8 \<le> 8 * (pi * 2)" using a by simp_all
  then have "0 \<le> q" "q \<le> 8" unfolding q_def by (simp_all add: pos_divide_le_eq)
  then have "0 \<le> \<lfloor>q\<rfloor>" "\<lfloor>q\<rfloor> \<le> 8" by (simp_all add: floor_le_iff le_floor_iff)
  then have "- 4 \<le> 4 - \<lfloor>q\<rfloor>" "4 - \<lfloor>q\<rfloor> \<le> 4" by simp_all
  moreover have "sanitizeRadians angle = angle + 2 * pi * of_int (4 - \<lfloor>q\<rfloor>)"
    using sanitizeRadians_nonneg [of angle] a unfolding q_def by blast
  ultimately show "\<exists>k::int. - 4 \<le> k \<and> k \<le> 4 \<and> sanitizeRadians angle = angle + 2 * pi * of_int k"
    by blast
qed

theorem sanitizeRadians_range_witness:
  "- (8 * pi) \<le> pi \<and> pi \<le> 8 * pi
   \<and> 0 \<le> sanitizeRadians pi \<and> sanitizeRadians pi < 2 * pi
   \<and> (\<exists>k::int. - 4 \<le> k \<and> k \<le> 4 \<and> sanitizeRadians pi = pi + 2 * pi * of_int k)
   \<and> - (10 * pi) < - (8 * pi)
   \<and> - (2 * pi) < sanitizeRadians (- (10 * pi)) \<and> sanitizeRadians (- (10 * pi)) \<le> 0"
proof -
  have p: "0 < pi" by (rule pi_gt_zero)
  have a: "- (8 * pi) \<le> pi" "pi \<le> 8 * pi" "- (10 * pi) < - (8 * pi)" using p by simp_all
  from sanitizeRadians_range [of pi] sanitizeRadians_range [of "- (10 * pi)"] a
  show ?thesis by blast
qed

section \<open>Contrast\<close>

subsection \<open>Tone and luminance are inverse and monotone\<close>

lemma labInvf_labF: "labInvf (labF t) = t"
proof (cases "t > 216 / 24389")
  case True
  then have t0: "0 < t" by simp
  have "(t powr (1 / 3)) ^ 3 = t"
    using t0 by (simp add: powr_power)
  then have c: "t powr (1 / 3) * t powr (1 / 3) * t powr (1 / 3) = t"
    by (simp add: power3_eq_cube)
  show ?thesis using True by (simp add: labInvf_def labF_def c Let_def)
next
  case False
  define ft where "ft = (24389 / 27 * t + 16) / 116"
  have le: "ft \<le> 6 / 29" using False by (simp add: ft_def)
  have "ft * ft * ft \<le> 216 / 24389"
  proof (cases "0 \<le> ft")
    case True
    have "ft * ft * ft \<le> (6 / 29) * (6 / 29) * (6 / 29)"
      using True le by (intro mult_mono) auto
    then show ?thesis by simp
  next
    case False
    then have "ft * ft * ft \<le> 0"
      by (simp add: mult_le_0_iff zero_le_mult_iff)
    then show ?thesis by simp
  qed
  then have a: "\<not> ft * ft * ft > 216 / 24389" by simp
  have f: "labF t = ft" using False by (simp add: labF_def Let_def ft_def)
  have "labInvf ft = (116 * ft - 16) / (24389 / 27)"
    using a by (simp only: labInvf_def Let_def if_False)
  also have "\<dots> = t" by (simp add: ft_def field_simps)
  finally show ?thesis by (simp add: f)
qed

lemma labInvf_strict_mono:
  assumes "a < b"
  shows "labInvf a < labInvf b"
proof -
  have cube: "x * x * x < y * y * y" if "x < y" for x y :: real
  proof -
    have "y * y * y - x * x * x = (y - x) * ((x + y / 2)\<^sup>2 + 3 / 4 * y\<^sup>2)"
      by (simp add: power2_eq_square algebra_simps)
    moreover have "0 < (x + y / 2)\<^sup>2 + 3 / 4 * y\<^sup>2"
    proof (cases "y = 0")
      case True
      then have "x \<noteq> 0" using that by simp
      then show ?thesis using True by simp
    next
      case False
      then have "0 < 3 / 4 * y\<^sup>2" by simp
      moreover have "0 \<le> (x + y / 2)\<^sup>2" by simp
      ultimately show ?thesis by linarith
    qed
    ultimately have "0 < y * y * y - x * x * x" using that by simp
    then show ?thesis by simp
  qed
  have small: "x \<le> 6 / 29" if "\<not> x * x * x > 216 / 24389" for x :: real
  proof (rule ccontr)
    assume "\<not> x \<le> 6 / 29"
    then have "6 / 29 < x" by simp
    from cube [OF this] that show False by simp
  qed
  have large: "6 / 29 < x" if "x * x * x > 216 / 24389" for x :: real
  proof (rule ccontr)
    assume "\<not> 6 / 29 < x"
    then have "x = 6 / 29 \<or> x < 6 / 29" by auto
    then show False
    proof
      assume "x = 6 / 29" with that show False by simp
    next
      assume "x < 6 / 29"
      from cube [OF this] that show False by simp
    qed
  qed
  show ?thesis
  proof (cases "a * a * a > 216 / 24389")
    case True
    then have "6 / 29 < a" by (rule large)
    have "b * b * b > a * a * a" using assms by (rule cube)
    with True have "b * b * b > 216 / 24389" by simp
    with True \<open>b * b * b > a * a * a\<close> show ?thesis by (simp add: labInvf_def Let_def)
  next
    case False
    then have a: "a \<le> 6 / 29" by (rule small)
    show ?thesis
    proof (cases "b * b * b > 216 / 24389")
      case True
      have "(116 * a - 16) / (24389 / 27) \<le> 216 / 24389" using a by simp
      with True False show ?thesis by (simp add: labInvf_def Let_def)
    next
      case False
      with \<open>\<not> a * a * a > 216 / 24389\<close> assms show ?thesis
        by (simp add: labInvf_def Let_def)
    qed
  qed
qed

lemma yFromLstar_strict_mono: "a < b \<Longrightarrow> yFromLstar a < yFromLstar b"
  unfolding yFromLstar_def by (simp add: labInvf_strict_mono)

lemma yFromLstar_mono: "a \<le> b \<Longrightarrow> yFromLstar a \<le> yFromLstar b"
  using yFromLstar_strict_mono [of a b] by (cases "a = b") auto

lemma yFromLstar_lstarFromY: "yFromLstar (lstarFromY y) = y"
  by (simp add: yFromLstar_def lstarFromY_def labInvf_labF)

text \<open>A luminance lies above that of a tone exactly when its tone does.\<close>

lemma lstarFromY_less_iff: "t < lstarFromY y \<longleftrightarrow> yFromLstar t < y"
proof
  assume "t < lstarFromY y"
  then have "yFromLstar t < yFromLstar (lstarFromY y)" by (rule yFromLstar_strict_mono)
  then show "yFromLstar t < y" by (simp add: yFromLstar_lstarFromY)
next
  assume a: "yFromLstar t < y"
  show "t < lstarFromY y"
  proof (rule ccontr)
    assume "\<not> t < lstarFromY y"
    then have "lstarFromY y \<le> t" by simp
    then have "yFromLstar (lstarFromY y) \<le> yFromLstar t" by (rule yFromLstar_mono)
    with a show False by (simp add: yFromLstar_lstarFromY)
  qed
qed

lemma lstarFromY_greater_iff: "lstarFromY y < t \<longleftrightarrow> y < yFromLstar t"
proof
  assume "lstarFromY y < t"
  then have "yFromLstar (lstarFromY y) < yFromLstar t" by (rule yFromLstar_strict_mono)
  then show "y < yFromLstar t" by (simp add: yFromLstar_lstarFromY)
next
  assume a: "y < yFromLstar t"
  show "lstarFromY y < t"
  proof (rule ccontr)
    assume "\<not> lstarFromY y < t"
    then have "t \<le> lstarFromY y" by simp
    then have "yFromLstar t \<le> yFromLstar (lstarFromY y)" by (rule yFromLstar_mono)
    with a show False by (simp add: yFromLstar_lstarFromY)
  qed
qed

lemma yFromLstar_0: "yFromLstar 0 = 0"
  by (simp add: yFromLstar_def labInvf_def)


lemma ratioOfYs_ordered: "y2 \<le> y1 \<Longrightarrow> ratioOfYs y1 y2 = (y1 + 5) / (y2 + 5)"
  by (auto simp: ratioOfYs_def Let_def)

lemma ratioOfTones_ordered:
  assumes "0 \<le> b" "b \<le> a" "a \<le> 100"
  shows "ratioOfTones a b = (yFromLstar a + 5) / (yFromLstar b + 5)"
proof -
  have "yFromLstar b \<le> yFromLstar a" using assms(2) by (rule yFromLstar_mono)
  then show ?thesis
    using assms by (simp add: ratioOfTones_def clampDouble_def ratioOfYs_ordered Let_def)
qed

lemma yFromLstar_nonneg: "0 \<le> t \<Longrightarrow> 0 \<le> yFromLstar t"
  using yFromLstar_mono [of 0 t] by (simp add: yFromLstar_0)

text \<open>
  \<open>lighter\<close> on a tone between 0 and 100 and a ratio of at least 1: the solved luminance
  has exactly the requested ratio, and only the upper bound of the result decides.
\<close>

lemma Contrast_lighter_value:
  assumes "0 \<le> tone" "tone \<le> 100" "1 \<le> ratio"
  shows "Contrast_lighter tone ratio =
           (if yFromLstar (996 / 10) + 5 < ratio * (yFromLstar tone + 5) then - 1
            else lstarFromY (ratio * (yFromLstar tone + 5) - 5) + 4 / 10)"
proof -
  define darkY where "darkY = yFromLstar tone"
  define lightY where "lightY = ratio * (darkY + 5) - 5"
  have d0: "0 \<le> darkY" unfolding darkY_def using assms(1) by (rule yFromLstar_nonneg)
  have "1 * (darkY + 5) \<le> ratio * (darkY + 5)"
    using assms(3) d0 by (intro mult_right_mono) auto
  then have ld: "darkY \<le> lightY" by (simp add: lightY_def)
  have "ratioOfYs lightY darkY = (lightY + 5) / (darkY + 5)" by (rule ratioOfYs_ordered [OF ld])
  also have "\<dots> = ratio" using d0 by (simp add: lightY_def)
  finally have rc: "ratioOfYs lightY darkY = ratio" .
  have "\<not> lightY < yFromLstar 0" using ld d0 by (simp add: yFromLstar_0)
  then have "\<not> lstarFromY lightY < 0" unfolding lstarFromY_greater_iff .
  then have lo: "\<not> lstarFromY lightY + 4 / 10 < 0" by simp
  have hi: "100 < lstarFromY lightY + 4 / 10 \<longleftrightarrow> yFromLstar (996 / 10) + 5 < ratio * (darkY + 5)"
  proof -
    have "100 < lstarFromY lightY + 4 / 10 \<longleftrightarrow> 996 / 10 < lstarFromY lightY" by auto
    also have "\<dots> \<longleftrightarrow> yFromLstar (996 / 10) < lightY" by (rule lstarFromY_less_iff)
    also have "\<dots> \<longleftrightarrow> yFromLstar (996 / 10) + 5 < ratio * (darkY + 5)"
      by (auto simp: lightY_def)
    finally show ?thesis .
  qed
  have "Contrast_lighter tone ratio =
          (if lstarFromY lightY + 4 / 10 < 0 \<or> 100 < lstarFromY lightY + 4 / 10 then - 1
           else lstarFromY lightY + 4 / 10)"
    using assms(1,2) rc
    by (simp add: Contrast_lighter_def Let_def darkY_def [symmetric] lightY_def [symmetric])
  then show ?thesis using lo hi by (simp add: lightY_def darkY_def)
qed

lemma Contrast_lighter_sentinel:
  assumes "1 \<le> ratio"
  shows "Contrast_lighter tone ratio = - 1 \<longleftrightarrow>
           tone < 0 \<or> 996 / 10 < tone \<or> ratioOfTones (996 / 10) tone < ratio"
proof (cases "0 \<le> tone \<and> tone \<le> 100")
  case False
  then show ?thesis by (auto simp: Contrast_lighter_def)
next
  case True
  then have t: "0 \<le> tone" "tone \<le> 100" by simp_all
  define darkY where "darkY = yFromLstar tone"
  have d0: "0 \<le> darkY" unfolding darkY_def using t(1) by (rule yFromLstar_nonneg)
  have "\<not> lstarFromY (ratio * (darkY + 5) - 5) < 0"
  proof -
    have "1 * (darkY + 5) \<le> ratio * (darkY + 5)"
      using assms d0 by (intro mult_right_mono) auto
    then have "darkY + 5 \<le> ratio * (darkY + 5)" by (simp only: mult_1_left)
    then have "\<not> ratio * (darkY + 5) - 5 < yFromLstar 0"
      using d0 unfolding yFromLstar_0 by linarith
    then show ?thesis unfolding lstarFromY_greater_iff .
  qed
  then have ne: "lstarFromY (ratio * (darkY + 5) - 5) + 4 / 10 \<noteq> - 1" by auto
  have v: "Contrast_lighter tone ratio = - 1 \<longleftrightarrow>
             yFromLstar (996 / 10) + 5 < ratio * (darkY + 5)"
    using ne by (simp add: Contrast_lighter_value [OF t assms] darkY_def)
  show ?thesis
  proof (cases "996 / 10 < tone")
    case True
    then have "yFromLstar (996 / 10) < darkY"
      unfolding darkY_def by (rule yFromLstar_strict_mono)
    moreover have "1 * (darkY + 5) \<le> ratio * (darkY + 5)"
      using assms d0 by (intro mult_right_mono) auto
    ultimately have "yFromLstar (996 / 10) + 5 < ratio * (darkY + 5)" by simp
    then show ?thesis using v True by simp
  next
    case False
    then have "tone \<le> 996 / 10" by simp
    then have "ratioOfTones (996 / 10) tone = (yFromLstar (996 / 10) + 5) / (darkY + 5)"
      using t(1) unfolding darkY_def by (intro ratioOfTones_ordered) auto
    moreover have "(yFromLstar (996 / 10) + 5) / (darkY + 5) < ratio
                   \<longleftrightarrow> yFromLstar (996 / 10) + 5 < ratio * (darkY + 5)"
      using d0 by (simp add: pos_divide_less_eq)
    ultimately show ?thesis using v False t by simp
  qed
qed

lemma Contrast_lighter_reaches:
  assumes "1 \<le> ratio" "Contrast_lighter tone ratio \<noteq> - 1"
  shows "tone \<le> Contrast_lighter tone ratio \<and> Contrast_lighter tone ratio \<le> 100
         \<and> ratio \<le> ratioOfTones (Contrast_lighter tone ratio) tone"
proof -
  have t: "0 \<le> tone" "tone \<le> 100"
    using assms(2) by (auto simp: Contrast_lighter_def split: if_splits)
  define darkY where "darkY = yFromLstar tone"
  define lightY where "lightY = ratio * (darkY + 5) - 5"
  define T where "T = lstarFromY lightY + 4 / 10"
  have d0: "0 \<le> darkY" unfolding darkY_def using t(1) by (rule yFromLstar_nonneg)
  have "1 * (darkY + 5) \<le> ratio * (darkY + 5)"
    using assms(1) d0 by (intro mult_right_mono) auto
  then have ld: "darkY \<le> lightY" by (simp add: lightY_def)
  have v: "Contrast_lighter tone ratio = T" and hi: "\<not> yFromLstar (996 / 10) + 5 < ratio * (darkY + 5)"
    using assms(2) Contrast_lighter_value [OF t assms(1)]
    by (auto simp: T_def lightY_def darkY_def split: if_splits)
  have "\<not> yFromLstar (996 / 10) < lightY" using hi by (simp add: lightY_def)
  then have "\<not> 996 / 10 < lstarFromY lightY" unfolding lstarFromY_less_iff .
  then have T100: "T \<le> 100" by (simp add: T_def)
  have "\<not> lightY < yFromLstar tone" using ld by (simp add: darkY_def)
  then have "\<not> lstarFromY lightY < tone" unfolding lstarFromY_greater_iff .
  then have tT: "tone \<le> T" by (simp add: T_def)
  have "yFromLstar (lstarFromY lightY) \<le> yFromLstar T"
    by (rule yFromLstar_mono) (simp add: T_def)
  then have lT: "lightY \<le> yFromLstar T" by (simp add: yFromLstar_lstarFromY)
  have "ratioOfTones T tone = (yFromLstar T + 5) / (darkY + 5)"
    unfolding darkY_def using t(1) tT T100 by (rule ratioOfTones_ordered)
  moreover have "ratio = (lightY + 5) / (darkY + 5)" using d0 by (simp add: lightY_def)
  moreover have "(lightY + 5) / (darkY + 5) \<le> (yFromLstar T + 5) / (darkY + 5)"
    using lT d0 by (intro divide_right_mono) auto
  ultimately have "ratio \<le> ratioOfTones T tone" by simp
  then show ?thesis using tT T100 v by simp
qed

lemma Contrast_darker_value:
  assumes "0 \<le> tone" "tone \<le> 100" "1 \<le> ratio"
  shows "Contrast_darker tone ratio =
           (if yFromLstar tone + 5 < ratio * (yFromLstar (4 / 10) + 5) then - 1
            else lstarFromY ((yFromLstar tone + 5) / ratio - 5) - 4 / 10)"
proof -
  define lightY where "lightY = yFromLstar tone"
  define darkY where "darkY = (lightY + 5) / ratio - 5"
  have r0: "0 < ratio" using assms(3) by simp
  have l0: "0 \<le> lightY" unfolding lightY_def using assms(1) by (rule yFromLstar_nonneg)
  have "(lightY + 5) / ratio \<le> lightY + 5"
    using l0 assms(3) by (simp add: pos_divide_le_eq mult_le_cancel_left1)
  then have dl: "darkY \<le> lightY" by (simp add: darkY_def)
  have d5: "darkY + 5 = (lightY + 5) / ratio" by (simp add: darkY_def)
  have "ratioOfYs lightY darkY = (lightY + 5) / (darkY + 5)" by (rule ratioOfYs_ordered [OF dl])
  also have "\<dots> = ratio" using l0 r0 by (simp add: d5)
  finally have rc: "ratioOfYs lightY darkY = ratio" .
  have "lightY \<le> yFromLstar 100" unfolding lightY_def using assms(2) by (rule yFromLstar_mono)
  also have "\<dots> < yFromLstar (1004 / 10)" by (rule yFromLstar_strict_mono) simp
  finally have "\<not> yFromLstar (1004 / 10) < darkY" using dl by simp
  then have "\<not> 1004 / 10 < lstarFromY darkY" unfolding lstarFromY_less_iff .
  then have hi: "\<not> 100 < lstarFromY darkY - 4 / 10" by simp
  have lo: "lstarFromY darkY - 4 / 10 < 0 \<longleftrightarrow> lightY + 5 < ratio * (yFromLstar (4 / 10) + 5)"
  proof -
    have "lstarFromY darkY - 4 / 10 < 0 \<longleftrightarrow> lstarFromY darkY < 4 / 10" by auto
    also have "\<dots> \<longleftrightarrow> darkY < yFromLstar (4 / 10)" by (rule lstarFromY_greater_iff)
    also have "\<dots> \<longleftrightarrow> (lightY + 5) / ratio < yFromLstar (4 / 10) + 5"
      by (auto simp: darkY_def)
    also have "\<dots> \<longleftrightarrow> lightY + 5 < ratio * (yFromLstar (4 / 10) + 5)"
      using r0 by (simp add: pos_divide_less_eq mult.commute)
    finally show ?thesis .
  qed
  have "Contrast_darker tone ratio =
          (if lstarFromY darkY - 4 / 10 < 0 \<or> 100 < lstarFromY darkY - 4 / 10 then - 1
           else lstarFromY darkY - 4 / 10)"
    using assms(1,2) rc
    by (simp add: Contrast_darker_def Let_def lightY_def [symmetric] darkY_def [symmetric])
  then show ?thesis using lo hi by (simp add: lightY_def darkY_def)
qed

lemma Contrast_darker_sentinel:
  assumes "1 \<le> ratio"
  shows "Contrast_darker tone ratio = - 1 \<longleftrightarrow>
           tone < 4 / 10 \<or> 100 < tone \<or> ratioOfTones tone (4 / 10) < ratio"
proof (cases "0 \<le> tone \<and> tone \<le> 100")
  case False
  then show ?thesis by (auto simp: Contrast_darker_def)
next
  case True
  then have t: "0 \<le> tone" "tone \<le> 100" by simp_all
  define lightY where "lightY = yFromLstar tone"
  have y4: "0 \<le> yFromLstar (4 / 10)" by (rule yFromLstar_nonneg) simp
  have ne: "\<not> lightY + 5 < ratio * (yFromLstar (4 / 10) + 5) \<Longrightarrow>
            lstarFromY ((lightY + 5) / ratio - 5) - 4 / 10 \<noteq> - 1"
  proof -
    assume a: "\<not> lightY + 5 < ratio * (yFromLstar (4 / 10) + 5)"
    have r0: "0 < ratio" using assms by simp
    have "\<not> (lightY + 5) / ratio < yFromLstar (4 / 10) + 5"
      using a r0 by (simp add: pos_divide_less_eq mult.commute)
    then have "\<not> (lightY + 5) / ratio - 5 < yFromLstar (4 / 10)" by simp
    then have "\<not> lstarFromY ((lightY + 5) / ratio - 5) < 4 / 10"
      unfolding lstarFromY_greater_iff .
    then show ?thesis by auto
  qed
  have v: "Contrast_darker tone ratio = - 1 \<longleftrightarrow>
             lightY + 5 < ratio * (yFromLstar (4 / 10) + 5)"
    using ne by (auto simp: Contrast_darker_value [OF t assms] lightY_def)
  show ?thesis
  proof (cases "tone < 4 / 10")
    case True
    then have "lightY < yFromLstar (4 / 10)"
      unfolding lightY_def by (rule yFromLstar_strict_mono)
    moreover have "1 * (yFromLstar (4 / 10) + 5) \<le> ratio * (yFromLstar (4 / 10) + 5)"
      using assms y4 by (intro mult_right_mono) auto
    ultimately have "lightY + 5 < ratio * (yFromLstar (4 / 10) + 5)" by simp
    then show ?thesis using v True by simp
  next
    case False
    then have "4 / 10 \<le> tone" by simp
    then have "ratioOfTones tone (4 / 10) = (lightY + 5) / (yFromLstar (4 / 10) + 5)"
      using t(2) unfolding lightY_def by (intro ratioOfTones_ordered) auto
    moreover have "(lightY + 5) / (yFromLstar (4 / 10) + 5) < ratio
                   \<longleftrightarrow> lightY + 5 < ratio * (yFromLstar (4 / 10) + 5)"
      using y4 by (simp add: pos_divide_less_eq)
    ultimately show ?thesis using v False t by simp
  qed
qed

lemma Contrast_darker_reaches:
  assumes "1 \<le> ratio" "Contrast_darker tone ratio \<noteq> - 1"
  shows "0 \<le> Contrast_darker tone ratio \<and> Contrast_darker tone ratio \<le> tone
         \<and> ratio \<le> ratioOfTones tone (Contrast_darker tone ratio)"
proof -
  have t: "0 \<le> tone" "tone \<le> 100"
    using assms(2) by (auto simp: Contrast_darker_def split: if_splits)
  define lightY where "lightY = yFromLstar tone"
  define darkY where "darkY = (lightY + 5) / ratio - 5"
  define T where "T = lstarFromY darkY - 4 / 10"
  have r0: "0 < ratio" using assms(1) by simp
  have l0: "0 \<le> lightY" unfolding lightY_def using t(1) by (rule yFromLstar_nonneg)
  have "(lightY + 5) / ratio \<le> lightY + 5"
    using l0 assms(1) by (simp add: pos_divide_le_eq mult_le_cancel_left1)
  then have dl: "darkY \<le> lightY" by (simp add: darkY_def)
  have v: "Contrast_darker tone ratio = T"
    and lo: "\<not> lightY + 5 < ratio * (yFromLstar (4 / 10) + 5)"
    using assms(2) Contrast_darker_value [OF t assms(1)]
    by (auto simp: T_def lightY_def darkY_def split: if_splits)
  have "\<not> (lightY + 5) / ratio < yFromLstar (4 / 10) + 5"
    using lo r0 by (simp add: pos_divide_less_eq mult.commute)
  then have "\<not> darkY < yFromLstar (4 / 10)" by (simp add: darkY_def)
  then have "\<not> lstarFromY darkY < 4 / 10" unfolding lstarFromY_greater_iff .
  then have T0: "0 \<le> T" by (simp add: T_def)
  have "\<not> yFromLstar tone < darkY" using dl by (simp add: lightY_def)
  then have "\<not> tone < lstarFromY darkY" unfolding lstarFromY_less_iff .
  then have Tt: "T \<le> tone" by (simp add: T_def)
  have "yFromLstar T \<le> yFromLstar (lstarFromY darkY)"
    by (rule yFromLstar_mono) (simp add: T_def)
  then have Td: "yFromLstar T \<le> darkY" by (simp add: yFromLstar_lstarFromY)
  have yT: "0 \<le> yFromLstar T" using T0 by (rule yFromLstar_nonneg)
  have "ratioOfTones tone T = (lightY + 5) / (yFromLstar T + 5)"
    unfolding lightY_def using T0 Tt t(2) by (rule ratioOfTones_ordered)
  moreover have "ratio * (yFromLstar T + 5) \<le> ratio * (darkY + 5)"
    using Td r0 by simp
  then have "ratio * (yFromLstar T + 5) \<le> lightY + 5"
    using r0 by (simp add: darkY_def)
  then have "ratio \<le> (lightY + 5) / (yFromLstar T + 5)"
    using yT by (simp add: pos_le_divide_eq)
  ultimately have "ratio \<le> ratioOfTones tone T" by simp
  then show ?thesis using T0 Tt v by simp
qed

lemma yFromLstar_100: "yFromLstar 100 = 100"
  by (simp add: yFromLstar_def labInvf_def)

subsection \<open>The sentinel of \<open>lighter\<close> and \<open>darker\<close>\<close>

text \<open>
  Claim C4, as stated, fails in its first part. \<open>Contrast.lighter(0, 20.8)\<close> is -1 although
  no ratio undershoots the requested one by more than 0.04: tone 100 has contrast ratio
  21 to tone 0, and tone 99.6, the lightest tone that \<open>lighter\<close> can return, misses the
  ratio 20.8 by less than 0.04.
\<close>

theorem Contrast_lighter_counterexample:
  "Contrast_lighter 0 20.8 = - 1 \<and> ratioOfTones 100 0 = 21
   \<and> 20.8 - 0.04 < ratioOfTones 99.6 0"
proof -
  have r: "ratioOfTones 99.6 0 < 20.8" "20.8 - 0.04 < ratioOfTones 99.6 0"
    by (simp_all add: ratioOfTones_def clampDouble_def yFromLstar_def labInvf_def ratioOfYs_def
        Let_def)
  have "Contrast_lighter 0 20.8 = - 1"
    using Contrast_lighter_sentinel [of "20.8" 0] r(1) by simp
  moreover have "ratioOfTones 100 0 = 21"
    by (simp add: ratioOfTones_def clampDouble_def yFromLstar_0 yFromLstar_100 ratioOfYs_def)
  ultimately show ?thesis using r(2) by simp
qed

lemma Contrast_lighter_range:
  "Contrast_lighter tone ratio = - 1
   \<or> (0 \<le> Contrast_lighter tone ratio \<and> Contrast_lighter tone ratio \<le> 100)"
  by (auto simp: Contrast_lighter_def Let_def)

lemma Contrast_darker_range:
  "Contrast_darker tone ratio = - 1
   \<or> (0 \<le> Contrast_darker tone ratio \<and> Contrast_darker tone ratio \<le> 100)"
  by (auto simp: Contrast_darker_def Let_def)

text \<open>
  Claim C4, amended. For a ratio of at least 1, \<open>lighter(tone, ratio)\<close> returns -1 exactly
  when the tone is below 0 or above 99.6, or the contrast ratio between tone 99.6 and the
  tone is below the requested ratio; \<open>darker(tone, ratio)\<close> returns -1 exactly when the
  tone is below 0.4 or above 100, or the contrast ratio between the tone and tone 0.4 is
  below the requested ratio. When \<open>lighter\<close> returns a tone, that tone lies between the
  given tone and 100 and its contrast ratio to the given tone is at least the requested
  one; when \<open>darker\<close> returns a tone, that tone lies between 0 and the given tone, with
  the same guarantee. For every tone and ratio, \<open>lighterUnsafe\<close> returns 100 and
  \<open>darkerUnsafe\<close> returns 0 when the safe variant returns -1, and the value of the safe
  variant otherwise.
\<close>

theorem Contrast_sentinel:
  "(1 \<le> ratio \<longrightarrow>
      (Contrast_lighter tone ratio = - 1 \<longleftrightarrow>
         tone < 0 \<or> 99.6 < tone \<or> ratioOfTones 99.6 tone < ratio)
    \<and> (Contrast_darker tone ratio = - 1 \<longleftrightarrow>
         tone < 0.4 \<or> 100 < tone \<or> ratioOfTones tone 0.4 < ratio)
    \<and> (Contrast_lighter tone ratio \<noteq> - 1 \<longrightarrow>
         tone \<le> Contrast_lighter tone ratio \<and> Contrast_lighter tone ratio \<le> 100
         \<and> ratio \<le> ratioOfTones (Contrast_lighter tone ratio) tone)
    \<and> (Contrast_darker tone ratio \<noteq> - 1 \<longrightarrow>
         0 \<le> Contrast_darker tone ratio \<and> Contrast_darker tone ratio \<le> tone
         \<and> ratio \<le> ratioOfTones tone (Contrast_darker tone ratio)))
   \<and> Contrast_lighterUnsafe tone ratio =
        (if Contrast_lighter tone ratio = - 1 then 100 else Contrast_lighter tone ratio)
   \<and> Contrast_darkerUnsafe tone ratio =
        (if Contrast_darker tone ratio = - 1 then 0 else Contrast_darker tone ratio)"
proof -
  have u1: "Contrast_lighterUnsafe tone ratio =
        (if Contrast_lighter tone ratio = - 1 then 100 else Contrast_lighter tone ratio)"
    using Contrast_lighter_range [of tone ratio]
    by (auto simp: Contrast_lighterUnsafe_def Let_def)
  have u2: "Contrast_darkerUnsafe tone ratio =
        (if Contrast_darker tone ratio = - 1 then 0 else Contrast_darker tone ratio)"
    using Contrast_darker_range [of tone ratio]
    by (auto simp: Contrast_darkerUnsafe_def Let_def)
  have s: "1 \<le> ratio \<longrightarrow>
      (Contrast_lighter tone ratio = - 1 \<longleftrightarrow>
         tone < 0 \<or> 99.6 < tone \<or> ratioOfTones 99.6 tone < ratio)
    \<and> (Contrast_darker tone ratio = - 1 \<longleftrightarrow>
         tone < 0.4 \<or> 100 < tone \<or> ratioOfTones tone 0.4 < ratio)
    \<and> (Contrast_lighter tone ratio \<noteq> - 1 \<longrightarrow>
         tone \<le> Contrast_lighter tone ratio \<and> Contrast_lighter tone ratio \<le> 100
         \<and> ratio \<le> ratioOfTones (Contrast_lighter tone ratio) tone)
    \<and> (Contrast_darker tone ratio \<noteq> - 1 \<longrightarrow>
         0 \<le> Contrast_darker tone ratio \<and> Contrast_darker tone ratio \<le> tone
         \<and> ratio \<le> ratioOfTones tone (Contrast_darker tone ratio))"
  proof (intro impI conjI)
    assume r: "1 \<le> ratio"
    show "Contrast_lighter tone ratio = - 1 \<longleftrightarrow>
         tone < 0 \<or> 99.6 < tone \<or> ratioOfTones 99.6 tone < ratio"
      by (rule Contrast_lighter_sentinel [OF r])
    show "Contrast_darker tone ratio = - 1 \<longleftrightarrow>
         tone < 0.4 \<or> 100 < tone \<or> ratioOfTones tone 0.4 < ratio"
      by (rule Contrast_darker_sentinel [OF r])
    {
      assume l: "Contrast_lighter tone ratio \<noteq> - 1"
      from Contrast_lighter_reaches [OF r l]
      show "tone \<le> Contrast_lighter tone ratio" "Contrast_lighter tone ratio \<le> 100"
        "ratio \<le> ratioOfTones (Contrast_lighter tone ratio) tone" by simp_all
    }
    {
      assume d: "Contrast_darker tone ratio \<noteq> - 1"
      from Contrast_darker_reaches [OF r d]
      show "0 \<le> Contrast_darker tone ratio" "Contrast_darker tone ratio \<le> tone"
        "ratio \<le> ratioOfTones tone (Contrast_darker tone ratio)" by simp_all
    }
  qed
  from s u1 u2 show ?thesis by (intro conjI)
qed

lemma ratio_tones_values:
  "\<not> ratioOfTones 99.6 50 < 3" "\<not> ratioOfTones 50 0.4 < 3"
  "ratioOfTones 99.6 50 < 21" "ratioOfTones 50 0.4 < 21"
  by (simp_all add: ratioOfTones_def clampDouble_def yFromLstar_def labInvf_def ratioOfYs_def
      Let_def)

theorem Contrast_sentinel_witness:
  "(1 :: real) \<le> 3
   \<and> Contrast_lighter 50 3 \<noteq> - 1 \<and> Contrast_darker 50 3 \<noteq> - 1
   \<and> 50 \<le> Contrast_lighter 50 3 \<and> Contrast_lighter 50 3 \<le> 100
   \<and> 3 \<le> ratioOfTones (Contrast_lighter 50 3) 50
   \<and> 0 \<le> Contrast_darker 50 3 \<and> Contrast_darker 50 3 \<le> 50
   \<and> 3 \<le> ratioOfTones 50 (Contrast_darker 50 3)
   \<and> Contrast_lighterUnsafe 50 3 = Contrast_lighter 50 3
   \<and> Contrast_darkerUnsafe 50 3 = Contrast_darker 50 3
   \<and> (1 :: real) \<le> 21
   \<and> Contrast_lighter 50 21 = - 1 \<and> Contrast_darker 50 21 = - 1
   \<and> Contrast_lighterUnsafe 50 21 = 100 \<and> Contrast_darkerUnsafe 50 21 = 0"
  using Contrast_sentinel [of 3 50] Contrast_sentinel [of 21 50] ratio_tones_values
  by simp

section \<open>Tonal palettes\<close>

declare TonalPalette_tone.simps [simp del]

lemma set_alist_update: "set (AList.update k v al) \<subseteq> insert (k, v) (set al)"
  by (induction al) auto

lemma cache_ok_lookup:
  "tp_cache_ok p \<Longrightarrow> map_of (tp_cache p) tone = Some c \<Longrightarrow>
   c = toneValue (tp_hue p) (tp_chroma p) tone"
  by (auto simp: tp_cache_ok_def list_all_iff dest: map_of_SomeD)

lemma cache_ok_update:
  assumes "tp_cache_ok p" "c = toneValue (tp_hue p) (tp_chroma p) tone"
  shows "tp_cache_ok (p\<lparr>tp_cache := AList.update tone c (tp_cache p)\<rparr>)"
proof -
  have "set (AList.update tone c (tp_cache p)) \<subseteq> insert (tone, c) (set (tp_cache p))"
    by (rule set_alist_update)
  then show ?thesis using assms by (auto simp: tp_cache_ok_def list_all_iff)
qed

text \<open>A tone that is solved directly: the call does not recurse.\<close>

lemma tone_direct:
  assumes "tp_cache_ok p" "\<not> (tone = 99 \<and> Hct_isYellow (tp_hue p))"
  shows "fst (TonalPalette_tone p tone) = toneValue (tp_hue p) (tp_chroma p) tone
         \<and> tp_cache_ok (snd (TonalPalette_tone p tone))
         \<and> tp_hue (snd (TonalPalette_tone p tone)) = tp_hue p
         \<and> tp_chroma (snd (TonalPalette_tone p tone)) = tp_chroma p"
proof (cases "map_of (tp_cache p) tone")
  case None
  have v: "Hct_toInt (Hct_from (tp_hue p) (tp_chroma p) tone)
           = toneValue (tp_hue p) (tp_chroma p) tone"
    using assms(2) by (auto simp: toneValue_def)
  show ?thesis
    using None assms cache_ok_update [OF assms(1) v]
    by (subst (1 2 3 4) TonalPalette_tone.simps) (auto simp: Let_def v)
next
  case (Some c)
  then show ?thesis
    using assms cache_ok_lookup [OF assms(1) Some]
    by (subst (1 2 3 4) TonalPalette_tone.simps) auto
qed

text \<open>Every call returns the stored value for its tone and keeps the cache right.\<close>

lemma tone_step:
  assumes "tp_cache_ok p"
  shows "fst (TonalPalette_tone p tone) = toneValue (tp_hue p) (tp_chroma p) tone
         \<and> tp_cache_ok (snd (TonalPalette_tone p tone))
         \<and> tp_hue (snd (TonalPalette_tone p tone)) = tp_hue p
         \<and> tp_chroma (snd (TonalPalette_tone p tone)) = tp_chroma p"
proof (cases "tone = 99 \<and> Hct_isYellow (tp_hue p)")
  case False
  then show ?thesis by (rule tone_direct [OF assms])
next
  case True
  show ?thesis
  proof (cases "map_of (tp_cache p) tone")
    case (Some c)
    then show ?thesis
      using assms cache_ok_lookup [OF assms Some]
      by (subst (1 2 3 4) TonalPalette_tone.simps) auto
  next
    case None
    define p1 where "p1 = snd (TonalPalette_tone p 98)"
    define p2 where "p2 = snd (TonalPalette_tone p1 100)"
    have s1: "fst (TonalPalette_tone p 98) = toneValue (tp_hue p) (tp_chroma p) 98"
      "tp_cache_ok p1" "tp_hue p1 = tp_hue p" "tp_chroma p1 = tp_chroma p"
      using tone_direct [OF assms, of 98] by (simp_all add: p1_def)
    have s2: "fst (TonalPalette_tone p1 100) = toneValue (tp_hue p) (tp_chroma p) 100"
      "tp_cache_ok p2" "tp_hue p2 = tp_hue p" "tp_chroma p2 = tp_chroma p"
      using tone_direct [OF s1(2), of 100] s1(3,4) by (simp_all add: p2_def)
    define c where
      "c = averageArgb (fst (TonalPalette_tone p 98)) (fst (TonalPalette_tone p1 100))"
    have cv: "c = toneValue (tp_hue p2) (tp_chroma p2) tone"
      using True s1(1) s2 by (simp add: c_def toneValue_def)
    have r: "TonalPalette_tone p tone = (c, p2\<lparr>tp_cache := AList.update tone c (tp_cache p2)\<rparr>)"
      using None True
      by (subst TonalPalette_tone.simps) (simp add: Let_def c_def p1_def p2_def)
    show ?thesis
      using cache_ok_update [OF s2(2) cv] cv s2(3,4) by (simp add: r)
  qed
qed

lemma reachable_cache_ok: "tp_reachable p \<Longrightarrow> tp_cache_ok p"
proof (induction rule: tp_reachable.induct)
  case (tp_fresh hue chroma keyColor)
  show ?case by (simp add: tp_cache_ok_def TonalPalette_new_def)
next
  case (tp_after_tone p tone)
  then show ?case using tone_step by blast
qed

subsection \<open>Packed channels\<close>

lemma m255: "(255 :: argb) = mask 8"
  by (simp add: mask_eq_exp_minus_1)

lemma uint_channel:
  fixes r :: int
  assumes "0 \<le> r" "r \<le> 255"
  shows "uint (word_of_int r AND mask 8 :: argb) = r"
proof -
  have u: "uint (word_of_int r :: argb) = r"
    using assms by (simp add: uint_word_of_int_eq take_bit_int_eq_self)
  have "(word_of_int r :: argb) < 2 ^ 8"
    using assms u by (simp add: word_less_def)
  then have "(word_of_int r AND mask 8 :: argb) = word_of_int r" by (rule less_mask_eq)
  then show ?thesis using u by simp
qed

lemma pack_red:
  "drop_bit 16 (push_bit 24 (mask 8 :: argb) OR push_bit 16 (x AND mask 8)
           OR push_bit 8 (y AND mask 8) OR (z AND mask 8)) AND mask 8 = x AND mask 8"
  by (rule bit_word_eqI) (auto simp: bit_simps)

lemma pack_green:
  "drop_bit 8 (push_bit 24 (mask 8 :: argb) OR push_bit 16 (x AND mask 8)
           OR push_bit 8 (y AND mask 8) OR (z AND mask 8)) AND mask 8 = y AND mask 8"
  by (rule bit_word_eqI) (auto simp: bit_simps)

lemma pack_blue:
  "(push_bit 24 (mask 8 :: argb) OR push_bit 16 (x AND mask 8)
           OR push_bit 8 (y AND mask 8) OR (z AND mask 8)) AND mask 8 = z AND mask 8"
  by (rule bit_word_eqI) (auto simp: bit_simps)

lemma pack_alpha:
  "drop_bit 24 (push_bit 24 (mask 8 :: argb) OR push_bit 16 (x AND mask 8)
           OR push_bit 8 (y AND mask 8) OR (z AND mask 8)) AND mask 8 = mask 8"
  by (rule bit_word_eqI) (auto simp: bit_simps)

lemma jsRound_half: "jsRound (real_of_int n / 2) = (n + 1) div 2"
proof -
  have "real_of_int n / 2 + 1 / 2 = real_of_int (n + 1) / real_of_int 2" by simp
  then show ?thesis unfolding jsRound_def by (simp only: floor_divide_of_int_eq)
qed

lemma channel_range: "0 \<le> uint (w AND mask 8 :: argb) \<and> uint (w AND mask 8 :: argb) \<le> 255"
proof -
  have "w AND mask 8 \<le> mask 8" by (rule word_and_le1)
  then have "uint (w AND mask 8) \<le> uint (mask 8 :: argb)" by (simp add: word_le_def)
  then show ?thesis by (simp add: m255 [symmetric])
qed

lemma red_logical: "signed_drop_bit 16 (c :: argb) AND mask 8 = drop_bit 16 c AND mask 8"
  by (rule bit_word_eqI) (auto simp: bit_simps)

lemma green_logical: "signed_drop_bit 8 (c :: argb) AND mask 8 = drop_bit 8 c AND mask 8"
  by (rule bit_word_eqI) (auto simp: bit_simps)

lemma alpha_logical: "signed_drop_bit 24 (c :: argb) AND mask 8 = drop_bit 24 c AND mask 8"
  by (rule bit_word_eqI) (auto simp: bit_simps)

lemma averageArgb_channels:
  "alphaFromArgb (averageArgb a b) = 255
   \<and> redFromArgb (averageArgb a b) = (redFromArgb a + redFromArgb b + 1) div 2
   \<and> greenFromArgb (averageArgb a b) = (greenFromArgb a + greenFromArgb b + 1) div 2
   \<and> blueFromArgb (averageArgb a b) = (blueFromArgb a + blueFromArgb b + 1) div 2"
proof -
  define r where "r = (uint (drop_bit 16 a AND mask 8) + uint (drop_bit 16 b AND mask 8) + 1) div 2"
  define g where "g = (uint (drop_bit 8 a AND mask 8) + uint (drop_bit 8 b AND mask 8) + 1) div 2"
  define bl where "bl = (uint (a AND mask 8) + uint (b AND mask 8) + 1) div 2"
  have rr: "0 \<le> r \<and> r \<le> 255"
    using channel_range [of "drop_bit 16 a"] channel_range [of "drop_bit 16 b"] by (simp add: r_def)
  have gr: "0 \<le> g \<and> g \<le> 255"
    using channel_range [of "drop_bit 8 a"] channel_range [of "drop_bit 8 b"] by (simp add: g_def)
  have br: "0 \<le> bl \<and> bl \<le> 255"
    using channel_range [of a] channel_range [of b] by (simp add: bl_def)
  have avg: "averageArgb a b = push_bit 24 (mask 8) OR push_bit 16 (word_of_int r AND mask 8)
           OR push_bit 8 (word_of_int g AND mask 8) OR (word_of_int bl AND mask 8)"
    unfolding averageArgb_def Let_def jsRound_half m255 r_def g_def bl_def by (rule refl)
  have A: "alphaFromArgb (averageArgb a b) = 255"
    unfolding alphaFromArgb_def m255 alpha_logical avg pack_alpha
    by (simp add: m255 [symmetric])
  have R: "redFromArgb (averageArgb a b) = r"
    unfolding redFromArgb_def m255 red_logical avg pack_red
    by (rule uint_channel) (use rr in simp_all)
  have G: "greenFromArgb (averageArgb a b) = g"
    unfolding greenFromArgb_def m255 green_logical avg pack_green
    by (rule uint_channel) (use gr in simp_all)
  have B: "blueFromArgb (averageArgb a b) = bl"
    unfolding blueFromArgb_def m255 avg pack_blue
    by (rule uint_channel) (use br in simp_all)
  have r': "r = (redFromArgb a + redFromArgb b + 1) div 2"
    unfolding redFromArgb_def m255 red_logical r_def by (rule refl)
  have g': "g = (greenFromArgb a + greenFromArgb b + 1) div 2"
    unfolding greenFromArgb_def m255 green_logical g_def by (rule refl)
  have b': "bl = (blueFromArgb a + blueFromArgb b + 1) div 2"
    unfolding blueFromArgb_def m255 bl_def by (rule refl)
  show ?thesis using A R G B r' g' b' by simp
qed

text \<open>\<open>averageArgb\<close> is the channel-wise average.\<close>

lemma averageArgb_channelwise: "averageArgb a b = channelwise_average a b"
  unfolding averageArgb_def channelwise_average_def argbFromRgb_def Let_def jsRound_half
    redFromArgb_def greenFromArgb_def blueFromArgb_def m255 red_logical green_logical
  by (rule refl)


text \<open>
  Claim C6. On every palette a program can hold, \<open>tone(99)\<close> of a palette whose hue is at
  least 105 and below 125 is \<open>averageArgb\<close> of \<open>tone(98)\<close> and \<open>tone(100)\<close>, which is their
  channel-wise average with halves rounded up; for every other hue or tone, \<open>tone(t)\<close>
  is the directly solved colour \<open>Hct.from(hue, chroma, t).toInt()\<close>.
\<close>

theorem TonalPalette_tone_value:
  assumes "tp_reachable p"
  shows "fst (TonalPalette_tone p tone) =
           (if tone = 99 \<and> Hct_isYellow (tp_hue p)
            then averageArgb (fst (TonalPalette_tone p 98)) (fst (TonalPalette_tone p 100))
            else Hct_toInt (Hct_from (tp_hue p) (tp_chroma p) tone))
         \<and> averageArgb (fst (TonalPalette_tone p 98)) (fst (TonalPalette_tone p 100))
             = channelwise_average (fst (TonalPalette_tone p 98)) (fst (TonalPalette_tone p 100))"
proof -
  have ok: "tp_cache_ok p" using assms by (rule reachable_cache_ok)
  have "fst (TonalPalette_tone p 98) = Hct_toInt (Hct_from (tp_hue p) (tp_chroma p) 98)"
    using tone_step [OF ok, of 98] by (simp add: toneValue_def)
  moreover have "fst (TonalPalette_tone p 100) = Hct_toInt (Hct_from (tp_hue p) (tp_chroma p) 100)"
    using tone_step [OF ok, of 100] by (simp add: toneValue_def)
  ultimately have "fst (TonalPalette_tone p tone) =
           (if tone = 99 \<and> Hct_isYellow (tp_hue p)
            then averageArgb (fst (TonalPalette_tone p 98)) (fst (TonalPalette_tone p 100))
            else Hct_toInt (Hct_from (tp_hue p) (tp_chroma p) tone))"
    using tone_step [OF ok, of tone] by (simp add: toneValue_def)
  then show ?thesis using averageArgb_channelwise by (rule conjI)
qed

theorem TonalPalette_tone_value_witness:
  "tp_reachable (TonalPalette_new 110 48 (Hct_fromInt 4294967040))
   \<and> fst (TonalPalette_tone (TonalPalette_new 110 48 (Hct_fromInt 4294967040)) 99)
       = averageArgb (fst (TonalPalette_tone (TonalPalette_new 110 48 (Hct_fromInt 4294967040)) 98))
           (fst (TonalPalette_tone (TonalPalette_new 110 48 (Hct_fromInt 4294967040)) 100))
   \<and> fst (TonalPalette_tone (TonalPalette_new 110 48 (Hct_fromInt 4294967040)) 50)
       = Hct_toInt (Hct_from 110 48 50)"
proof -
  have r: "tp_reachable (TonalPalette_new 110 48 (Hct_fromInt 4294967040))" by (rule tp_fresh)
  have h: "tp_hue (TonalPalette_new 110 48 (Hct_fromInt 4294967040)) = 110"
    "tp_chroma (TonalPalette_new 110 48 (Hct_fromInt 4294967040)) = 48"
    by (simp_all add: TonalPalette_new_def)
  from TonalPalette_tone_value [OF r, of 99] TonalPalette_tone_value [OF r, of 50] r
  show ?thesis by (simp add: h Hct_isYellow_def)
qed

section \<open>Nested tone resolution\<close>

lemma rec_leD: "rec_le r r' \<Longrightarrow> r c = Some t \<Longrightarrow> r' c = Some t"
  by (simp add: rec_le_def)

lemma secondBackgroundTone_mono:
  assumes "rec_le r r'" "secondBackgroundTone r scheme color bg answer ratio = Some t"
  shows "secondBackgroundTone r' scheme color bg answer ratio = Some t"
  using assms(2) unfolding secondBackgroundTone_def
  by (auto split: option.splits split del: if_split dest!: rec_leD [OF assms(1)])

lemma pair2021_contrast_mono:
  assumes "rec_le r r'" "pair2021_contrast r scheme color n f d nT fT = Some t"
  shows "pair2021_contrast r' scheme color n f d nT fT = Some t"
  using assms(2) unfolding pair2021_contrast_def
  by (auto split: option.splits split del: if_split dest!: rec_leD [OF assms(1)])

lemma getTone2021_mono:
  assumes "rec_le r r'" "ColorCalculationDelegateImpl2021_getTone r scheme color = Some t"
  shows "ColorCalculationDelegateImpl2021_getTone r' scheme color = Some t"
  using assms(2) unfolding ColorCalculationDelegateImpl2021_getTone_def
  by (auto simp: Let_def split: option.splits split del: if_split dest!: rec_leD [OF assms(1)]
      dest: secondBackgroundTone_mono [OF assms(1)] pair2021_contrast_mono [OF assms(1)])

lemma getTone2025_mono:
  assumes "rec_le r r'" "ColorCalculationDelegateImpl2025_getTone r scheme color = Some t"
  shows "ColorCalculationDelegateImpl2025_getTone r' scheme color = Some t"
  using assms(2) unfolding ColorCalculationDelegateImpl2025_getTone_def
  by (auto simp: Let_def split: option.splits split del: if_split dest!: rec_leD [OF assms(1)]
      dest: secondBackgroundTone_mono [OF assms(1)])

lemma getTone_Suc_mono:
  "rec_le (DynamicColor_getTone d scheme) (DynamicColor_getTone (Suc d) scheme)"
proof (induction d)
  case 0
  show ?case by (simp add: rec_le_def)
next
  case (Suc d)
  show ?case
    unfolding rec_le_def
  proof (intro allI impI)
    fix c t
    assume a: "DynamicColor_getTone (Suc d) scheme c = Some t"
    show "DynamicColor_getTone (Suc (Suc d)) scheme c = Some t"
    proof (cases "specVersion scheme = SPEC_2025")
      case True
      have h: "ColorCalculationDelegateImpl2025_getTone (DynamicColor_getTone d scheme) scheme c = Some t"
        using a True by (simp only: DynamicColor_getTone.simps if_True simp_thms)
      have step: "DynamicColor_getTone (Suc (Suc d)) scheme c =
          ColorCalculationDelegateImpl2025_getTone (DynamicColor_getTone (Suc d) scheme) scheme c"
        using True by (simp only: DynamicColor_getTone.simps(2) [of "Suc d"] if_True simp_thms)
      show ?thesis unfolding step by (rule getTone2025_mono [OF Suc h])
    next
      case False
      have h: "ColorCalculationDelegateImpl2021_getTone (DynamicColor_getTone d scheme) scheme c = Some t"
        using a False by (simp only: DynamicColor_getTone.simps if_False simp_thms)
      have step: "DynamicColor_getTone (Suc (Suc d)) scheme c =
          ColorCalculationDelegateImpl2021_getTone (DynamicColor_getTone (Suc d) scheme) scheme c"
        using False by (simp only: DynamicColor_getTone.simps(2) [of "Suc d"] if_False simp_thms)
      show ?thesis unfolding step by (rule getTone2021_mono [OF Suc h])
    qed
  qed
qed

text \<open>A call that returns within some depth returns the same tone within any larger depth.\<close>

lemma getTone_mono:
  "d \<le> d' \<Longrightarrow> DynamicColor_getTone d scheme c = Some t \<Longrightarrow>
   DynamicColor_getTone d' scheme c = Some t"
proof (induction d')
  case 0
  then show ?case by simp
next
  case (Suc d')
  show ?case
  proof (cases "d = Suc d'")
    case True
    with Suc.prems show ?thesis by simp
  next
    case False
    with Suc have "DynamicColor_getTone d' scheme c = Some t" by simp
    then show ?thesis using getTone_Suc_mono [of d' scheme] unfolding rec_le_def by blast
  qed
qed

section \<open>The cache of resolved colours\<close>

lemma set_hctCache_sel [simp]:
  "dc_name (set_hctCache x c) = dc_name c"
  "dc_palette (set_hctCache x c) = dc_palette c"
  "dc_tone (set_hctCache x c) = dc_tone c"
  "dc_isBackground (set_hctCache x c) = dc_isBackground c"
  "dc_chromaMultiplier (set_hctCache x c) = dc_chromaMultiplier c"
  "dc_background (set_hctCache x c) = dc_background c"
  "dc_secondBackground (set_hctCache x c) = dc_secondBackground c"
  "dc_contrastCurve (set_hctCache x c) = dc_contrastCurve c"
  "dc_toneDeltaPair (set_hctCache x c) = dc_toneDeltaPair c"
  "dc_hctCache (set_hctCache x c) = x"
  by (simp_all add: set_hctCache_def)

lemma set_hctCache_twice [simp]: "set_hctCache x (set_hctCache y c) = set_hctCache x c"
  by (simp add: set_hctCache_def)

lemma set_hctCache_same [simp]: "set_hctCache (dc_hctCache c) c = c"
  by (cases c) (simp add: set_hctCache_def)

lemma getTone2021_cache:
  "ColorCalculationDelegateImpl2021_getTone r scheme (set_hctCache x c)
   = ColorCalculationDelegateImpl2021_getTone r scheme c"
  unfolding ColorCalculationDelegateImpl2021_getTone_def pair2021_contrast_def
    secondBackgroundTone_def set_hctCache_sel
  by (rule refl)

lemma getTone2025_cache:
  "ColorCalculationDelegateImpl2025_getTone r scheme (set_hctCache x c)
   = ColorCalculationDelegateImpl2025_getTone r scheme c"
  unfolding ColorCalculationDelegateImpl2025_getTone_def bucket2025_def
    secondBackgroundTone_def set_hctCache_sel
  by (rule refl)

lemma getTone_cache:
  "DynamicColor_getTone d scheme (set_hctCache x c) = DynamicColor_getTone d scheme c"
  by (cases d) (simp_all add: getTone2021_cache getTone2025_cache)

lemma delegate_getHct_cache:
  "delegate_getHct d scheme (set_hctCache x c) = delegate_getHct d scheme c"
  unfolding delegate_getHct_def ColorCalculationDelegateImpl2021_getHct_def
    ColorCalculationDelegateImpl2025_getHct_def getTone_cache set_hctCache_sel
  by (rule refl)

lemma delegate_getHct_depth:
  assumes "delegate_getHct d scheme c = Some v" "delegate_getHct d' scheme c = Some v'"
  shows "v = v'"
proof -
  obtain t where t: "DynamicColor_getTone d scheme c = Some t"
    using assms(1)
    by (auto simp: delegate_getHct_def ColorCalculationDelegateImpl2021_getHct_def
        ColorCalculationDelegateImpl2025_getHct_def Let_def split: if_splits option.splits)
  obtain t' where t': "DynamicColor_getTone d' scheme c = Some t'"
    using assms(2)
    by (auto simp: delegate_getHct_def ColorCalculationDelegateImpl2021_getHct_def
        ColorCalculationDelegateImpl2025_getHct_def Let_def split: if_splits option.splits)
  have "DynamicColor_getTone (max d d') scheme c = Some t"
    by (rule getTone_mono [OF _ t]) simp
  moreover have "DynamicColor_getTone (max d d') scheme c = Some t'"
    by (rule getTone_mono [OF _ t']) simp
  ultimately have "t = t'" by simp
  then show ?thesis
    using assms t t'
    by (auto simp: delegate_getHct_def ColorCalculationDelegateImpl2021_getHct_def
        ColorCalculationDelegateImpl2025_getHct_def Let_def split: if_splits)
qed

lemma getHct_shape:
  assumes "DynamicColor_getHct d h c s = Some (v, c')"
  shows "\<exists>x. c' = set_hctCache x c"
proof (cases "map_of (dc_hctCache c) s")
  case None
  then show ?thesis using assms
    by (auto simp: DynamicColor_getHct_def Let_def split: option.splits)
next
  case (Some a)
  then have "c' = c" using assms by (simp add: DynamicColor_getHct_def)
  then have "c' = set_hctCache (dc_hctCache c) c" by simp
  then show ?thesis by blast
qed

lemma hctCache_ok_set:
  "hctCache_ok h (set_hctCache x c)
   = list_all (\<lambda>(s, a). \<exists>d. delegate_getHct d (h s) c = Some a) x"
  by (simp add: hctCache_ok_def delegate_getHct_cache)

lemma hctCache_ok_lookup:
  "hctCache_ok h c \<Longrightarrow> map_of (dc_hctCache c) s = Some a \<Longrightarrow>
   \<exists>d. delegate_getHct d (h s) c = Some a"
  by (auto simp: hctCache_ok_def list_all_iff dest: map_of_SomeD)

lemma getHct_step:
  assumes ok: "hctCache_ok h c" and r: "DynamicColor_getHct d h c s = Some (v, c')"
  shows "(\<exists>d'. delegate_getHct d' (h s) c = Some v) \<and> hctCache_ok h c'"
proof (cases "map_of (dc_hctCache c) s")
  case (Some a)
  then have "v = a" "c' = c" using r by (simp_all add: DynamicColor_getHct_def)
  then show ?thesis using ok hctCache_ok_lookup [OF ok Some] by simp
next
  case None
  then have v: "delegate_getHct d (h s) c = Some v"
    using r by (auto simp: DynamicColor_getHct_def Let_def split: option.splits)
  define cache where "cache = (if length (dc_hctCache c) > 4 then [] else dc_hctCache c)"
  have c': "c' = set_hctCache (AList.update s v cache) c"
    using r None v by (simp add: DynamicColor_getHct_def Let_def cache_def)
  have "set cache \<subseteq> set (dc_hctCache c)" by (simp add: cache_def)
  then have "set (AList.update s v cache) \<subseteq> insert (s, v) (set (dc_hctCache c))"
    using set_alist_update [of s v cache] by auto
  then have "hctCache_ok h c'"
    using ok v unfolding c' hctCache_ok_set
    by (auto simp: hctCache_ok_def list_all_iff)
  then show ?thesis using v by blast
qed

lemma getHct_calls_ok:
  "hctCache_ok h c \<Longrightarrow>
   hctCache_ok h (getHct_calls h c calls) \<and> (\<exists>x. getHct_calls h c calls = set_hctCache x c)"
proof (induction calls arbitrary: c)
  case Nil
  have "c = set_hctCache (dc_hctCache c) c" by simp
  then have "\<exists>x. c = set_hctCache x c" by (rule exI)
  with Nil show ?case unfolding getHct_calls.simps by (rule conjI)
next
  case (Cons call calls)
  show ?case
  proof (cases "DynamicColor_getHct (fst call) h c (snd call)")
    case None
    then have eq: "getHct_calls h c (call # calls) = getHct_calls h c calls" by simp
    show ?thesis unfolding eq by (rule Cons.IH [OF Cons.prems])
  next
    case (Some r)
    then have eq: "getHct_calls h c (call # calls) = getHct_calls h (snd r) calls" by simp
    from Some have r: "DynamicColor_getHct (fst call) h c (snd call) = Some (fst r, snd r)" by simp
    from getHct_step [OF Cons.prems r] have ok: "hctCache_ok h (snd r)" by (rule conjunct2)
    from getHct_shape [OF r] obtain y where y: "snd r = set_hctCache y c" by (rule exE)
    from Cons.IH [OF ok] obtain x where
      k: "hctCache_ok h (getHct_calls h (snd r) calls)"
      and x: "getHct_calls h (snd r) calls = set_hctCache x (snd r)"
      by (elim conjE exE)
    have "getHct_calls h (snd r) calls = set_hctCache x c"
      using x y by simp
    then have "\<exists>x. getHct_calls h (snd r) calls = set_hctCache x c" by (rule exI)
    with k show ?thesis unfolding eq by (rule conjI)
  qed
qed

lemma fresh_ok: "dc_hctCache c = [] \<Longrightarrow> hctCache_ok h c"
  by (simp add: hctCache_ok_def)

subsection \<open>Every role resolves\<close>

text \<open>
  A call of \<open>getTone\<close> returns once the calls on the roles it reaches return; a role is
  built from the roles it reaches, so every call returns at some depth.
\<close>

lemma finite_nestedRoles: "finite (nestedRoles s c)"
  by (simp add: nestedRoles_def split: option.splits)

lemma secondBackgroundTone_defined:
  assumes "r bg \<noteq> None" "\<forall>x \<in> set_option (fieldAt (dc_secondBackground c) s). r x \<noteq> None"
  shows "secondBackgroundTone r s c bg a q \<noteq> None"
  using assms unfolding secondBackgroundTone_def fieldAt_def
  by (auto simp: Let_def split: option.splits)

lemma pair2021_contrast_defined:
  assumes "\<forall>x \<in> set_option (fieldAt (dc_background c) s). r x \<noteq> None"
  shows "pair2021_contrast r s c n f dc nT fT \<noteq> None"
  using assms unfolding pair2021_contrast_def fieldAt_def
  by (auto simp: Let_def split: option.splits)

lemma getTone2021_defined:
  assumes "\<forall>x \<in> nestedRoles s c. r x \<noteq> None"
  shows "ColorCalculationDelegateImpl2021_getTone r s c \<noteq> None"
proof -
  have bg: "\<forall>x \<in> set_option (fieldAt (dc_background c) s). r x \<noteq> None"
    and bg2: "\<forall>x \<in> set_option (fieldAt (dc_secondBackground c) s). r x \<noteq> None"
    using assms by (simp_all add: nestedRoles_def)
  have p: "\<And>n f d nT fT. \<exists>y. pair2021_contrast r s c n f d nT fT = Some y"
    using pair2021_contrast_defined [OF bg] by simp
  have p': "\<And>n f d nT fT. pair2021_contrast r s c n f d nT fT \<noteq> None"
    by (rule pair2021_contrast_defined [OF bg])
  have q: "\<And>b a q. \<exists>v. r b = Some v \<Longrightarrow> \<exists>y. secondBackgroundTone r s c b a q = Some y"
    using secondBackgroundTone_defined [OF _ bg2] by simp
  show ?thesis
    using bg unfolding ColorCalculationDelegateImpl2021_getTone_def fieldAt_def
    by (auto simp: Let_def p p' q split: option.splits split del: if_split)
qed

lemma getTone2025_defined:
  assumes "\<forall>x \<in> nestedRoles s c. r x \<noteq> None"
  shows "ColorCalculationDelegateImpl2025_getTone r s c \<noteq> None"
proof -
  have bg: "\<forall>x \<in> set_option (fieldAt (dc_background c) s). r x \<noteq> None"
    and bg2: "\<forall>x \<in> set_option (fieldAt (dc_secondBackground c) s). r x \<noteq> None"
    and pr: "\<forall>p. fieldAt (dc_toneDeltaPair c) s = Some p \<longrightarrow> r (tdp_roleA p) \<noteq> None \<and> r (tdp_roleB p) \<noteq> None"
    using assms by (simp_all add: nestedRoles_def)
  have q: "\<And>b a q. \<exists>v. r b = Some v \<Longrightarrow> \<exists>y. secondBackgroundTone r s c b a q = Some y"
    using secondBackgroundTone_defined [OF _ bg2] by simp
  show ?thesis
    using bg pr unfolding ColorCalculationDelegateImpl2025_getTone_def fieldAt_def
    by (auto simp: Let_def q split: option.splits split del: if_split) (auto split: if_splits)
qed

lemma getTone_defined_mono:
  "d \<le> d' \<Longrightarrow> DynamicColor_getTone d s c \<noteq> None \<Longrightarrow> DynamicColor_getTone d' s c \<noteq> None"
  using getTone_mono [of d d' s c] by auto

lemma common_depth:
  assumes "finite A" "\<forall>x \<in> A. \<exists>d. DynamicColor_getTone d s x \<noteq> None"
  shows "\<exists>D. \<forall>x \<in> A. DynamicColor_getTone D s x \<noteq> None"
  using assms
proof (induction A)
  case empty
  show ?case by simp
next
  case (insert a A)
  then obtain D where D: "\<forall>x \<in> A. DynamicColor_getTone D s x \<noteq> None" by auto
  from insert.prems obtain d where d: "DynamicColor_getTone d s a \<noteq> None" by auto
  have "\<forall>x \<in> insert a A. DynamicColor_getTone (max d D) s x \<noteq> None"
    using D d getTone_defined_mono [of d "max d D" s a] getTone_defined_mono [of D "max d D" s]
    by auto
  then show ?case by blast
qed

lemma getTone_step_defined:
  assumes "\<forall>x \<in> nestedRoles s c. \<exists>d. DynamicColor_getTone d s x \<noteq> None"
  shows "\<exists>d. DynamicColor_getTone d s c \<noteq> None"
proof -
  from common_depth [OF finite_nestedRoles assms] obtain D where
    D: "\<forall>x \<in> nestedRoles s c. DynamicColor_getTone D s x \<noteq> None" by blast
  have "DynamicColor_getTone (Suc D) s c \<noteq> None"
    using getTone2021_defined [OF D] getTone2025_defined [OF D]
    by (simp only: DynamicColor_getTone.simps split: if_split) simp
  then show ?thesis by blast
qed

lemma getTone_total_aux:
  "(\<exists>d. DynamicColor_getTone d s c \<noteq> None)
   \<and> ((\<exists>d. DynamicColor_getTone d s (tdp_roleA p) \<noteq> None)
      \<and> (\<exists>d. DynamicColor_getTone d s (tdp_roleB p) \<noteq> None))"
proof (rule DynamicColor_ToneDeltaPair.induct
    [of "\<lambda>c. \<exists>d. DynamicColor_getTone d s c \<noteq> None"
        "\<lambda>p. (\<exists>d. DynamicColor_getTone d s (tdp_roleA p) \<noteq> None)
           \<and> (\<exists>d. DynamicColor_getTone d s (tdp_roleB p) \<noteq> None)"], goal_cases)
  case (1 x1 x2 x3 x4 x5 x6 x7 x8 x9 x10)
  note IH = 1
  show ?case
  proof (rule getTone_step_defined, rule ballI)
    fix x assume "x \<in> nestedRoles s (DynamicColor x1 x2 x3 x4 x5 x6 x7 x8 x9 x10)"
    then consider f where "x6 = Some f" "f s = Some x"
      | f where "x7 = Some f" "f s = Some x"
      | f p where "x9 = Some f" "f s = Some p" "x = tdp_roleA p \<or> x = tdp_roleB p"
      by (auto simp: nestedRoles_def fieldAt_def split: option.splits)
    then show "\<exists>d. DynamicColor_getTone d s x \<noteq> None"
    proof cases
      case 1
      have a: "f \<in> set_option x6" by (simp add: 1)
      have b: "f s \<in> range f" by (rule rangeI)
      have c: "x \<in> set_option (f s)" by (simp add: 1)
      show ?thesis by (rule IH(1) [OF a b c])
    next
      case 2
      have a: "f \<in> set_option x7" by (simp add: 2)
      have b: "f s \<in> range f" by (rule rangeI)
      have c: "x \<in> set_option (f s)" by (simp add: 2)
      show ?thesis by (rule IH(2) [OF a b c])
    next
      case 3
      have "(\<exists>d. DynamicColor_getTone d s (tdp_roleA p) \<noteq> None)
           \<and> (\<exists>d. DynamicColor_getTone d s (tdp_roleB p) \<noteq> None)"
      proof (rule IH(3))
        show "f \<in> set_option x9" by (simp add: 3)
        show "f s \<in> range f" by (rule rangeI)
        show "p \<in> set_option (f s)" by (simp add: 3)
      qed
      then show ?thesis using 3(3) by blast
    qed
  qed
next
  case (2 x1 x2 x3 x4 x5 x6)
  then show ?case by simp
qed

lemma getTone_total: "\<exists>d t. DynamicColor_getTone d s c = Some t"
  using getTone_total_aux [of s c] by auto

lemma delegate_getHct_defined:
  "DynamicColor_getTone d s c = Some t \<Longrightarrow> \<exists>v. delegate_getHct d s c = Some v"
  by (simp add: delegate_getHct_def ColorCalculationDelegateImpl2021_getHct_def
      ColorCalculationDelegateImpl2025_getHct_def Let_def)

lemma getHct_defined:
  assumes "delegate_getHct d (h s) c = Some v"
  shows "\<exists>r. DynamicColor_getHct d h c s = Some r"
  using assms by (simp add: DynamicColor_getHct_def Let_def split: option.splits)

text \<open>
  Claim C3. Take a role as its definition gives it (the cache empty) and the arguments
  of the scheme constructor. There is one ARGB value such that, for every scheme object
  built from these arguments and after every history of \<open>getHct\<close> calls with any schemes,
  the getter of the role returns this value (at every call depth from some bound on),
  and no call returns another value: the value depends on the constructor arguments and
  the role only, and the cache never changes it.
\<close>

theorem getArgb_deterministic:
  assumes fresh: "dc_hctCache color = []"
  shows "\<exists>argb depth. \<forall>h scheme calls d.
           h scheme = DynamicScheme_new getSpec args \<longrightarrow>
             (depth \<le> d \<longrightarrow>
                (\<exists>c. DynamicColor_getArgb d h (getHct_calls h color calls) scheme = Some (argb, c)))
             \<and> (\<forall>a c. DynamicColor_getArgb d h (getHct_calls h color calls) scheme = Some (a, c)
                   \<longrightarrow> a = argb)"
proof -
  define S where "S = DynamicScheme_new getSpec args"
  obtain D t where t: "DynamicColor_getTone D S color = Some t"
    using getTone_total [of S color] by blast
  obtain v where v: "delegate_getHct D S color = Some v"
    using delegate_getHct_defined [OF t] by blast
  have same: "a = Hct_toInt v"
    if s: "h scheme = S"
      and r: "DynamicColor_getArgb d h (getHct_calls h color calls) scheme = Some (a, c)"
    for h scheme calls d a c
  proof -
    have ok: "hctCache_ok h color" using fresh by (rule fresh_ok)
    obtain w where g: "DynamicColor_getHct d h (getHct_calls h color calls) scheme = Some (w, c)"
      and a: "a = Hct_toInt w"
      using r by (auto simp: DynamicColor_getArgb_def split: option.splits)
    from getHct_calls_ok [OF ok, of calls] obtain x where
      k: "hctCache_ok h (getHct_calls h color calls)"
        "getHct_calls h color calls = set_hctCache x color"
      by blast
    from getHct_step [OF k(1) g] obtain e where
      "delegate_getHct e (h scheme) (getHct_calls h color calls) = Some w" by blast
    then have e: "delegate_getHct e S color = Some w"
      by (simp add: k(2) delegate_getHct_cache s)
    have "w = v" by (rule delegate_getHct_depth [OF e v])
    then show ?thesis using a by simp
  qed
  have returns: "\<exists>c. DynamicColor_getArgb d h (getHct_calls h color calls) scheme
                    = Some (Hct_toInt v, c)"
    if s: "h scheme = S" and d: "D \<le> d" for h scheme calls d
  proof -
    have ok: "hctCache_ok h color" using fresh by (rule fresh_ok)
    from getHct_calls_ok [OF ok, of calls] obtain x where
      k: "getHct_calls h color calls = set_hctCache x color"
      by blast
    have "DynamicColor_getTone d S color = Some t" by (rule getTone_mono [OF d t])
    then obtain w where "delegate_getHct d S color = Some w"
      using delegate_getHct_defined by blast
    then have "delegate_getHct d (h scheme) (getHct_calls h color calls) = Some w"
      by (simp add: k delegate_getHct_cache s)
    then obtain r where r: "DynamicColor_getHct d h (getHct_calls h color calls) scheme = Some r"
      using getHct_defined by blast
    then have g: "DynamicColor_getArgb d h (getHct_calls h color calls) scheme
                  = Some (Hct_toInt (fst r), snd r)"
      by (simp add: DynamicColor_getArgb_def)
    from same [OF s g] have "Hct_toInt (fst r) = Hct_toInt v" .
    with g show ?thesis by auto
  qed
  have "\<forall>h scheme calls d.
           h scheme = DynamicScheme_new getSpec args \<longrightarrow>
             (D \<le> d \<longrightarrow>
                (\<exists>c. DynamicColor_getArgb d h (getHct_calls h color calls) scheme
                       = Some (Hct_toInt v, c)))
             \<and> (\<forall>a c. DynamicColor_getArgb d h (getHct_calls h color calls) scheme = Some (a, c)
                   \<longrightarrow> a = Hct_toInt v)"
    using same returns unfolding S_def by blast
  then show ?thesis by blast
qed

lemma length_alist_update: "length (AList.update k v al) \<le> Suc (length al)"
  by (induction al) auto

lemma getHct_cache_bound:
  assumes "length (dc_hctCache c) \<le> 5" "distinct (map fst (dc_hctCache c))"
    and "DynamicColor_getHct d h c s = Some (v, c')"
  shows "length (dc_hctCache c') \<le> 5 \<and> distinct (map fst (dc_hctCache c'))"
proof (cases "map_of (dc_hctCache c) s")
  case (Some a)
  then have "c' = c" using assms(3) by (simp add: DynamicColor_getHct_def)
  then show ?thesis using assms by simp
next
  case None
  define cache where "cache = (if length (dc_hctCache c) > 4 then [] else dc_hctCache c)"
  have c': "dc_hctCache c' = AList.update s v cache"
    using assms(3) None
    by (auto simp: DynamicColor_getHct_def Let_def cache_def split: option.splits)
  have "length cache \<le> 4" by (simp add: cache_def)
  then have "length (AList.update s v cache) \<le> 5"
    using length_alist_update [of s v cache] by simp
  moreover have "distinct (map fst cache)" using assms(2) by (simp add: cache_def)
  then have "distinct (map fst (AList.update s v cache))" by (rule distinct_update)
  ultimately show ?thesis by (simp add: c')
qed

lemma getHct_clears:
  assumes "map_of (dc_hctCache c) s = None" "length (dc_hctCache c) > 4"
    and "DynamicColor_getHct d h c s = Some (v, c')"
  shows "dc_hctCache c' = [(s, v)]"
  using assms by (auto simp: DynamicColor_getHct_def Let_def split: option.splits)

lemma getHct_calls_bound:
  "length (dc_hctCache c) \<le> 5 \<Longrightarrow> distinct (map fst (dc_hctCache c)) \<Longrightarrow>
   length (dc_hctCache (getHct_calls h c calls)) \<le> 5
   \<and> distinct (map fst (dc_hctCache (getHct_calls h c calls)))"
proof (induction calls arbitrary: c)
  case Nil
  then show ?case by simp
next
  case (Cons call calls)
  show ?case
  proof (cases "DynamicColor_getHct (fst call) h c (snd call)")
    case None
    then show ?thesis using Cons by simp
  next
    case (Some r)
    then have r: "DynamicColor_getHct (fst call) h c (snd call) = Some (fst r, snd r)" by simp
    from getHct_cache_bound [OF Cons.prems r] Cons.IH [of "snd r"] Some show ?thesis by simp
  qed
qed

text \<open>
  Claim C7, amended. After any sequence of \<open>getHct\<close> calls with any schemes the cache of
  a dynamic colour holds at most 5 entries, under distinct keys; and a call that misses
  while the cache holds more than 4 entries leaves a cache with the new entry alone: the
  whole map is cleared, no single entry is evicted.
\<close>

theorem hctCache_bound:
  assumes "dc_hctCache color = []"
  shows "length (dc_hctCache (getHct_calls h color calls)) \<le> 5
    \<and> distinct (map fst (dc_hctCache (getHct_calls h color calls)))
    \<and> (\<forall>d s v c'. map_of (dc_hctCache (getHct_calls h color calls)) s = None
          \<and> length (dc_hctCache (getHct_calls h color calls)) > 4
          \<and> DynamicColor_getHct d h (getHct_calls h color calls) s = Some (v, c')
          \<longrightarrow> dc_hctCache c' = [(s, v)])"
proof -
  have b: "length (dc_hctCache (getHct_calls h color calls)) \<le> 5
    \<and> distinct (map fst (dc_hctCache (getHct_calls h color calls)))"
    by (rule getHct_calls_bound) (simp_all add: assms)
  have c: "\<forall>d s v c'. map_of (dc_hctCache (getHct_calls h color calls)) s = None
          \<and> length (dc_hctCache (getHct_calls h color calls)) > 4
          \<and> DynamicColor_getHct d h (getHct_calls h color calls) s = Some (v, c')
          \<longrightarrow> dc_hctCache c' = [(s, v)]"
  proof (intro allI impI, elim conjE)
    fix d s v c'
    assume "map_of (dc_hctCache (getHct_calls h color calls)) s = None"
      "length (dc_hctCache (getHct_calls h color calls)) > 4"
      "DynamicColor_getHct d h (getHct_calls h color calls) s = Some (v, c')"
    then show "dc_hctCache c' = [(s, v)]" by (rule getHct_clears)
  qed
  show ?thesis by (rule conjI [OF conjunct1 [OF b] conjI [OF conjunct2 [OF b] c]])
qed

section \<open>The 2025 tone buckets\<close>

lemma getTone2021_plain:
  "dc_toneDeltaPair c = None \<Longrightarrow> dc_background c = None \<Longrightarrow>
   ColorCalculationDelegateImpl2021_getTone r s c = Some (dc_tone c s)"
  by (simp add: ColorCalculationDelegateImpl2021_getTone_def)

lemma getTone2025_plain:
  "dc_toneDeltaPair c = None \<Longrightarrow> dc_background c = None \<Longrightarrow>
   ColorCalculationDelegateImpl2025_getTone r s c = Some (dc_tone c s)"
  by (simp add: ColorCalculationDelegateImpl2025_getTone_def)

lemma example_scheme_version [simp]: "specVersion (example_scheme v) = v"
  by (simp add: example_scheme_def DynamicScheme_new_def example_options_def orElse_def Let_def)

lemma example_surface_sel [simp]:
  "dc_name example_surface = ''surface''"
  "dc_tone example_surface = (\<lambda>s. 55)"
  "dc_isBackground example_surface"
  "dc_background example_surface = None"
  "dc_toneDeltaPair example_surface = None"
  "dc_hctCache example_surface = []"
  by (simp_all add: example_surface_def)

lemma example_surface_tone:
  "DynamicColor_getTone (Suc d) (example_scheme v) example_surface = Some 55"
  by (simp add: getTone2021_plain getTone2025_plain)

text \<open>
  Claim C5, as stated, fails: the 2025 delegate returns the tone of a role unchanged when
  the role has no tone delta pair and no background. A background role named
  \<open>surface\<close> with tone 55 and no background resolves to 55 in a 2025 scheme.
\<close>

theorem getTone2025_counterexample:
  "specVersion (example_scheme SPEC_2025) = SPEC_2025
   \<and> DynamicColor_new ''surface'' primaryPalette (\<lambda>s. 55) True None None None None None
       = Inr example_surface
   \<and> dc_isBackground example_surface
   \<and> \<not> endsWith (dc_name example_surface) ''_fixed_dim''
   \<and> (\<exists>tone. DynamicColor_getTone 1 (example_scheme SPEC_2025) example_surface = Some tone
        \<and> 49 < tone \<and> tone < 65)"
proof -
  have "DynamicColor_getTone 1 (example_scheme SPEC_2025) example_surface = Some 55"
    using example_surface_tone [of 0 SPEC_2025] by simp
  then show ?thesis
    by (simp add: DynamicColor_new_def example_surface_def endsWith_def)
qed

lemma bucket2025_range:
  "dc_isBackground c \<Longrightarrow> \<not> endsWith (dc_name c) ''_fixed_dim'' \<Longrightarrow>
   (0 \<le> bucket2025 c t \<and> bucket2025 c t \<le> 49) \<or> (65 \<le> bucket2025 c t \<and> bucket2025 c t \<le> 100)"
  by (simp add: bucket2025_def clampDouble_def)

lemma getTone2025_pair_bucket:
  assumes "dc_isBackground c" "\<not> endsWith (dc_name c) ''_fixed_dim''"
    and "fieldAt (dc_toneDeltaPair c) s \<noteq> None"
    and "ColorCalculationDelegateImpl2025_getTone r s c = Some t"
  shows "(0 \<le> t \<and> t \<le> 49) \<or> (65 \<le> t \<and> t \<le> 100)"
proof -
  have "\<exists>u. t = bucket2025 c u"
    using assms(3,4) unfolding ColorCalculationDelegateImpl2025_getTone_def fieldAt_def
    by (auto simp: Let_def split: option.splits split del: if_split)
  then show ?thesis using bucket2025_range [OF assms(1,2)] by blast
qed

lemma getTone2025_background_bucket:
  assumes "dc_isBackground c" "\<not> endsWith (dc_name c) ''_fixed_dim''"
    and "fieldAt (dc_toneDeltaPair c) s = None"
    and "fieldAt (dc_background c) s \<noteq> None" "fieldAt (dc_contrastCurve c) s \<noteq> None"
    and "fieldAt (dc_secondBackground c) s = None"
    and "ColorCalculationDelegateImpl2025_getTone r s c = Some t"
  shows "(0 \<le> t \<and> t \<le> 49) \<or> (65 \<le> t \<and> t \<le> 100)"
proof -
  have "\<exists>u. t = bucket2025 c u"
    using assms(3-7) unfolding ColorCalculationDelegateImpl2025_getTone_def fieldAt_def
      secondBackgroundTone_def
    by (auto simp: Let_def split: option.splits split del: if_split)
  then show ?thesis using bucket2025_range [OF assms(1,2)] by blast
qed

lemma getTone2025_declared:
  assumes "fieldAt (dc_toneDeltaPair c) s = None"
    and "fieldAt (dc_background c) s = None \<or> fieldAt (dc_contrastCurve c) s = None"
  shows "ColorCalculationDelegateImpl2025_getTone r s c = Some (dc_tone c s)"
  using assms unfolding ColorCalculationDelegateImpl2025_getTone_def fieldAt_def
  by (auto simp: Let_def split: option.splits split del: if_split)

lemma example_fixed_sel [simp]:
  "dc_name example_fixed = ''fixed''"
  "dc_tone example_fixed = (\<lambda>s. 60)"
  "dc_background example_fixed = None"
  "dc_toneDeltaPair example_fixed = None"
  by (simp_all add: example_fixed_def)

lemma example_fixed_tone:
  "DynamicColor_getTone (Suc d) (example_scheme v) example_fixed = Some 60"
  by (simp add: getTone2021_plain getTone2025_plain)

lemma example_dim_tone:
  "DynamicColor_getTone (Suc (Suc 0)) (example_scheme SPEC_2025) example_dim = Some 49"
proof -
  have "ColorCalculationDelegateImpl2025_getTone
          (DynamicColor_getTone (Suc 0) (example_scheme SPEC_2025)) (example_scheme SPEC_2025)
          example_dim = Some 49"
    unfolding ColorCalculationDelegateImpl2025_getTone_def
    by (simp add: example_dim_def ToneDeltaPair_new_def orElse_def example_fixed_tone
        pair2025_constraint_def bucket2025_def clampDouble_def endsWith_def Let_def
        del: DynamicColor_getTone.simps)
  then show ?thesis by (simp del: One_nat_def)
qed

text \<open>
  Claim C5, amended. In a scheme of spec version 2025, every background role whose name
  does not end in \<open>_fixed_dim\<close> resolves to a tone. That tone lies between 0 and 49 or
  between 65 and 100 whenever the role has a tone delta pair for the scheme, or has a
  background and a contrast curve for the scheme and no second background for it. When
  the role has no tone delta pair for the scheme and lacks a background or a contrast
  curve for it, the tone is the declared tone of the role, whatever band it lies in.
\<close>

theorem getTone2025_bucket:
  assumes "specVersion scheme = SPEC_2025"
    and "dc_isBackground color" "\<not> endsWith (dc_name color) ''_fixed_dim''"
  shows "(\<exists>depth tone. DynamicColor_getTone depth scheme color = Some tone)
    \<and> (\<forall>depth tone. DynamicColor_getTone depth scheme color = Some tone \<longrightarrow>
         (fieldAt (dc_toneDeltaPair color) scheme \<noteq> None
            \<or> (fieldAt (dc_background color) scheme \<noteq> None
                \<and> fieldAt (dc_contrastCurve color) scheme \<noteq> None
                \<and> fieldAt (dc_secondBackground color) scheme = None)
          \<longrightarrow> (0 \<le> tone \<and> tone \<le> 49) \<or> (65 \<le> tone \<and> tone \<le> 100))
       \<and> (fieldAt (dc_toneDeltaPair color) scheme = None
            \<and> (fieldAt (dc_background color) scheme = None
                \<or> fieldAt (dc_contrastCurve color) scheme = None)
          \<longrightarrow> tone = dc_tone color scheme))"
proof (intro conjI allI impI)
  show "\<exists>depth tone. DynamicColor_getTone depth scheme color = Some tone"
    by (rule getTone_total)
next
  fix depth tone
  assume r: "DynamicColor_getTone depth scheme color = Some tone"
  then obtain d where d: "depth = Suc d" by (cases depth) simp_all
  have t: "ColorCalculationDelegateImpl2025_getTone (DynamicColor_getTone d scheme) scheme color
           = Some tone"
    using r assms(1) unfolding d by (simp only: DynamicColor_getTone.simps if_True simp_thms)
  {
    assume c: "fieldAt (dc_toneDeltaPair color) scheme \<noteq> None
            \<or> (fieldAt (dc_background color) scheme \<noteq> None
                \<and> fieldAt (dc_contrastCurve color) scheme \<noteq> None
                \<and> fieldAt (dc_secondBackground color) scheme = None)"
    show "(0 \<le> tone \<and> tone \<le> 49) \<or> (65 \<le> tone \<and> tone \<le> 100)"
    proof (cases "fieldAt (dc_toneDeltaPair color) scheme = None")
      case False
      then show ?thesis by (rule getTone2025_pair_bucket [OF assms(2,3) _ t])
    next
      case True
      with c have "fieldAt (dc_background color) scheme \<noteq> None"
        "fieldAt (dc_contrastCurve color) scheme \<noteq> None"
        "fieldAt (dc_secondBackground color) scheme = None" by simp_all
      then show ?thesis by (rule getTone2025_background_bucket [OF assms(2,3) True _ _ _ t])
    qed
  }
  {
    assume c: "fieldAt (dc_toneDeltaPair color) scheme = None
            \<and> (fieldAt (dc_background color) scheme = None
                \<or> fieldAt (dc_contrastCurve color) scheme = None)"
    have "ColorCalculationDelegateImpl2025_getTone (DynamicColor_getTone d scheme) scheme color
          = Some (dc_tone color scheme)"
      by (rule getTone2025_declared [OF conjunct1 [OF c] conjunct2 [OF c]])
    with t show "tone = dc_tone color scheme" by simp
  }
qed

theorem getTone2025_bucket_witness:
  "specVersion (example_scheme SPEC_2025) = SPEC_2025
   \<and> dc_isBackground example_dim
   \<and> \<not> endsWith (dc_name example_dim) ''_fixed_dim''
   \<and> fieldAt (dc_toneDeltaPair example_dim) (example_scheme SPEC_2025) \<noteq> None
   \<and> DynamicColor_getTone (Suc (Suc 0)) (example_scheme SPEC_2025) example_dim = Some 49
   \<and> ((0 \<le> (49::real) \<and> (49::real) \<le> 49) \<or> (65 \<le> (49::real) \<and> (49::real) \<le> 100))
   \<and> dc_isBackground example_surface
   \<and> \<not> endsWith (dc_name example_surface) ''_fixed_dim''
   \<and> fieldAt (dc_toneDeltaPair example_surface) (example_scheme SPEC_2025) = None
   \<and> fieldAt (dc_background example_surface) (example_scheme SPEC_2025) = None
   \<and> DynamicColor_getTone (Suc 0) (example_scheme SPEC_2025) example_surface = Some 55
   \<and> 55 = dc_tone example_surface (example_scheme SPEC_2025)"
proof -
  have a: "specVersion (example_scheme SPEC_2025) = SPEC_2025" by simp
  have b: "dc_isBackground example_dim" by (simp add: example_dim_def)
  have c: "\<not> endsWith (dc_name example_dim) ''_fixed_dim''"
    by (simp add: example_dim_def endsWith_def)
  have d: "fieldAt (dc_toneDeltaPair example_dim) (example_scheme SPEC_2025) \<noteq> None"
    by (simp add: example_dim_def fieldAt_def)
  have b': "dc_isBackground example_surface" by simp
  have c': "\<not> endsWith (dc_name example_surface) ''_fixed_dim''" by (simp add: endsWith_def)
  have d': "fieldAt (dc_toneDeltaPair example_surface) (example_scheme SPEC_2025) = None"
    "fieldAt (dc_background example_surface) (example_scheme SPEC_2025) = None"
    by (simp_all add: fieldAt_def)
  have e': "DynamicColor_getTone (Suc 0) (example_scheme SPEC_2025) example_surface = Some 55"
    by (rule example_surface_tone)
  have "(0 \<le> (49::real) \<and> (49::real) \<le> 49) \<or> (65 \<le> (49::real) \<and> (49::real) \<le> 100)"
    using getTone2025_bucket [OF a b c] example_dim_tone d by blast
  moreover have "55 = dc_tone example_surface (example_scheme SPEC_2025)"
    using getTone2025_bucket [OF a b' c'] e' d' by blast
  ultimately show ?thesis using a b c d example_dim_tone b' c' d' e' by (intro conjI)
qed

section \<open>The cache on concrete calls\<close>

lemma example_surface_palette [simp]: "dc_palette example_surface = primaryPalette"
  by (simp add: example_surface_def)

lemma example_surface_delegate:
  "delegate_getHct (Suc d) (example_heap s) (set_hctCache x example_surface) = Some example_hct"
proof -
  have "delegate_getHct (Suc d) (example_heap s) (set_hctCache x example_surface)
        = delegate_getHct (Suc d) (example_scheme SPEC_2021) example_surface"
    by (simp only: delegate_getHct_cache example_heap_def)
  also have "\<dots> = Some example_hct"
    unfolding delegate_getHct_def ColorCalculationDelegateImpl2021_getHct_def
    by (simp add: example_surface_tone example_hct_def del: DynamicColor_getTone.simps)
  finally show ?thesis .
qed

lemma getHct_miss:
  "map_of x s = None \<Longrightarrow>
   DynamicColor_getHct (Suc d) example_heap (set_hctCache x example_surface) s
   = Some (example_hct, set_hctCache (AList.update s example_hct (if length x > 4 then [] else x)) example_surface)"
  by (simp add: DynamicColor_getHct_def example_surface_delegate Let_def)

lemma getHct_hit:
  "map_of x s = Some v \<Longrightarrow>
   DynamicColor_getHct d example_heap (set_hctCache x example_surface) s
   = Some (v, set_hctCache x example_surface)"
  by (simp add: DynamicColor_getHct_def)

lemma surface_fresh: "example_surface = set_hctCache [] example_surface"
  by (simp add: example_surface_def set_hctCache_def)

lemma five_calls:
  "getHct_calls example_heap example_surface [(1, 0), (1, 1), (1, 2), (1, 3), (1, 4)]
   = set_hctCache [(0, example_hct), (1, example_hct), (2, example_hct), (3, example_hct), (4, example_hct)] example_surface"
  by (subst surface_fresh) (simp add: getHct_miss)

text \<open>
  Claim C7, as stated, fails: the cache is cleared only when a call finds more than 4
  entries, and the new entry is stored after that test. Five calls with five scheme
  objects leave 5 entries.
\<close>

theorem hctCache_bound_counterexample:
  "dc_hctCache example_surface = []
   \<and> length (dc_hctCache (getHct_calls example_heap example_surface
         [(1, 0), (1, 1), (1, 2), (1, 3), (1, 4)])) = 5
   \<and> \<not> length (dc_hctCache (getHct_calls example_heap example_surface
         [(1, 0), (1, 1), (1, 2), (1, 3), (1, 4)])) \<le> 4"
  unfolding five_calls by simp

theorem hctCache_bound_witness:
  "dc_hctCache example_surface = []
   \<and> length (dc_hctCache (getHct_calls example_heap example_surface
         [(1, 0), (1, 1), (1, 2), (1, 3), (1, 4)])) \<le> 5
   \<and> map_of (dc_hctCache (getHct_calls example_heap example_surface
         [(1, 0), (1, 1), (1, 2), (1, 3), (1, 4)])) 5 = None
   \<and> length (dc_hctCache (getHct_calls example_heap example_surface
         [(1, 0), (1, 1), (1, 2), (1, 3), (1, 4)])) > 4
   \<and> (\<exists>v c'. DynamicColor_getHct 1 example_heap (getHct_calls example_heap example_surface
         [(1, 0), (1, 1), (1, 2), (1, 3), (1, 4)]) 5 = Some (v, c')
        \<and> dc_hctCache c' = [(5, v)])"
proof -
  define C where "C = getHct_calls example_heap example_surface
         [(1, 0), (1, 1), (1, 2), (1, 3), (1, 4)]"
  have f: "dc_hctCache example_surface = []" by simp
  have C: "C = set_hctCache [(0, example_hct), (1, example_hct), (2, example_hct), (3, example_hct), (4, example_hct)] example_surface"
    unfolding C_def by (rule five_calls)
  have m: "map_of (dc_hctCache C) 5 = None" by (simp add: C)
  have l: "length (dc_hctCache C) > 4" by (simp add: C)
  have g: "DynamicColor_getHct 1 example_heap C 5
           = Some (example_hct, set_hctCache [(5, example_hct)] example_surface)"
    unfolding C using getHct_miss [of "[(0, example_hct), (1, example_hct), (2, example_hct), (3, example_hct), (4, example_hct)]" 5 0] by simp
  from hctCache_bound [OF f, of example_heap "[(1, 0), (1, 1), (1, 2), (1, 3), (1, 4)]"]
  have b: "length (dc_hctCache C) \<le> 5"
    and cl: "\<forall>d s v c'. map_of (dc_hctCache C) s = None \<and> length (dc_hctCache C) > 4
          \<and> DynamicColor_getHct d example_heap C s = Some (v, c')
          \<longrightarrow> dc_hctCache c' = [(s, v)]"
    unfolding C_def by blast+
  from cl m l g have "dc_hctCache (set_hctCache [(5, example_hct)] example_surface) = [(5, example_hct)]" by blast
  with g have "\<exists>v c'. DynamicColor_getHct 1 example_heap C 5 = Some (v, c')
        \<and> dc_hctCache c' = [(5, v)]" by blast
  with f b m l show ?thesis unfolding C_def by (intro conjI)
qed

text \<open>The role \<open>on_bright\<close>: its tone is resolved at depth 2, through its background.\<close>

lemma example_bright_tone:
  "DynamicColor_getTone (Suc d) (example_scheme v) example_bright = Some 98"
  by (simp add: getTone2021_plain getTone2025_plain example_bright_def)

lemma example_scheme_contrastLevel: "contrastLevel (example_scheme v) = 0"
  by (simp add: example_scheme_def DynamicScheme_new_def example_options_def orElse_def Let_def)

lemma ratio_98_10: "(9 / 2 :: real) \<le> ratioOfTones 98 10"
  by (simp add: ratioOfTones_def ratioOfYs_def clampDouble_def yFromLstar_def labInvf_def Let_def)

lemma ratio_98_10': "(9 :: real) \<le> ratioOfTones 98 10 * 2"
  using ratio_98_10 by simp

lemma example_onBright_tone:
  "DynamicColor_getTone (Suc (Suc 0)) (example_scheme SPEC_2021) example_onBright = Some 10"
proof -
  have "ColorCalculationDelegateImpl2021_getTone
          (DynamicColor_getTone (Suc 0) (example_scheme SPEC_2021)) (example_scheme SPEC_2021)
          example_onBright = Some 10"
    unfolding ColorCalculationDelegateImpl2021_getTone_def secondBackgroundTone_def
    by (simp add: example_onBright_def example_bright_tone example_scheme_contrastLevel
        ContrastCurve_get_def lerp_def ratio_98_10' Let_def
        del: DynamicColor_getTone.simps)
  then show ?thesis by (simp del: One_nat_def)
qed

lemma example_onBright_argb:
  "DynamicColor_getArgb 2 example_heap (getHct_calls example_heap example_onBright []) 0
   = Some (Hct_toInt example_onBright_hct, set_hctCache [(0, example_onBright_hct)] example_onBright)"
proof -
  have two: "(2::nat) = Suc (Suc 0)" by simp
  have p: "dc_palette example_onBright = primaryPalette" "dc_hctCache example_onBright = []"
    by (simp_all add: example_onBright_def)
  have "delegate_getHct (Suc (Suc 0)) (example_scheme SPEC_2021) example_onBright
        = Some example_onBright_hct"
    unfolding delegate_getHct_def ColorCalculationDelegateImpl2021_getHct_def
    by (simp add: example_onBright_tone example_onBright_hct_def p del: DynamicColor_getTone.simps)
  then show ?thesis
    unfolding two
    by (simp add: DynamicColor_getArgb_def DynamicColor_getHct_def p example_heap_def Let_def
        del: DynamicColor_getTone.simps)
qed

theorem getArgb_deterministic_witness:
  "dc_hctCache example_onBright = []
   \<and> example_heap 0 = DynamicScheme_new (\<lambda>v. example_delegate) (example_options SPEC_2021)
   \<and> example_heap 1 = DynamicScheme_new (\<lambda>v. example_delegate) (example_options SPEC_2021)
   \<and> (\<exists>c. DynamicColor_getArgb 2 example_heap (getHct_calls example_heap example_onBright []) 0
           = Some (Hct_toInt example_onBright_hct, c))
   \<and> (\<exists>d c. DynamicColor_getArgb d example_heap
              (getHct_calls example_heap example_onBright [(2, 0), (2, 1)]) 1
           = Some (Hct_toInt example_onBright_hct, c))"
proof -
  have f: "dc_hctCache example_onBright = []" by (simp add: example_onBright_def)
  have h0: "example_heap 0 = DynamicScheme_new (\<lambda>v. example_delegate) (example_options SPEC_2021)"
    by (simp add: example_heap_def example_scheme_def)
  have h1: "example_heap 1 = DynamicScheme_new (\<lambda>v. example_delegate) (example_options SPEC_2021)"
    by (simp add: example_heap_def example_scheme_def)
  from getArgb_deterministic [OF f, of "\<lambda>v. example_delegate" "example_options SPEC_2021"]
  obtain argb depth where
    P: "\<And>h scheme calls d.
          h scheme = DynamicScheme_new (\<lambda>v. example_delegate) (example_options SPEC_2021) \<Longrightarrow>
             (depth \<le> d \<longrightarrow>
                (\<exists>c. DynamicColor_getArgb d h (getHct_calls h example_onBright calls) scheme
                       = Some (argb, c)))
             \<and> (\<forall>a c. DynamicColor_getArgb d h (getHct_calls h example_onBright calls) scheme
                         = Some (a, c) \<longrightarrow> a = argb)"
    by blast
  have a: "Hct_toInt example_onBright_hct = argb"
    using P [where h = example_heap and scheme = 0 and calls = "[]" and d = 2, OF h0]
      example_onBright_argb by blast
  have g1: "\<exists>c. DynamicColor_getArgb 2 example_heap (getHct_calls example_heap example_onBright []) 0
           = Some (Hct_toInt example_onBright_hct, c)"
    using example_onBright_argb by blast
  have g2: "\<exists>d c. DynamicColor_getArgb d example_heap
              (getHct_calls example_heap example_onBright [(2, 0), (2, 1)]) 1
           = Some (Hct_toInt example_onBright_hct, c)"
    using P [where h = example_heap and scheme = 1 and calls = "[(2, 0), (2, 1)]" and d = depth, OF h1]
    unfolding a by blast
  from f h0 h1 g1 g2 show ?thesis by (intro conjI)
qed

section \<open>Quantizers and the alpha channel\<close>

lemma QuantizerMap_fold_opaque:
  "fold QuantizerMap_step pixels acc = fold QuantizerMap_step (filter isOpaque pixels) acc"
  by (induction pixels arbitrary: acc) (simp_all add: QuantizerMap_step_def isOpaque_def Let_def)

lemma QuantizerMap_opaque:
  "QuantizerMap_quantize pixels = QuantizerMap_quantize (filter isOpaque pixels)"
  unfolding QuantizerMap_quantize_def by (rule QuantizerMap_fold_opaque)

lemma QuantizerWu_opaque:
  "QuantizerWu_quantize boxes pixels maxColors
   = QuantizerWu_quantize boxes (filter isOpaque pixels) maxColors"
  unfolding QuantizerWu_quantize_def constructHistogram_def
  using QuantizerMap_opaque [of pixels] by simp

declare wsmeans_iterate.simps [simp del]

lemma distance_nonneg: "0 \<le> LabPointProvider_distance a b"
  by (simp add: LabPointProvider_distance_def Let_def)

lemma distance_self: "LabPointProvider_distance pt [pt ! 0, pt ! Suc 0, pt ! 2] = 0"
  by (simp add: LabPointProvider_distance_def Let_def)

lemma wsmeans_row_single:
  "wsmeans_row (Suc 0) 0
     \<lparr>ws_clusters = cs, ws_clusterIndices = [0], ws_indexMatrix = im,
      ws_distanceToIndexMatrix = [[(- 1, - 1)]], ws_pixelCountSums = ps\<rparr>
   = \<lparr>ws_clusters = cs, ws_clusterIndices = [0], ws_indexMatrix = im[0 := [- 1]],
      ws_distanceToIndexMatrix = [[(- 1, - 1)]], ws_pixelCountSums = ps\<rparr>"
  by (simp add: wsmeans_row_def Let_def)

lemma wsmeans_move_single:
  assumes "ws_clusterIndices st = [0]" "ws_distanceToIndexMatrix st = [[(- 1, - 1)]]"
  shows "wsmeans_move (Suc 0) [pt] st 0 = (0, False)"
proof -
  have "\<not> (- 1 \<ge> 4 * LabPointProvider_distance pt (ws_clusters st ! 0))"
    using distance_nonneg [of pt "ws_clusters st ! 0"] by simp
  then show ?thesis
    using assms by (simp add: wsmeans_move_def wsmeans_nearer_def Let_def)
qed

lemma wsmeans_single:
  assumes "0 < n"
  shows "wsmeans_iterate (Suc 0) (Suc 0) [pt] [n] 0
     \<lparr>ws_clusters = cs, ws_clusterIndices = [0], ws_indexMatrix = [[0]],
      ws_distanceToIndexMatrix = [[(- 1, - 1)]], ws_pixelCountSums = [0]\<rparr>
   = \<lparr>ws_clusters = [pt ! 0, pt ! Suc 0, pt ! 2] # drop (Suc 0) cs, ws_clusterIndices = [0],
      ws_indexMatrix = [[- 1]], ws_distanceToIndexMatrix = [[(- 1, - 1)]],
      ws_pixelCountSums = [n]\<rparr>"
proof -
  have step0: "wsmeans_iterate (Suc 0) (Suc 0) [pt] [n] 0
     \<lparr>ws_clusters = cs, ws_clusterIndices = [0], ws_indexMatrix = [[0]],
      ws_distanceToIndexMatrix = [[(- 1, - 1)]], ws_pixelCountSums = [0]\<rparr>
    = wsmeans_iterate (Suc 0) (Suc 0) [pt] [n] (Suc 0)
     \<lparr>ws_clusters = [pt ! 0, pt ! Suc 0, pt ! 2] # drop (Suc 0) cs, ws_clusterIndices = [0],
      ws_indexMatrix = [[- 1]], ws_distanceToIndexMatrix = [[(- 1, - 1)]],
      ws_pixelCountSums = [n]\<rparr>"
    using assms
    by (subst wsmeans_iterate.simps)
       (simp add: MAX_ITERATIONS_def wsmeans_row_single wsmeans_move_single wsmeans_add_def
          wsmeans_centre_def Let_def)
  have step1: "wsmeans_iterate (Suc 0) (Suc 0) [pt] [n] (Suc 0)
     \<lparr>ws_clusters = [pt ! 0, pt ! Suc 0, pt ! 2] # drop (Suc 0) cs, ws_clusterIndices = [0],
      ws_indexMatrix = [[- 1]], ws_distanceToIndexMatrix = [[(- 1, - 1)]],
      ws_pixelCountSums = [n]\<rparr>
    = \<lparr>ws_clusters = [pt ! 0, pt ! Suc 0, pt ! 2] # drop (Suc 0) cs, ws_clusterIndices = [0],
      ws_indexMatrix = [[- 1]], ws_distanceToIndexMatrix = [[(- 1, - 1)]],
      ws_pixelCountSums = [n]\<rparr>"
    by (subst wsmeans_iterate.simps)
       (simp add: MAX_ITERATIONS_def wsmeans_row_single wsmeans_move_single Let_def)
  show ?thesis by (simp only: step0 step1)
qed

lemma wsmeans_count_single:
  "wsmeans_count [p] =
     \<lparr>wp_pixelToCount = [(p, 1)], wp_points = [LabPointProvider_fromInt p], wp_pixels = [p],
      wp_pointCount = Suc 0\<rparr>"
  by (simp add: wsmeans_count_def wsmeans_count_step_def)

lemma toInt_components:
  "LabPointProvider_toInt [pt ! 0, pt ! Suc 0, pt ! 2] = LabPointProvider_toInt pt"
  by (simp add: LabPointProvider_toInt_def)

lemma floor_half: "\<lfloor>1 / 2 :: real\<rfloor> = 0"
  by (simp add: floor_eq_iff)

text \<open>One pixel, whatever its alpha, is one point with population 1.\<close>

lemma wsmeans_one_pixel:
  "QuantizerWsmeans_quantize (\<lambda>k. 1 / 2) [p] startingClusters (Suc 0)
   = Inr [(LabPointProvider_toInt (LabPointProvider_fromInt p), 1)]"
proof -
  define cs where "cs = (if startingClusters = []
      then wsmeans_random_clusters (\<lambda>k. 1 / 2) (Suc 0)
      else map LabPointProvider_fromInt startingClusters)"
  have "QuantizerWsmeans_quantize (\<lambda>k. 1 / 2) [p] startingClusters (Suc 0)
    = Inr (fold (wsmeans_result_step
        (wsmeans_iterate (Suc 0) (Suc 0) [LabPointProvider_fromInt p] [Suc 0] 0
          \<lparr>ws_clusters = cs, ws_clusterIndices = [0], ws_indexMatrix = [[0]],
           ws_distanceToIndexMatrix = [[(- 1, - 1)]], ws_pixelCountSums = [0]\<rparr>)) [0] [])"
  proof (cases "startingClusters = []")
    case True
    then show ?thesis
      by (simp add: QuantizerWsmeans_quantize_def wsmeans_count_single wsmeans_counts_def
          orElse_def Let_def floor_half cs_def)
  next
    case False
    then have "Suc 0 \<le> length startingClusters" by (cases startingClusters) simp_all
    then have "min (Suc 0) (length startingClusters) = Suc 0" by simp
    then show ?thesis
      using False
      by (simp add: QuantizerWsmeans_quantize_def wsmeans_count_single wsmeans_counts_def
          orElse_def Let_def floor_half cs_def)
  qed
  also have "\<dots> = Inr [(LabPointProvider_toInt (LabPointProvider_fromInt p), 1)]"
    by (simp add: wsmeans_single wsmeans_result_step_def Let_def toInt_components)
  finally show ?thesis .
qed

lemma wsmeans_no_pixel:
  "QuantizerWsmeans_quantize rnd [] startingClusters maxColors = Inr []"
  by (simp add: QuantizerWsmeans_quantize_def wsmeans_count_def Let_def)

lemma alpha_half: "alphaFromArgb 2164195328 = 128"
  by (simp add: alphaFromArgb_def)

lemma not_opaque: "filter isOpaque [2164195328] = []"
  by (simp add: isOpaque_def alpha_half)

text \<open>
  Claim C9 says that every quantizer returns what it returns on the opaque pixels alone.
  \<open>QuantizerMap\<close> and \<open>QuantizerWu\<close> do (lemmas \<open>QuantizerMap_opaque\<close> and
  \<open>QuantizerWu_opaque\<close>); \<open>QuantizerWsmeans\<close> never tests the alpha channel, and
  \<open>QuantizerCelebi\<close> hands it the unfiltered pixels. On the single pixel \<open>0x80FF0000\<close>
  (alpha 128), with \<open>maxColors\<close> 1 and every random draw 1/2: the map quantizer counts
  nothing, while the k-means quantizer, alone (started from \<open>0xFFFF0000\<close>) and after any
  result of Wu's stages, returns one colour with population 1; on the opaque
  subsequence, which is empty, both return the empty map.
\<close>

theorem quantizers_translucent_pixel:
  "filter isOpaque [2164195328] = []
   \<and> QuantizerMap_quantize [2164195328] = []
   \<and> QuantizerWsmeans_quantize (\<lambda>k. 1 / 2) [2164195328] [4294901760] 1
       = Inr [(LabPointProvider_toInt (LabPointProvider_fromInt 2164195328), 1)]
   \<and> QuantizerWsmeans_quantize (\<lambda>k. 1 / 2) (filter isOpaque [2164195328]) [4294901760] 1 = Inr []
   \<and> QuantizerCelebi_quantize boxes (\<lambda>k. 1 / 2) [2164195328] 1
       = Inr [(LabPointProvider_toInt (LabPointProvider_fromInt 2164195328), 1)]
   \<and> QuantizerCelebi_quantize boxes (\<lambda>k. 1 / 2) (filter isOpaque [2164195328]) 1 = Inr []"
proof -
  have m: "QuantizerMap_quantize [2164195328] = []"
    by (simp add: QuantizerMap_quantize_def QuantizerMap_step_def alpha_half)
  have one: "(1::nat) = Suc 0" by simp
  show ?thesis
    unfolding not_opaque QuantizerCelebi_quantize_def Let_def one wsmeans_one_pixel
      wsmeans_no_pixel m
    by simp
qed


end
